(* ===== verification/Prelude.thy ===== *)
theory Prelude
  imports Main
begin

text \<open>
  Shared vocabulary of the development: the Python exceptions the scripts can raise
  (\<open>py_error\<close>), the exception-state monad \<open>('s, 'a) pyexec\<close> in which every script
  runs (a Python exception aborts the rest of the script but keeps the effects already
  made), and the string primitives of the Python standard library that the scripts call:
  \<open>str.startswith\<close>, the substring test \<open>in\<close>, \<open>str.split(sep)\<close> with a one-character
  separator, \<open>bytes.strip()\<close>, and \<open>posixpath.join\<close>/\<open>posixpath.dirname\<close>.
  The collection \<open>pyexec_simps\<close> evaluates monadic code on a concrete state.
\<close>

named_theorems pyexec_simps "evaluation rules of the exception-state monad"

section \<open>Python exceptions\<close>

datatype py_error =
    NotFound string            \<comment> \<open>\<open>FileNotFoundError\<close> opening a file for reading\<close>
  | IOErr string               \<comment> \<open>\<open>OSError\<close> opening a file for writing\<close>
  | IndexError                 \<comment> \<open>list index out of range\<close>
  | ExecNotFound string        \<comment> \<open>\<open>FileNotFoundError\<close> from \<open>subprocess\<close>: no such program\<close>
  | CalledProcessError string  \<comment> \<open>\<open>check_output\<close> of a command with non-zero exit status\<close>
  | SameFileError string       \<comment> \<open>\<open>shutil.copyfile\<close> onto its own source\<close>
  | FileExistsError string     \<comment> \<open>\<open>os.makedirs\<close> where a file is in the way\<close>
  | UsageError string          \<comment> \<open>\<open>argparse\<close> exits on a missing required option\<close>
  | AttributeError string      \<comment> \<open>attribute access on \<open>None\<close>\<close>
  | TypeError string           \<comment> \<open>\<open>None\<close> where a string is needed\<close>

section \<open>The exception-state monad\<close>

type_synonym ('s, 'a) pyexec = "'s \<Rightarrow> (py_error + 'a) \<times> 's"

definition ret :: "'a \<Rightarrow> ('s, 'a) pyexec" where
  "ret x = (\<lambda>s. (Inr x, s))"

definition raise :: "py_error \<Rightarrow> ('s, 'a) pyexec" where
  "raise e = (\<lambda>s. (Inl e, s))"

definition bindE :: "('s, 'a) pyexec \<Rightarrow> ('a \<Rightarrow> ('s, 'b) pyexec) \<Rightarrow> ('s, 'b) pyexec" where
  "bindE m f = (\<lambda>s. case m s of (Inl e, s') \<Rightarrow> (Inl e, s') | (Inr x, s') \<Rightarrow> f x s')"

definition seqE :: "('s, unit) pyexec \<Rightarrow> ('s, 'b) pyexec \<Rightarrow> ('s, 'b) pyexec" where
  "seqE m n = bindE m (\<lambda>_. n)"

definition gets :: "('s \<Rightarrow> 'a) \<Rightarrow> ('s, 'a) pyexec" where
  "gets f = (\<lambda>s. (Inr (f s), s))"

definition modify :: "('s \<Rightarrow> 's) \<Rightarrow> ('s, unit) pyexec" where
  "modify f = (\<lambda>s. (Inr (), f s))"

text \<open>An \<open>if\<close> statement without \<open>else\<close>.\<close>

definition whenE :: "bool \<Rightarrow> ('s, unit) pyexec \<Rightarrow> ('s, unit) pyexec" where
  "whenE b m = (if b then m else ret ())"

text \<open>An expression statement: the value is computed and thrown away.\<close>

definition expr_stmt :: "('s, 'a) pyexec \<Rightarrow> ('s, unit) pyexec" where
  "expr_stmt m = bindE m (\<lambda>_. ret ())"

text \<open>A Python \<open>for\<close> loop over a list whose body may raise.\<close>

primrec forE :: "'a list \<Rightarrow> ('a \<Rightarrow> ('s, unit) pyexec) \<Rightarrow> ('s, unit) pyexec" where
  "forE [] f = ret ()"
| "forE (x # xs) f = seqE (f x) (forE xs f)"

lemma ret_apply [simp, pyexec_simps]: "ret x s = (Inr x, s)"
  by (simp add: ret_def)

lemma raise_apply [simp, pyexec_simps]: "raise e s = (Inl e, s)"
  by (simp add: raise_def)

lemma gets_apply [simp, pyexec_simps]: "gets f s = (Inr (f s), s)"
  by (simp add: gets_def)

lemma modify_apply [simp, pyexec_simps]: "modify f s = (Inr (), f s)"
  by (simp add: modify_def)

lemma bindE_apply [simp, pyexec_simps]:
  "bindE m f s = (case m s of (Inl e, s') \<Rightarrow> (Inl e, s') | (Inr x, s') \<Rightarrow> f x s')"
  by (simp add: bindE_def)

lemma seqE_apply [simp, pyexec_simps]:
  "seqE m n s = (case m s of (Inl e, s') \<Rightarrow> (Inl e, s') | (Inr x, s') \<Rightarrow> n s')"
  by (simp add: seqE_def)

lemma whenE_apply [simp, pyexec_simps]: "whenE b m s = (if b then m s else (Inr (), s))"
  by (simp add: whenE_def)

lemma expr_stmt_apply [simp, pyexec_simps]:
  "expr_stmt m s = (case m s of (Inl e, s') \<Rightarrow> (Inl e, s') | (Inr x, s') \<Rightarrow> (Inr (), s'))"
  unfolding expr_stmt_def bindE_def ret_def by simp

lemma bindE_ret_left: "bindE (ret x) f = f x"
  by (simp add: fun_eq_iff)

lemma bindE_ret_right: "bindE m ret = m"
  by (simp add: fun_eq_iff split: prod.splits sum.splits)

lemma bindE_assoc: "bindE (bindE m f) g = bindE m (\<lambda>x. bindE (f x) g)"
  by (simp add: fun_eq_iff split: prod.splits sum.splits)

lemma bindE_raise: "bindE (raise e) f = raise e"
  by (simp add: fun_eq_iff)

text \<open>Running a sequence: the first command's outcome decides whether the second runs.\<close>

lemma seqE_Inr: "m s = (Inr u, s') \<Longrightarrow> seqE m n s = n s'"
  by simp

lemma seqE_Inl: "m s = (Inl e, s') \<Longrightarrow> seqE m n s = (Inl e, s')"
  by simp

lemma forE_append: "forE (xs @ ys) f = seqE (forE xs f) (forE ys f)"
  by (induction xs) (simp_all add: fun_eq_iff split: prod.splits sum.splits)

text \<open>Python's \<open>xs[i]\<close> for an index \<open>i \<ge> 0\<close>: \<open>IndexError\<close> past the end.\<close>

definition py_index :: "'a list \<Rightarrow> nat \<Rightarrow> py_error + 'a" where
  "py_index xs i = (if i < length xs then Inr (xs ! i) else Inl IndexError)"

lemma py_index_Inr [simp]: "i < length xs \<Longrightarrow> py_index xs i = Inr (xs ! i)"
  by (simp add: py_index_def)

lemma py_index_Inl [simp]: "length xs \<le> i \<Longrightarrow> py_index xs i = Inl IndexError"
  by (simp add: py_index_def)

section \<open>Prefixes and substrings\<close>

text \<open>\<open>s.startswith(k)\<close>, and the substring test \<open>k in s\<close>.\<close>

fun starts_with :: "'a list \<Rightarrow> 'a list \<Rightarrow> bool" where
  "starts_with [] s = True"
| "starts_with (x # xs) [] = False"
| "starts_with (x # xs) (y # ys) = (x = y \<and> starts_with xs ys)"

fun contains :: "'a list \<Rightarrow> 'a list \<Rightarrow> bool" where
  "contains k [] = (k = [])"
| "contains k (c # cs) = (starts_with k (c # cs) \<or> contains k cs)"

lemma starts_with_iff: "starts_with k s \<longleftrightarrow> (\<exists>r. s = k @ r)"
  by (induction k s rule: starts_with.induct) auto

lemma starts_with_append [simp]: "starts_with k (k @ r)"
  by (simp add: starts_with_iff)

lemma starts_with_take: "starts_with k s \<longleftrightarrow> take (length k) s = k"
  by (induction k s rule: starts_with.induct) auto

lemma starts_with_length: "starts_with k s \<Longrightarrow> length k \<le> length s"
  by (auto simp: starts_with_iff)

lemma starts_with_drop: "starts_with k s \<Longrightarrow> k @ drop (length k) s = s"
  by (auto simp: starts_with_iff)

lemma starts_with_append_iff:
  "length k \<le> length a \<Longrightarrow> starts_with k (a @ b) \<longleftrightarrow> starts_with k a"
  by (simp add: starts_with_take)

lemma contains_iff: "contains k s \<longleftrightarrow> (\<exists>a b. s = a @ k @ b)"
proof (induction s)
  case Nil
  then show ?case by simp
next
  case (Cons c cs)
  have "(\<exists>a b. c # cs = a @ k @ b) \<longleftrightarrow> starts_with k (c # cs) \<or> (\<exists>a b. cs = a @ k @ b)"
    by (auto simp: starts_with_iff Cons_eq_append_conv)
  with Cons.IH show ?case by simp
qed

lemma starts_with_hd: "starts_with k (c # s) \<Longrightarrow> k \<noteq> [] \<Longrightarrow> hd k = c"
  by (cases k) auto

lemma starts_with_both:
  "starts_with a s \<Longrightarrow> starts_with b s \<Longrightarrow> starts_with a b \<or> starts_with b a"
  unfolding starts_with_iff by (metis append_eq_append_conv2 append.assoc)

text \<open>Two strings cut at the first occurrence of a separator that neither head contains.\<close>

lemma append_sep_eq:
  "c \<notin> set a \<Longrightarrow> c \<notin> set b \<Longrightarrow> a @ c # r = b @ c # r' \<Longrightarrow> a = b \<and> r = r'"
proof (induction a arbitrary: b)
  case Nil
  then show ?case by (cases b) auto
next
  case (Cons x a)
  then show ?case by (cases b) auto
qed

lemma contains_Nil [simp]: "contains [] s"
  by (cases s) simp_all

section \<open>\<open>str.split\<close> and \<open>str.join\<close> with a one-character separator\<close>

text \<open>
  \<open>s.split(c)\<close> cuts at every occurrence of \<open>c\<close>; it never returns an empty list
  (\<open>''.split('.') == ['']\<close>), and \<open>n\<close> separators give \<open>n + 1\<close> parts.
\<close>

fun py_split :: "'a \<Rightarrow> 'a list \<Rightarrow> 'a list list" where
  "py_split c [] = [[]]"
| "py_split c (x # xs) =
     (if x = c then [] # py_split c xs
      else (x # hd (py_split c xs)) # tl (py_split c xs))"

fun py_join :: "'a \<Rightarrow> 'a list list \<Rightarrow> 'a list" where
  "py_join c [] = []"
| "py_join c [p] = p"
| "py_join c (p # ps) = p @ c # py_join c ps"

lemma py_split_not_Nil [simp]: "py_split c s \<noteq> []"
  by (induction s) auto

lemma py_join_Cons: "ps \<noteq> [] \<Longrightarrow> py_join c (p # ps) = p @ c # py_join c ps"
  by (cases ps) auto

lemma py_join_hd_tl: "ps \<noteq> [] \<Longrightarrow> py_join c ((x # hd ps) # tl ps) = x # py_join c ps"
  by (cases ps; cases "tl ps") auto

lemma py_join_split: "py_join c (py_split c s) = s"
  by (induction s) (auto simp: py_join_Cons py_join_hd_tl)

lemma py_split_parts: "p \<in> set (py_split c s) \<Longrightarrow> c \<notin> set p"
proof (induction s arbitrary: p)
  case Nil
  then show ?case by simp
next
  case (Cons x xs)
  have "hd (py_split c xs) \<in> set (py_split c xs)" by simp
  moreover have "\<And>q. q \<in> set (tl (py_split c xs)) \<Longrightarrow> q \<in> set (py_split c xs)"
    by (cases "py_split c xs") auto
  ultimately show ?case using Cons by (auto split: if_splits)
qed

lemma length_py_split: "length (py_split c s) = Suc (count_list s c)"
  by (induction s) auto

lemma py_split_no_sep: "c \<notin> set s \<Longrightarrow> py_split c s = [s]"
  by (induction s) auto

lemma py_split_append_sep:
  "c \<notin> set p \<Longrightarrow> py_split c (p @ c # s) = p # py_split c s"
  by (induction p) auto

lemma py_split_join:
  "ps \<noteq> [] \<Longrightarrow> (\<forall>p \<in> set ps. c \<notin> set p) \<Longrightarrow> py_split c (py_join c ps) = ps"
proof (induction ps rule: py_join.induct)
  case (3 c p q qs)
  then show ?case by (simp add: py_split_append_sep)
qed (simp_all add: py_split_no_sep)

section \<open>\<open>bytes.strip()\<close>\<close>

definition py_isspace :: "char \<Rightarrow> bool" where
  "py_isspace c \<longleftrightarrow> c \<in> {CHR '' '', CHR 0x09, CHR 0x0A, CHR 0x0B, CHR 0x0C, CHR 0x0D}"

definition py_strip :: "string \<Rightarrow> string" where
  "py_strip s = rev (dropWhile py_isspace (rev (dropWhile py_isspace s)))"

section \<open>\<open>posixpath.join\<close> and \<open>posixpath.dirname\<close>\<close>

definition path_join :: "string \<Rightarrow> string \<Rightarrow> string" where
  "path_join a b =
     (if starts_with ''/'' b then b
      else if a = [] \<or> last a = CHR ''/'' then a @ b
      else a @ CHR ''/'' # b)"

text \<open>
  \<open>dirname\<close>: everything up to the last \<open>/\<close>, with trailing slashes removed unless
  the head consists of slashes only.
\<close>

definition path_dirname :: "string \<Rightarrow> string" where
  "path_dirname p =
     (let head = rev (dropWhile (\<lambda>c. c \<noteq> CHR ''/'') (rev p))
      in if head \<noteq> [] \<and> (\<exists>c \<in> set head. c \<noteq> CHR ''/'')
         then rev (dropWhile (\<lambda>c. c = CHR ''/'') (rev head))
         else head)"

lemma path_join_relative:
  "\<not> starts_with ''/'' b \<Longrightarrow> a \<noteq> [] \<Longrightarrow> last a \<noteq> CHR ''/'' \<Longrightarrow> path_join a b = a @ CHR ''/'' # b"
  by (simp add: path_join_def)

text \<open>\<open>posixpath.join\<close> with a relative second part appends it to a common prefix.\<close>

definition join_prefix :: "string \<Rightarrow> string" where
  "join_prefix a = (if a = [] \<or> last a = CHR ''/'' then a else a @ ''/'')"

lemma path_join_rel: "\<not> starts_with ''/'' b \<Longrightarrow> path_join a b = join_prefix a @ b"
  by (simp add: path_join_def join_prefix_def)

lemma path_join_plain [simp]:
  "b \<noteq> [] \<Longrightarrow> hd b \<noteq> CHR ''/'' \<Longrightarrow> path_join a b = join_prefix a @ b"
  by (cases b) (simp_all add: path_join_rel)

lemma strip_newline:
  assumes "v = [] \<or> (\<not> py_isspace (hd v) \<and> \<not> py_isspace (last v))"
  shows "py_strip (v @ ''\<newline>'') = v"
proof (cases "v = []")
  case True
  then show ?thesis by (simp add: py_strip_def py_isspace_def)
next
  case False
  with assms have h: "\<not> py_isspace (hd v)" and l: "\<not> py_isspace (last v)" by auto
  from False h have "dropWhile py_isspace (v @ ''\<newline>'') = v @ ''\<newline>''"
    by (cases v) simp_all
  moreover from False l have "dropWhile py_isspace (rev v) = rev v"
    by (cases "rev v") (simp_all add: hd_rev [symmetric])
  ultimately show ?thesis by (simp add: py_strip_def py_isspace_def)
qed

lemma shorter_neq_append: "length xs < length ys \<Longrightarrow> (xs = zs @ ys) = False"
  by auto

end
