(* ===== verification/PyDict.thy ===== *)
theory PyDict
  imports Prelude
begin

text \<open>
  Python dictionaries as the scripts use them: \<open>{k1: v1, ...}\<close> displays,
  \<open>d.update(e)\<close>, lookup, and iteration in insertion order. A dict is an association
  list whose order is the insertion order; assigning an existing key keeps its position
  and replaces its value, a new key goes to the end. The abstraction to a HOL map is
  \<open>map_of\<close>; the lemmas show that \<open>dict_set\<close> refines map update and that
  \<open>dict_update\<close> refines \<open>++\<close> (the later dict overrides the earlier one), that the
  invariant "keys are distinct" is kept, and how the key order evolves.
\<close>

type_synonym ('k, 'v) pydict = "('k \<times> 'v) list"

fun dict_set :: "('k, 'v) pydict \<Rightarrow> 'k \<Rightarrow> 'v \<Rightarrow> ('k, 'v) pydict" where
  "dict_set [] k v = [(k, v)]"
| "dict_set ((k', v') # d) k v =
     (if k' = k then (k, v) # d else (k', v') # dict_set d k v)"

definition dict_update :: "('k, 'v) pydict \<Rightarrow> ('k, 'v) pydict \<Rightarrow> ('k, 'v) pydict" where
  "dict_update d e = fold (\<lambda>(k, v) d. dict_set d k v) e d"

text \<open>A display \<open>{k1: v1, k2: v2, ...}\<close> stores its items left to right.\<close>

definition dict_lit :: "('k \<times> 'v) list \<Rightarrow> ('k, 'v) pydict" where
  "dict_lit ps = dict_update [] ps"

definition dict_inv :: "('k, 'v) pydict \<Rightarrow> bool" where
  "dict_inv d \<longleftrightarrow> distinct (map fst d)"

lemma dict_update_Nil [simp]: "dict_update d [] = d"
  by (simp add: dict_update_def)

lemma dict_update_Cons [simp]:
  "dict_update d ((k, v) # e) = dict_update (dict_set d k v) e"
  by (simp add: dict_update_def)

lemma dict_update_append: "dict_update d (e1 @ e2) = dict_update (dict_update d e1) e2"
  by (simp add: dict_update_def)

subsection \<open>Refinement of HOL maps\<close>

lemma map_of_dict_set [simp]: "map_of (dict_set d k v) = (map_of d)(k \<mapsto> v)"
  by (induction d) (auto simp: fun_eq_iff)

lemma map_of_dict_update: "map_of (dict_update d e) = map_of d ++ map_of (rev e)"
proof (induction e arbitrary: d)
  case Nil
  then show ?case by simp
next
  case (Cons kv e)
  obtain k v where kv: "kv = (k, v)" by fastforce
  have "map_of (rev (kv # e)) = map_of [(k, v)] ++ map_of (rev e)"
    by (simp add: kv map_of_append)
  with Cons.IH show ?case by (auto simp: kv map_add_def fun_eq_iff split: option.splits)
qed

lemma map_of_rev_distinct:
  assumes "distinct (map fst e)"
  shows "map_of (rev e) = map_of e"
proof
  fix x
  have d: "distinct (map fst (rev e))" using assms by (simp add: rev_map [symmetric])
  show "map_of (rev e) x = map_of e x"
  proof (cases "map_of e x")
    case None
    then show ?thesis by (metis map_of_eq_None_iff set_rev)
  next
    case (Some y)
    with assms have "(x, y) \<in> set (rev e)" by (simp add: map_of_eq_Some_iff)
    with Some d show ?thesis by (simp add: map_of_eq_Some_iff)
  qed
qed

lemma map_of_dict_lit: "map_of (dict_lit ps) = map_of (rev ps)"
  by (simp add: dict_lit_def map_of_dict_update)

text \<open>The override rule of \<open>d.update(e)\<close>, stated per key.\<close>

lemma dict_update_lookup:
  "dict_inv e \<Longrightarrow>
   map_of (dict_update d e) k = (case map_of e k of Some v \<Rightarrow> Some v | None \<Rightarrow> map_of d k)"
  by (simp add: map_of_dict_update map_of_rev_distinct dict_inv_def map_add_def
      split: option.splits)

subsection \<open>Keys and their order\<close>

lemma keys_dict_set:
  "map fst (dict_set d k v) = (if k \<in> set (map fst d) then map fst d else map fst d @ [k])"
  by (induction d) force+

lemma set_keys_dict_set: "fst ` set (dict_set d k v) = insert k (fst ` set d)"
  by (induction d k v rule: dict_set.induct) force+

lemma set_keys_dict_update:
  "fst ` set (dict_update d e) = fst ` set d \<union> fst ` set e"
proof (induction e arbitrary: d)
  case (Cons kv e)
  then show ?case by (cases kv) (simp add: set_keys_dict_set)
qed simp

lemma keys_dict_update_prefix:
  "\<exists>ks. map fst (dict_update d e) = map fst d @ ks"
proof (induction e arbitrary: d)
  case Nil
  then show ?case by simp
next
  case (Cons kv e)
  obtain k v where kv: "kv = (k, v)" by fastforce
  obtain ks where "map fst (dict_update (dict_set d k v) e) = map fst (dict_set d k v) @ ks"
    using Cons.IH by blast
  then show ?case by (auto simp: kv keys_dict_set)
qed

lemma dict_inv_Nil [simp]: "dict_inv []"
  by (simp add: dict_inv_def)

lemma dict_inv_dict_set: "dict_inv d \<Longrightarrow> dict_inv (dict_set d k v)"
  by (simp add: dict_inv_def keys_dict_set)

lemma dict_inv_dict_update: "dict_inv d \<Longrightarrow> dict_inv (dict_update d e)"
proof (induction e arbitrary: d)
  case (Cons kv e)
  then show ?case by (cases kv) (simp add: dict_inv_dict_set)
qed simp

lemma dict_inv_dict_lit: "dict_inv (dict_lit ps)"
  by (simp add: dict_lit_def dict_inv_dict_update)

lemma set_dict_set_sub: "set (dict_set d k v) \<subseteq> insert (k, v) (set d)"
  by (induction d k v rule: dict_set.induct) auto

lemma set_dict_update_sub: "set (dict_update d e) \<subseteq> set d \<union> set e"
proof (induction e arbitrary: d)
  case (Cons kv e)
  then show ?case using set_dict_set_sub by (cases kv) fastforce
qed simp

end
