(* ===== verification/PyOs.thy ===== *)
theory PyOs
  imports Prelude
begin

text \<open>
  The part of the operating system the scripts touch: a file system of text files and
  directories. \<open>files\<close> maps a path to its contents, \<open>dirs\<close> lists the directories that
  exist, \<open>readonly\<close> the paths where opening for writing is refused (permissions).
  The operations are the library calls of the scripts: \<open>open(p).read()\<close>,
  \<open>open(p, 'w').write(t)\<close>, \<open>os.path.isfile\<close>, \<open>os.path.exists\<close>,
  \<open>shutil.copyfile\<close> and \<open>os.makedirs(p, exist_ok=True)\<close>, each in the monad of the
  theory Prelude over any extension of the file-system record, so
  that the post-install world (which adds environment and processes) reuses them.
  Each failure raises the Python exception and leaves the state as it was.
\<close>

record fs =
  files :: "string \<rightharpoonup> string"
  dirs :: "string list"
  readonly :: "string list"

definition dir_exists :: "'a fs_scheme \<Rightarrow> string \<Rightarrow> bool" where
  "dir_exists s d \<longleftrightarrow> d = [] \<or> d \<in> set (dirs s)"

definition isfile :: "'a fs_scheme \<Rightarrow> string \<Rightarrow> bool" where
  "isfile s p \<longleftrightarrow> files s p \<noteq> None"

definition path_exists :: "'a fs_scheme \<Rightarrow> string \<Rightarrow> bool" where
  "path_exists s p \<longleftrightarrow> isfile s p \<or> (p \<noteq> [] \<and> p \<in> set (dirs s))"

definition can_write :: "'a fs_scheme \<Rightarrow> string \<Rightarrow> bool" where
  "can_write s p \<longleftrightarrow>
     dir_exists s (path_dirname p) \<and> p \<notin> set (readonly s) \<and> p \<notin> set (dirs s)"

definition read_file :: "string \<Rightarrow> ('a fs_scheme, string) pyexec" where
  "read_file p = (\<lambda>s. case files s p of
      None \<Rightarrow> (Inl (NotFound p), s)
    | Some t \<Rightarrow> (Inr t, s))"

definition write_file :: "string \<Rightarrow> string \<Rightarrow> ('a fs_scheme, unit) pyexec" where
  "write_file p t = (\<lambda>s.
     if can_write s p then (Inr (), s\<lparr>files := (files s)(p \<mapsto> t)\<rparr>)
     else (Inl (IOErr p), s))"

text \<open>\<open>shutil.copyfile\<close> first refuses to copy an existing file onto itself.\<close>

definition copyfile :: "string \<Rightarrow> string \<Rightarrow> ('a fs_scheme, unit) pyexec" where
  "copyfile src dst = (\<lambda>s.
     if src = dst \<and> isfile s src then (Inl (SameFileError src), s)
     else bindE (read_file src) (write_file dst) s)"

text \<open>
  The directories \<open>os.makedirs\<close> creates: every proper prefix of the path that ends
  before a separator, then the path itself.
\<close>

fun path_prefixes :: "string \<Rightarrow> string \<Rightarrow> string list" where
  "path_prefixes acc [] = (if acc = [] then [] else [acc])"
| "path_prefixes acc (c # cs) =
     (if c = CHR ''/'' \<and> acc \<noteq> [] \<and> last acc \<noteq> CHR ''/''
      then acc # path_prefixes (acc @ [c]) cs
      else path_prefixes (acc @ [c]) cs)"

definition makedirs :: "string \<Rightarrow> ('a fs_scheme, unit) pyexec" where
  "makedirs p = (\<lambda>s.
     let ds = path_prefixes [] p in
     if (\<exists>d \<in> set ds. isfile s d) then (Inl (FileExistsError p), s)
     else (Inr (), s\<lparr>dirs := dirs s @ filter (\<lambda>d. d \<notin> set (dirs s)) ds\<rparr>))"

lemmas fs_ops_defs [pyexec_simps] =
  read_file_def write_file_def copyfile_def makedirs_def isfile_def path_exists_def
  can_write_def dir_exists_def

subsection \<open>Behaviour of each operation\<close>

lemma read_file_state: "read_file p s = (r, s') \<Longrightarrow> s' = s"
  by (auto simp: read_file_def split: option.splits)

lemma read_file_Inr: "read_file p s = (Inr t, s') \<longleftrightarrow> files s p = Some t \<and> s' = s"
  by (auto simp: read_file_def split: option.splits)

lemma read_file_Inl: "read_file p s = (Inl e, s') \<longleftrightarrow> files s p = None \<and> e = NotFound p \<and> s' = s"
  by (auto simp: read_file_def split: option.splits)

lemma write_file_Inr:
  "write_file p t s = (Inr u, s') \<longleftrightarrow> can_write s p \<and> s' = s\<lparr>files := (files s)(p \<mapsto> t)\<rparr>"
  by (auto simp: write_file_def)

lemma write_file_Inl:
  "write_file p t s = (Inl e, s') \<longleftrightarrow> \<not> can_write s p \<and> e = IOErr p \<and> s' = s"
  by (auto simp: write_file_def)

lemma write_file_files:
  "write_file p t s = (r, s') \<Longrightarrow> files s' q = (if q = p \<and> r = Inr () then Some t else files s q)"
  by (auto simp: write_file_def split: if_splits)

lemma write_file_dirs: "write_file p t s = (r, s') \<Longrightarrow> dirs s' = dirs s \<and> readonly s' = readonly s"
  by (auto simp: write_file_def split: if_splits)

lemma write_file_more: "write_file p t s = (r, s') \<Longrightarrow> fs.more s' = fs.more s"
  by (auto simp: write_file_def split: if_splits)

lemma makedirs_files: "makedirs p s = (r, s') \<Longrightarrow> files s' = files s"
  by (auto simp: makedirs_def Let_def split: if_splits)

lemma makedirs_more: "makedirs p s = (r, s') \<Longrightarrow> fs.more s' = fs.more s"
  by (auto simp: makedirs_def Let_def split: if_splits)

lemma path_prefixes_prefix: "d \<in> set (path_prefixes acc p) \<Longrightarrow> starts_with d (acc @ p)"
  by (induction acc p rule: path_prefixes.induct)
    (auto simp: starts_with_iff split: if_splits)

lemma makedirs_ok:
  "\<forall>d \<in> set (path_prefixes [] p). \<not> isfile s d \<Longrightarrow>
   makedirs p s = (Inr (), s\<lparr>dirs := dirs s @ filter (\<lambda>d. d \<notin> set (dirs s)) (path_prefixes [] p)\<rparr>)"
  by (auto simp: makedirs_def Let_def)

lemma can_write_more_dirs:
  "can_write s p \<Longrightarrow> p \<notin> set ds \<Longrightarrow> can_write (s\<lparr>dirs := dirs s @ ds\<rparr>) p"
  by (auto simp: can_write_def dir_exists_def)

lemma can_write_files_upd [simp]: "can_write (s\<lparr>files := f\<rparr>) p = can_write s p"
  by (simp add: can_write_def dir_exists_def)

end
