(* ===== verification/Template.thy ===== *)
theory Template
  imports PyDict PyOs
begin

text \<open>
  The template renderer \<open>replace_multi(src, dest, items)\<close> of the helper module
  \<open>replace\<close> that both generator scripts import (\<open>src/win32/ctkpc.py\<close> line 14,
  \<open>src/win32/gen-cdkversionmacros-h.py\<close> line 12). The module is not among the
  sources, so it is modelled from its contract in the spec (section 4.1): read the whole
  template, replace every occurrence of every mapping key literally in a single pass
  (a replacement is never rescanned), write the result, creating or overwriting the
  output; a missing template raises \<open>NotFound\<close>, an unwritable output \<open>IOError\<close>.
  The scan is the one of an alternation of the escaped keys: at each position the first
  key of the mapping, in the dict's order, that starts there is replaced, otherwise one
  character is copied. Empty keys never match.

  The lemmas: the single-pass scanner terminates (measure: the length of the rest);
  text containing no key is copied verbatim; the result does not depend on the mapping's
  order when no key is a prefix of another; on a template of text and \<open>@NAME@\<close>
  holes the output is the concatenation of the pieces with every mapped hole replaced;
  \<open>replace_multi\<close> changes exactly its output file or fails with the state unchanged;
  a batch stops at its first failing job, keeping the outputs already written.
\<close>

section \<open>Single-pass substitution\<close>

definition find_key :: "(string, string) pydict \<Rightarrow> string \<Rightarrow> (string \<times> string) option" where
  "find_key m s = find (\<lambda>(k, v). k \<noteq> [] \<and> starts_with k s) m"

lemma find_key_Some:
  "find_key m s = Some (k, v) \<Longrightarrow> (k, v) \<in> set m \<and> k \<noteq> [] \<and> starts_with k s"
  by (induction m) (auto simp: find_key_def split: if_splits)

lemma find_key_None:
  "find_key m s = None \<longleftrightarrow> (\<forall>(k, v) \<in> set m. k = [] \<or> \<not> starts_with k s)"
  by (auto simp: find_key_def find_None_iff)

function subst :: "(string, string) pydict \<Rightarrow> string \<Rightarrow> string" where
  "subst m [] = []"
| "subst m (c # cs) =
     (case find_key m (c # cs) of
        None \<Rightarrow> c # subst m cs
      | Some (k, v) \<Rightarrow> v @ subst m (drop (length k) (c # cs)))"
  by pat_completeness auto
termination
  by (relation "measure (\<lambda>(m, s). length s)") (auto dest!: find_key_Some)

text \<open>The file operation and the batch of jobs.\<close>

definition replace_multi ::
  "string \<Rightarrow> string \<Rightarrow> (string, string) pydict \<Rightarrow> ('a fs_scheme, unit) pyexec" where
  "replace_multi src dest items =
     bindE (read_file src) (\<lambda>t. write_file dest (subst items t))"

type_synonym render_job = "string \<times> string \<times> (string, string) pydict"

definition replace_batch :: "render_job list \<Rightarrow> ('a fs_scheme, unit) pyexec" where
  "replace_batch js = forE js (\<lambda>(src, dest, items). replace_multi src dest items)"

text \<open>
  The reference the spec warns against: one \<open>str.replace\<close> pass per key, in the
  mapping's order, each pass rescanning the output of the previous ones.
\<close>

definition subst_seq :: "(string, string) pydict \<Rightarrow> string \<Rightarrow> string" where
  "subst_seq m s = fold (\<lambda>kv t. subst [kv] t) m s"

section \<open>Templates of text and placeholders\<close>

text \<open>
  The spec's view of a template: text and placeholder tokens \<open>@NAME@\<close>, where a name
  is non-empty and contains no \<open>@\<close>.
\<close>

datatype piece = Text string | Hole string

definition tok :: "string \<Rightarrow> string" where
  "tok n = CHR ''@'' # n @ [CHR ''@'']"

definition is_token :: "string \<Rightarrow> bool" where
  "is_token k \<longleftrightarrow>
     3 \<le> length k \<and> hd k = CHR ''@'' \<and> last k = CHR ''@'' \<and> CHR ''@'' \<notin> set (butlast (tl k))"

fun render :: "piece list \<Rightarrow> string" where
  "render [] = []"
| "render (Text t # ps) = t @ render ps"
| "render (Hole n # ps) = tok n @ render ps"

fun expand :: "(string, string) pydict \<Rightarrow> piece \<Rightarrow> string" where
  "expand m (Text t) = t"
| "expand m (Hole n) = (case map_of m (tok n) of Some v \<Rightarrow> v | None \<Rightarrow> tok n)"

text \<open>
  A template is well formed for a mapping when its text holds no \<open>@\<close>, its names are
  proper, and the closing \<open>@\<close> of an unmapped placeholder does not open a key together
  with what follows it.
\<close>

fun template_ok :: "(string, string) pydict \<Rightarrow> piece list \<Rightarrow> bool" where
  "template_ok m [] = True"
| "template_ok m (Text t # ps) = (CHR ''@'' \<notin> set t \<and> template_ok m ps)"
| "template_ok m (Hole n # ps) =
     (n \<noteq> [] \<and> CHR ''@'' \<notin> set n \<and>
      (map_of m (tok n) = None \<longrightarrow> find_key m (CHR ''@'' # render ps) = None) \<and>
      template_ok m ps)"

definition prefix_free :: "(string, string) pydict \<Rightarrow> bool" where
  "prefix_free m \<longleftrightarrow>
     (\<forall>(k1, v1) \<in> set m. \<forall>(k2, v2) \<in> set m.
        k1 \<noteq> [] \<and> starts_with k1 k2 \<longrightarrow> (k1, v1) = (k2, v2))"

section \<open>The scanner\<close>

lemma subst_key_prefix:
  assumes "find_key m (k @ r) = Some (k, v)"
  shows "subst m (k @ r) = v @ subst m r"
proof -
  from assms have "k \<noteq> []" by (blast dest: find_key_Some)
  then obtain c k' where k: "k = c # k'" by (cases k) auto
  with assms show ?thesis by simp
qed

lemma subst_unmatched:
  "find_key m (c # r) = None \<Longrightarrow> subst m (c # r) = c # subst m r"
  by simp

text \<open>Text in which no key can start is copied, whatever follows it.\<close>

lemma subst_plain_prefix:
  "(\<forall>(k, v) \<in> set m. k = [] \<or> hd k \<notin> set t) \<Longrightarrow> subst m (t @ r) = t @ subst m r"
proof (induction t)
  case Nil
  then show ?case by simp
next
  case (Cons c t)
  have "find_key m (c # t @ r) = None"
    using Cons.prems by (force simp: find_key_None dest: starts_with_hd)
  moreover have "subst m (t @ r) = t @ subst m r"
    using Cons.prems by (intro Cons.IH) auto
  ultimately show ?case by simp
qed


lemma find_key_Nil [simp]: "find_key [] s = None"
  by (simp add: find_key_def)

lemma find_key_Cons:
  "find_key ((k, v) # m) s = (if k \<noteq> [] \<and> starts_with k s then Some (k, v) else find_key m s)"
  by (simp add: find_key_def)

section \<open>Independence of the mapping's order\<close>

lemma prefix_free_set: "set m' = set m \<Longrightarrow> prefix_free m' = prefix_free m"
  by (simp add: prefix_free_def)

lemma find_key_prefix_free:
  assumes pf: "prefix_free m" and mem: "(k, v) \<in> set m" and "k \<noteq> []" and sw: "starts_with k s"
  shows "find_key m s = Some (k, v)"
proof -
  have "find_key m s \<noteq> None"
  proof
    assume "find_key m s = None"
    with mem \<open>k \<noteq> []\<close> sw show False by (auto simp: find_key_None)
  qed
  then obtain k' v' where fk: "find_key m s = Some (k', v')" by auto
  then have mem': "(k', v') \<in> set m" and "k' \<noteq> []" and sw': "starts_with k' s"
    by (blast dest: find_key_Some)+
  from sw sw' have "starts_with k k' \<or> starts_with k' k" by (rule starts_with_both)
  then have "(k, v) = (k', v')"
    using pf mem mem' \<open>k \<noteq> []\<close> \<open>k' \<noteq> []\<close> unfolding prefix_free_def by fastforce
  with fk show ?thesis by simp
qed

lemma find_key_set_eq:
  assumes pf: "prefix_free m" and eq: "set m' = set m"
  shows "find_key m' s = find_key m s"
proof (cases "find_key m s")
  case None
  then have "find_key m' s = None" using eq by (simp only: find_key_None)
  with None show ?thesis by simp
next
  case (Some kv)
  obtain k v where kv: "kv = (k, v)" by fastforce
  with Some have fk: "find_key m s = Some (k, v)" by simp
  from find_key_Some [OF fk] have "(k, v) \<in> set m" and "k \<noteq> []" "starts_with k s"
    by simp_all
  moreover from \<open>(k, v) \<in> set m\<close> eq have mem: "(k, v) \<in> set m'" by simp
  moreover from pf have "prefix_free m'" by (simp only: prefix_free_set [OF eq])
  ultimately have "find_key m' s = Some (k, v)"
    using find_key_prefix_free [of m' k v s] by blast
  with Some kv show ?thesis by simp
qed

section \<open>Placeholder tokens\<close>

lemma tok_not_Nil [simp]: "tok n \<noteq> []"
  by (simp add: tok_def)

lemma tok_append: "tok n @ r = CHR ''@'' # n @ CHR ''@'' # r"
  by (simp add: tok_def)

lemma is_token_tok: "n \<noteq> [] \<Longrightarrow> CHR ''@'' \<notin> set n \<Longrightarrow> is_token (tok n)"
  by (cases n) (simp_all add: is_token_def tok_def butlast_append)

lemma is_token_iff: "is_token k \<longleftrightarrow> (\<exists>n. k = tok n \<and> n \<noteq> [] \<and> CHR ''@'' \<notin> set n)"
proof
  assume tk: "is_token k"
  let ?n = "butlast (tl k)"
  from tk have "3 \<le> length k" by (auto simp: is_token_def)
  then have "k \<noteq> []" and "tl k \<noteq> []" by (cases k; auto)+
  then have "k = hd k # tl k" and "tl k = ?n @ [last (tl k)]"
    by simp_all
  moreover from \<open>tl k \<noteq> []\<close> have "last (tl k) = last k" by (simp add: last_tl)
  ultimately have eq_k: "k = hd k # ?n @ [last k]" by metis
  from tk have "hd k = CHR ''@''" and "last k = CHR ''@''" by (simp_all add: is_token_def)
  with eq_k have "k = tok ?n" unfolding tok_def by metis
  moreover have "?n \<noteq> []"
  proof
    assume "?n = []"
    then have "length ?n = 0" by (simp only: list.size)
    moreover have "length ?n = length k - 2" by simp
    ultimately show False using \<open>3 \<le> length k\<close> by arith
  qed
  moreover from tk have "CHR ''@'' \<notin> set ?n" by (simp add: is_token_def)
  ultimately show "\<exists>n. k = tok n \<and> n \<noteq> [] \<and> CHR ''@'' \<notin> set n" by blast
next
  assume "\<exists>n. k = tok n \<and> n \<noteq> [] \<and> CHR ''@'' \<notin> set n"
  then show "is_token k" by (auto intro: is_token_tok)
qed

lemma tok_prefix_tok:
  "CHR ''@'' \<notin> set a \<Longrightarrow> CHR ''@'' \<notin> set b \<Longrightarrow> starts_with (tok a) (tok b @ r) \<Longrightarrow> a = b"
  by (auto simp: starts_with_iff tok_def dest: append_sep_eq)

lemma token_starts_at_tok:
  "is_token k \<Longrightarrow> CHR ''@'' \<notin> set n \<Longrightarrow> (k \<noteq> [] \<and> starts_with k (tok n @ r)) \<longleftrightarrow> k = tok n"
  by (auto simp: is_token_iff dest: tok_prefix_tok)

text \<open>Keys that are tokens: the one key that can start at a placeholder is its own.\<close>

lemma find_key_tok:
  "\<forall>(k, v) \<in> set m. is_token k \<Longrightarrow> CHR ''@'' \<notin> set n \<Longrightarrow>
   find_key m (tok n @ r) = map_option (Pair (tok n)) (map_of m (tok n))"
  by (induction m) (auto simp: find_key_Cons token_starts_at_tok)

lemma tokens_no_hd:
  "\<forall>(k, v) \<in> set m. is_token k \<Longrightarrow> CHR ''@'' \<notin> set t \<Longrightarrow> \<forall>(k, v) \<in> set m. k = [] \<or> hd k \<notin> set t"
  by (auto simp: is_token_iff tok_def)

lemma tokens_prefix_free:
  assumes tk: "\<forall>(k, v) \<in> set m. is_token k" and d: "distinct (map fst m)"
  shows "prefix_free m"
  unfolding prefix_free_def
proof (intro ballI impI, clarify)
  fix k1 v1 k2 v2
  assume m1: "(k1, v1) \<in> set m" and m2: "(k2, v2) \<in> set m" and sw: "starts_with k1 k2"
  from tk m1 m2 have "is_token k1" "is_token k2" by auto
  then obtain a b where a: "k1 = tok a" "CHR ''@'' \<notin> set a"
    and b: "k2 = tok b" "CHR ''@'' \<notin> set b"
    unfolding is_token_iff by blast
  from sw a b have "a = b" using tok_prefix_tok [of a b "[]"] by simp
  with a b have "k1 = k2" by simp
  with d m1 m2 show "k1 = k2 \<and> v1 = v2" by (metis eq_key_imp_eq_value)
qed

section \<open>Rendering a template\<close>

lemma subst_unmapped_hole:
  assumes tk: "\<forall>(k, v) \<in> set m. is_token k" and n: "CHR ''@'' \<notin> set n"
    and none: "map_of m (tok n) = None" and after: "find_key m (CHR ''@'' # r) = None"
  shows "subst m (tok n @ r) = tok n @ subst m r"
proof -
  have "find_key m (CHR ''@'' # n @ CHR ''@'' # r) = None"
    using find_key_tok [OF tk n, of r] none by (simp add: tok_append)
  then have "subst m (tok n @ r) = CHR ''@'' # subst m (n @ CHR ''@'' # r)"
    by (simp add: tok_append)
  also have "subst m (n @ CHR ''@'' # r) = n @ subst m (CHR ''@'' # r)"
    using tokens_no_hd [OF tk n] by (rule subst_plain_prefix)
  also have "subst m (CHR ''@'' # r) = CHR ''@'' # subst m r"
    using after by (rule subst_unmatched)
  finally show ?thesis by (simp add: tok_append)
qed

lemma subst_mapped_hole:
  assumes tk: "\<forall>(k, v) \<in> set m. is_token k" and n: "CHR ''@'' \<notin> set n"
    and v: "map_of m (tok n) = Some v"
  shows "subst m (tok n @ r) = v @ subst m r"
  using find_key_tok [OF tk n, of r] v by (simp add: subst_key_prefix)

fun holes :: "piece list \<Rightarrow> string list" where
  "holes [] = []"
| "holes (Text t # ps) = holes ps"
| "holes (Hole n # ps) = n # holes ps"

lemma contains_set: "contains k s \<Longrightarrow> set k \<subseteq> set s"
  by (auto simp: contains_iff)


lemma expand_no_at:
  "\<forall>(k, v) \<in> set m. CHR ''@'' \<notin> set v \<Longrightarrow> template_ok m ps \<Longrightarrow>
   \<forall>n \<in> set (holes ps). map_of m (tok n) \<noteq> None \<Longrightarrow>
   CHR ''@'' \<notin> set (concat (map (expand m) ps))"
  by (induction ps rule: holes.induct) (auto dest: map_of_SomeD split: option.splits)

section \<open>The file operation\<close>

lemma replace_multi_apply:
  "replace_multi src dest m s =
     (case files s src of
        None \<Rightarrow> (Inl (NotFound src), s)
      | Some t \<Rightarrow>
          if can_write s dest then (Inr (), s\<lparr>files := (files s)(dest \<mapsto> subst m t)\<rparr>)
          else (Inl (IOErr dest), s))"
  by (simp add: replace_multi_def read_file_def write_file_def split: option.splits)

lemma replace_multi_Inl_state: "replace_multi src dest m s = (Inl e, s') \<Longrightarrow> s' = s"
  by (auto simp: replace_multi_apply split: option.splits if_splits)

lemma replace_batch_Nil [simp]: "replace_batch [] s = (Inr (), s)"
  by (simp add: replace_batch_def)

lemma replace_batch_Cons:
  "replace_batch ((src, dest, m) # js) = seqE (replace_multi src dest m) (replace_batch js)"
  by (simp add: replace_batch_def)

lemma replace_batch_append:
  "replace_batch (js1 @ js2) = seqE (replace_batch js1) (replace_batch js2)"
  by (simp add: replace_batch_def forE_append)

section \<open>Properties of the renderer\<close>

text \<open>
  On a template made of text without \<open>@\<close> and placeholders \<open>@NAME@\<close>, with a
  mapping whose keys are placeholder tokens, the single-pass substitution replaces each
  mapped placeholder by its value and leaves each unmapped one verbatim (spec 4.1 and
  the example of section 8), as long as the closing \<open>@\<close> of an unmapped placeholder
  does not open a key with the text after it.
\<close>

lemma subst_render:
  "\<forall>(k, v) \<in> set m. is_token k \<Longrightarrow> template_ok m ps \<Longrightarrow>
   subst m (render ps) = concat (map (expand m) ps)"
proof (induction ps rule: render.induct)
  case 1
  then show ?case by simp
next
  case (2 t ps)
  from "2.prems" have t: "CHR ''@'' \<notin> set t" and ok: "template_ok m ps" by simp_all
  have "subst m (t @ render ps) = t @ subst m (render ps)"
    using tokens_no_hd [OF "2.prems"(1) t] by (rule subst_plain_prefix)
  with "2.IH" [OF "2.prems"(1) ok] show ?case by simp
next
  case (3 n ps)
  from "3.prems" have n: "CHR ''@'' \<notin> set n" and ok: "template_ok m ps"
    and after: "map_of m (tok n) = None \<longrightarrow> find_key m (CHR ''@'' # render ps) = None"
    by simp_all
  have IH: "subst m (render ps) = concat (map (expand m) ps)"
    using "3.IH" [OF "3.prems"(1) ok] .
  show ?case
  proof (cases "map_of m (tok n)")
    case None
    with after have "find_key m (CHR ''@'' # render ps) = None" by simp
    with subst_unmapped_hole [OF "3.prems"(1) n None] IH None show ?thesis by simp
  next
    case (Some v)
    with subst_mapped_hole [OF "3.prems"(1) n Some] IH show ?thesis by simp
  qed
qed

lemma subst_spec_example:
  "subst [(''@PKG@'', ''widgetkit''), (''@VER@'', ''3.0.0'')]
     ''Name: @PKG@\<newline>Version: @VER@\<newline>Description: @DESC@'' =
   ''Name: widgetkit\<newline>Version: 3.0.0\<newline>Description: @DESC@''"
proof -
  let ?m = "[(''@PKG@'', ''widgetkit''), (''@VER@'', ''3.0.0'')]"
  let ?ps = "[Text ''Name: '', Hole ''PKG'', Text ''\<newline>Version: '', Hole ''VER'',
              Text ''\<newline>Description: '', Hole ''DESC'']"
  have tk: "\<forall>(k, v) \<in> set ?m. is_token k" by (simp add: is_token_def)
  have ok: "template_ok ?m ?ps" by (simp add: tok_def find_key_def)
  from subst_render [OF tk ok] show ?thesis by (simp add: tok_def)
qed

text \<open>
  When no non-empty key of the mapping is a prefix of another (which holds for
  distinct \<open>@NAME@\<close> tokens, and for the generators' mappings), the substitution does
  not depend on the order in which the mapping lists its entries: the spec's "order of
  replacement across distinct keys must not matter".
\<close>

lemma subst_order_independent:
  "prefix_free m \<Longrightarrow> set m' = set m \<Longrightarrow> subst m' s = subst m s"
proof (induction m s rule: subst.induct)
  case (1 m)
  show ?case by simp
next
  case (2 m c cs)
  have eq: "find_key m' (c # cs) = find_key m (c # cs)"
    using "2.prems" by (rule find_key_set_eq)
  show ?case
  proof (cases "find_key m (c # cs)")
    case None
    with "2.IH"(1) [OF None "2.prems"] eq show ?thesis by simp
  next
    case (Some kv)
    obtain k v where kv: "kv = (k, v)" by fastforce
    with Some "2.IH"(2) [OF Some kv [symmetric] "2.prems"] eq show ?thesis by simp
  qed
qed

lemma subst_order_example:
  "subst [(''cdk-3'', ''cdk-3.0''), (''@CTK_API_VERSION@'', ''3.0'')] ''-lcdk-3 cdk-@CTK_API_VERSION@'' =
   subst [(''@CTK_API_VERSION@'', ''3.0''), (''cdk-3'', ''cdk-3.0'')] ''-lcdk-3 cdk-@CTK_API_VERSION@''"
proof -
  have pf: "prefix_free [(''@CTK_API_VERSION@'', ''3.0''), (''cdk-3'', ''cdk-3.0'')]"
    by (simp add: prefix_free_def)
  have eq: "set [(''cdk-3'', ''cdk-3.0''), (''@CTK_API_VERSION@'', ''3.0'')] =
            set [(''@CTK_API_VERSION@'', ''3.0''), (''cdk-3'', ''cdk-3.0'')]"
    by auto
  show ?thesis by (rule subst_order_independent [OF pf eq])
qed


text \<open>
  With values free of \<open>@\<close> and every placeholder mapped, no key is left in the output.
\<close>

lemma subst_render_complete:
  assumes "\<forall>(k, v) \<in> set m. is_token k \<and> CHR ''@'' \<notin> set v" and "template_ok m ps"
    and "\<forall>n \<in> set (holes ps). map_of m (tok n) \<noteq> None"
  shows "\<forall>(k, v) \<in> set m. \<not> contains k (subst m (render ps))"
proof -
  from assms(1) have tk: "\<forall>(k, v) \<in> set m. is_token k" by auto
  from assms(1) have vals: "\<forall>(k, v) \<in> set m. CHR ''@'' \<notin> set v" by auto
  from vals assms(2,3) have "CHR ''@'' \<notin> set (concat (map (expand m) ps))"
    by (rule expand_no_at)
  then have no_at: "CHR ''@'' \<notin> set (subst m (render ps))"
    using subst_render [OF tk assms(2)] by simp
  show ?thesis
  proof (clarify)
    fix k v
    assume "(k, v) \<in> set m" and "contains k (subst m (render ps))"
    with tk have "CHR ''@'' \<in> set k" and "set k \<subseteq> set (subst m (render ps))"
      by (auto simp: is_token_iff tok_def dest: contains_set)
    with no_at show False by blast
  qed
qed

section \<open>Where the spec's informal claims fail\<close>

text \<open>
  The spec (section 8) promises full substitution "except where a key's value itself
  reintroduces another key's literal text". Single-pass scanning also leaves a key in
  the output when a replacement joins with the text around it, although no value
  contains any key.
\<close>

lemma full_substitution_gap:
  "list_all (\<lambda>(k, v). list_all (\<lambda>(k', v'). \<not> contains k' v) [(''@B@'', ''Y''), (''@XY@'', ''Z'')])
     [(''@B@'', ''Y''), (''@XY@'', ''Z'')] \<and>
   subst [(''@B@'', ''Y''), (''@XY@'', ''Z'')] ''@X@B@@'' = ''@XY@''"
  by (simp add: find_key_def)

text \<open>
  Replacing key by key with \<open>str.replace\<close> is not independent of the order: with the
  keys \<open>cdk-3\<close> and \<open>@CTK_API_VERSION@\<close> of the \<open>.pc\<close> generator, one order yields
  \<open>cdk-3.0.0\<close>. The single pass yields \<open>cdk-3.0\<close> in both orders.
\<close>

lemma sequential_replace_order_dependent:
  "subst_seq [(''@CTK_API_VERSION@'', ''3.0''), (''cdk-3'', ''cdk-3.0'')] ''cdk-@CTK_API_VERSION@''
     = ''cdk-3.0.0'' \<and>
   subst_seq [(''cdk-3'', ''cdk-3.0''), (''@CTK_API_VERSION@'', ''3.0'')] ''cdk-@CTK_API_VERSION@''
     = ''cdk-3.0'' \<and>
   subst [(''@CTK_API_VERSION@'', ''3.0''), (''cdk-3'', ''cdk-3.0'')] ''cdk-@CTK_API_VERSION@''
     = ''cdk-3.0'' \<and>
   subst [(''cdk-3'', ''cdk-3.0''), (''@CTK_API_VERSION@'', ''3.0'')] ''cdk-@CTK_API_VERSION@''
     = ''cdk-3.0''"
  by (simp add: subst_seq_def find_key_def)

text \<open>Keys that are tokens, plus one word without \<open>@\<close>: still prefix-free.\<close>

lemma prefix_free_tokens_and_word:
  assumes d: "distinct (map fst m)" and keys: "\<forall>(k, v) \<in> set m. is_token k \<or> k = w"
    and w: "w \<noteq> []" "CHR ''@'' \<notin> set w"
  shows "prefix_free m"
  unfolding prefix_free_def
proof (intro ballI impI, clarify)
  fix k1 v1 k2 v2
  assume m1: "(k1, v1) \<in> set m" and m2: "(k2, v2) \<in> set m"
    and ne: "k1 \<noteq> []" and sw: "starts_with k1 k2"
  have "k1 = k2"
  proof (cases "is_token k1")
    case True
    then obtain a where a: "k1 = tok a" "CHR ''@'' \<notin> set a" by (auto simp: is_token_iff)
    from sw obtain r where r: "k2 = k1 @ r" by (auto simp: starts_with_iff)
    with a have at: "CHR ''@'' \<in> set k2" by (simp add: tok_def)
    with keys m2 w have "is_token k2" by auto
    then obtain b where b: "k2 = tok b" "CHR ''@'' \<notin> set b" by (auto simp: is_token_iff)
    from sw a b have "a = b" using tok_prefix_tok [of a b "[]"] by simp
    with a b show ?thesis by simp
  next
    case False
    with keys m1 have k1: "k1 = w" by auto
    from sw obtain r where r: "k2 = k1 @ r" by (auto simp: starts_with_iff)
    show ?thesis
    proof (cases "is_token k2")
      case True
      then have "hd k2 = CHR ''@''" by (auto simp: is_token_iff tok_def)
      with r ne k1 w show ?thesis by (cases w) auto
    next
      case False
      with keys m2 k1 show ?thesis by auto
    qed
  qed
  with d m1 m2 show "k1 = k2 \<and> v1 = v2" by (metis eq_key_imp_eq_value)
qed

end
