(* ===== verification/VersionMacros.thy ===== *)
theory VersionMacros
  imports Template
begin

text \<open>
  \<open>src/win32/gen-cdkversionmacros-h.py\<close>: generate \<open>cdk/cdkversionmacros.h\<close> from
  its template by substituting the three components of the \<open>--version\<close> argument.
  \<open>main\<close> locates the \<open>cdk\<close> directory from the script's own path, splits the
  version at dots, builds the mapping of \<open>@CTK_MAJOR_VERSION@\<close>,
  \<open>@CTK_MINOR_VERSION@\<close>, \<open>@CTK_MICRO_VERSION@\<close> (raising \<open>IndexError\<close> when the
  version has fewer than three components) and renders the template with
  \<open>replace_multi\<close>. The \<open>argparse\<close> parser is modelled by its result: the value of
  \<open>--version\<close>, or the usage error when it is missing.
\<close>

text \<open>Lines 15, 16 and 21: \<open>srcdir\<close>, \<open>top_srcdir\<close> and \<open>cdk_sourcedir\<close>.\<close>

definition cdk_sourcedir :: "string \<Rightarrow> string" where
  "cdk_sourcedir script =
     (let srcdir = path_dirname script;
          top_srcdir = path_join srcdir ''..''
      in path_join top_srcdir ''cdk'')"

text \<open>Lines 22 to 26: split the version and index its first three parts.\<close>

definition cdkversionmacro_replace_items :: "string \<Rightarrow> py_error + (string, string) pydict" where
  "cdkversionmacro_replace_items v =
     (let version_parts = py_split CHR ''.'' v in
      case py_index version_parts 0 of Inl e \<Rightarrow> Inl e | Inr major \<Rightarrow>
      case py_index version_parts 1 of Inl e \<Rightarrow> Inl e | Inr minor \<Rightarrow>
      case py_index version_parts 2 of Inl e \<Rightarrow> Inl e | Inr micro \<Rightarrow>
        Inr (dict_lit [(''@CTK_MAJOR_VERSION@'', major),
                       (''@CTK_MINOR_VERSION@'', minor),
                       (''@CTK_MICRO_VERSION@'', micro)]))"

text \<open>
  Lines 14 to 30: \<open>main\<close>. The parser (line 19) makes \<open>--version\<close> required, so
  \<open>args.version\<close> is a string whenever \<open>main\<close> gets past line 20; were it
  \<open>None\<close>, \<open>args.version.split('.')\<close> (line 22) would raise \<open>AttributeError\<close>.
\<close>

definition gen_cdkversionmacros_main :: "string \<Rightarrow> string option \<Rightarrow> ('a fs_scheme, unit) pyexec" where
  "gen_cdkversionmacros_main script version_arg =
     (case version_arg of
        None \<Rightarrow> raise (AttributeError ''split'')
      | Some v \<Rightarrow>
          (case cdkversionmacro_replace_items v of
             Inl e \<Rightarrow> raise e
           | Inr items \<Rightarrow>
               replace_multi (path_join (cdk_sourcedir script) ''cdkversionmacros.h.in'')
                 (path_join (cdk_sourcedir script) ''cdkversionmacros.h'') items))"

abbreviation version_template :: "string \<Rightarrow> string" where
  "version_template script \<equiv> path_join (cdk_sourcedir script) ''cdkversionmacros.h.in''"

abbreviation version_header :: "string \<Rightarrow> string" where
  "version_header script \<equiv> path_join (cdk_sourcedir script) ''cdkversionmacros.h''"

section \<open>The mapping\<close>

lemma cdkversionmacro_replace_items_ok:
  assumes "2 \<le> count_list v CHR ''.''"
  shows "cdkversionmacro_replace_items v =
           Inr [(''@CTK_MAJOR_VERSION@'', py_split CHR ''.'' v ! 0),
                (''@CTK_MINOR_VERSION@'', py_split CHR ''.'' v ! 1),
                (''@CTK_MICRO_VERSION@'', py_split CHR ''.'' v ! 2)]"
proof -
  from assms have "3 \<le> length (py_split CHR ''.'' v)" by (simp add: length_py_split)
  then show ?thesis by (simp add: cdkversionmacro_replace_items_def dict_lit_def Let_def)
qed

lemma cdkversionmacro_replace_items_short:
  assumes "count_list v CHR ''.'' < 2"
  shows "cdkversionmacro_replace_items v = Inl IndexError"
proof -
  from assms have len: "length (py_split CHR ''.'' v) \<le> 2" by (simp add: length_py_split)
  show ?thesis
  proof (cases "length (py_split CHR ''.'' v) = 2")
    case True
    then show ?thesis by (simp add: cdkversionmacro_replace_items_def)
  next
    case False
    with len have "length (py_split CHR ''.'' v) \<le> 1" by simp
    then show ?thesis by (simp add: cdkversionmacro_replace_items_def)
  qed
qed

lemma version_items_tokens:
  "cdkversionmacro_replace_items v = Inr items \<Longrightarrow> \<forall>(k, x) \<in> set items. is_token k"
  by (auto simp: cdkversionmacro_replace_items_def Let_def dict_lit_def is_token_def
      split: sum.splits)

section \<open>The script\<close>

lemma gen_cdkversionmacros_main_apply:
  "gen_cdkversionmacros_main script (Some v) s =
     (case cdkversionmacro_replace_items v of
        Inl e \<Rightarrow> (Inl e, s)
      | Inr items \<Rightarrow> replace_multi (version_template script) (version_header script) items s)"
  by (simp add: gen_cdkversionmacros_main_def split: sum.splits)


lemma gen_cdkversionmacros_main_no_version:
  "gen_cdkversionmacros_main script None s = (Inl (AttributeError ''split''), s)"
  by (simp add: gen_cdkversionmacros_main_def)

lemma py_split_three:
  assumes "count_list v c = 2"
  obtains a b d where "py_split c v = [a, b, d]"
proof -
  from assms have "length (py_split c v) = 3" by (simp add: length_py_split)
  then show ?thesis using that by (auto simp: numeral_3_eq_3 length_Suc_conv)
qed

lemma count_list_join3:
  "c \<notin> set a \<Longrightarrow> c \<notin> set b \<Longrightarrow> c \<notin> set d \<Longrightarrow> count_list (a @ c # b @ c # d) c = 2"
  by (simp add: count_list_0_iff)

section \<open>Properties of the generator\<close>

text \<open>
  C6. For a version with at least two dots, an existing template and a writable header,
  \<open>main\<close> succeeds and writes exactly the header: the template with
  \<open>@CTK_MAJOR_VERSION@\<close>, \<open>@CTK_MINOR_VERSION@\<close> and \<open>@CTK_MICRO_VERSION@\<close>
  replaced by the first three dot-separated parts of the version.
\<close>

theorem gen_cdkversionmacros_writes:
  assumes "2 \<le> count_list v CHR ''.''"
    and "files s (version_template script) = Some t"
    and "can_write s (version_header script)"
  shows "gen_cdkversionmacros_main script (Some v) s =
    (Inr (), s\<lparr>files := (files s)(version_header script \<mapsto>
       subst [(''@CTK_MAJOR_VERSION@'', py_split CHR ''.'' v ! 0),
              (''@CTK_MINOR_VERSION@'', py_split CHR ''.'' v ! 1),
              (''@CTK_MICRO_VERSION@'', py_split CHR ''.'' v ! 2)] t)\<rparr>)"
  using assms
  by (simp add: gen_cdkversionmacros_main_apply cdkversionmacro_replace_items_ok replace_multi_apply)

theorem gen_cdkversionmacros_writes_witness:
  "gen_cdkversionmacros_main ''/ctk/win32/gen-cdkversionmacros-h.py'' (Some ''3.24.1'')
     \<lparr>files = [''/ctk/win32/../cdk/cdkversionmacros.h.in'' \<mapsto> ''#define M @CTK_MAJOR_VERSION@''],
      dirs = [''/ctk/win32/../cdk''], readonly = []\<rparr> =
   (Inr (), \<lparr>files = [''/ctk/win32/../cdk/cdkversionmacros.h.in'' \<mapsto> ''#define M @CTK_MAJOR_VERSION@'',
                      ''/ctk/win32/../cdk/cdkversionmacros.h'' \<mapsto> ''#define M 3''],
            dirs = [''/ctk/win32/../cdk''], readonly = []\<rparr>)"
proof -
  let ?s = "\<lparr>files = [''/ctk/win32/../cdk/cdkversionmacros.h.in'' \<mapsto> ''#define M @CTK_MAJOR_VERSION@''],
      dirs = [''/ctk/win32/../cdk''], readonly = []\<rparr>"
  have sd: "cdk_sourcedir ''/ctk/win32/gen-cdkversionmacros-h.py'' = ''/ctk/win32/../cdk''"
    by (simp add: cdk_sourcedir_def path_dirname_def path_join_def)
  have h1: "2 \<le> count_list ''3.24.1'' CHR ''.''" by simp
  have h2: "files ?s (version_template ''/ctk/win32/gen-cdkversionmacros-h.py'') =
            Some ''#define M @CTK_MAJOR_VERSION@''"
    by (simp add: sd path_join_def)
  have h3: "can_write ?s (version_header ''/ctk/win32/gen-cdkversionmacros-h.py'')"
    by (simp add: sd path_join_def can_write_def dir_exists_def path_dirname_def)
  show ?thesis
    using gen_cdkversionmacros_writes [OF h1 h2 h3]
    by (simp add: sd path_join_def find_key_def fun_upd_twist)
qed

text \<open>
  C7. A version with fewer than two dots makes \<open>main\<close> raise \<open>IndexError\<close> (line 25
  or 26) before any file is opened: the file system is unchanged.
\<close>

theorem gen_cdkversionmacros_index_error:
  "count_list v CHR ''.'' < 2 \<Longrightarrow>
   gen_cdkversionmacros_main script (Some v) s = (Inl IndexError, s)"
  by (simp add: gen_cdkversionmacros_main_apply cdkversionmacro_replace_items_short)

theorem gen_cdkversionmacros_index_error_witness:
  "gen_cdkversionmacros_main ''gen.py'' (Some ''3.24'') \<lparr>files = Map.empty, dirs = [], readonly = []\<rparr> =
   (Inl IndexError, \<lparr>files = Map.empty, dirs = [], readonly = []\<rparr>)"
  by (rule gen_cdkversionmacros_index_error) simp

text \<open>
  C8. For a version \<open>major.minor.micro\<close> (exactly two dots) the three values of the
  mapping are dot-free and join back, with dots, to the version.
\<close>

theorem version_macros_roundtrip:
  assumes "count_list v CHR ''.'' = 2"
  shows "\<exists>major minor micro.
    cdkversionmacro_replace_items v =
      Inr [(''@CTK_MAJOR_VERSION@'', major), (''@CTK_MINOR_VERSION@'', minor),
           (''@CTK_MICRO_VERSION@'', micro)] \<and>
    major @ CHR ''.'' # minor @ CHR ''.'' # micro = v \<and>
    CHR ''.'' \<notin> set major \<and> CHR ''.'' \<notin> set minor \<and> CHR ''.'' \<notin> set micro"
proof -
  obtain a b d where p: "py_split CHR ''.'' v = [a, b, d]"
    using assms by (rule py_split_three)
  have "py_join CHR ''.'' (py_split CHR ''.'' v) = v" by (rule py_join_split)
  with p have join: "a @ CHR ''.'' # b @ CHR ''.'' # d = v" by simp
  have parts: "CHR ''.'' \<notin> set a" "CHR ''.'' \<notin> set b" "CHR ''.'' \<notin> set d"
    using py_split_parts [of _ "CHR ''.''" v] p by auto
  have "cdkversionmacro_replace_items v =
      Inr [(''@CTK_MAJOR_VERSION@'', a), (''@CTK_MINOR_VERSION@'', b), (''@CTK_MICRO_VERSION@'', d)]"
    using cdkversionmacro_replace_items_ok [of v] assms p by simp
  with join parts show ?thesis by blast
qed

theorem version_macros_roundtrip_witness:
  "cdkversionmacro_replace_items ''3.24.1'' =
     Inr [(''@CTK_MAJOR_VERSION@'', ''3''), (''@CTK_MINOR_VERSION@'', ''24''),
          (''@CTK_MICRO_VERSION@'', ''1'')]"
proof -
  have h: "count_list ''3.24.1'' CHR ''.'' = 2" by simp
  from version_macros_roundtrip [OF h] obtain major minor micro where
    r: "cdkversionmacro_replace_items ''3.24.1'' =
      Inr [(''@CTK_MAJOR_VERSION@'', major), (''@CTK_MINOR_VERSION@'', minor),
           (''@CTK_MICRO_VERSION@'', micro)]"
    and j: "major @ CHR ''.'' # minor @ CHR ''.'' # micro = ''3.24.1''"
    and d: "CHR ''.'' \<notin> set major" "CHR ''.'' \<notin> set minor" "CHR ''.'' \<notin> set micro"
    by blast
  from j d have "major = ''3'' \<and> minor = ''24'' \<and> micro = ''1''"
    by (auto simp: Cons_eq_append_conv append_eq_Cons_conv)
  with r show ?thesis by simp
qed

end
