(* ===== verification/CtkPc.thy ===== *)
theory CtkPc
  imports Template
begin

text \<open>
  \<open>src/win32/ctkpc.py\<close>: generate the pkg-config files \<open>cdk-3.0.pc\<close>,
  \<open>ctk+-3.0.pc\<close> and \<open>gail-3.0.pc\<close> for Visual Studio builds. \<open>main\<close> builds four
  mappings from fixed version constants, the \<open>--broadway\<close> and \<open>--host\<close> options and
  the base items of \<open>BasePCItems\<close>, merges them with \<open>dict.update\<close>, and renders the
  three templates in order with \<open>replace_multi\<close>.

  \<open>BasePCItems\<close> (module \<open>pc_base\<close>, not among the sources) is modelled by what
  \<open>setup\<close> leaves behind: \<open>base_replace_items\<close>, \<open>top_srcdir\<close> and \<open>srcdir\<close>
  (spec section 3: "a base set of substitutions"). The parsed options are the record
  \<open>cdk_args\<close>: \<open>--broadway\<close> is \<open>store_const\<close> with \<open>const=1\<close> and default
  \<open>None\<close>, \<open>--host\<close> is required (a missing one ends the script with a usage error).
\<close>

record pc_base =
  base_replace_items :: "(string, string) pydict"
  pc_top_srcdir :: string
  pc_srcdir :: string

record cdk_args =
  broadway :: "int option"
  host :: "string option"

text \<open>
  Lines 30 to 35, 38 and 50: the constants. \<open>cairo_min_ver\<close> (line 31) is assigned
  and never read by the script.
\<close>

definition atk_min_ver :: string where "atk_min_ver = ''2.15.1''"
definition cairo_min_ver :: string where "cairo_min_ver = ''1.14.0''"
definition cdk_pixbuf_min_ver :: string where "cdk_pixbuf_min_ver = ''2.30.0''"
definition cdk_win32_sys_libs :: string where
  "cdk_win32_sys_libs = ''-lgdi32 -limm32 -lshell32 -lole32 -lwinmm -ldwmapi''"
definition cairo_libs :: string where "cairo_libs = ''-lcairo-gobject -lcairo ''"
definition glib_min_ver :: string where "glib_min_ver = ''2.45.8''"
definition gio_package :: string where "gio_package = ''gio-2.0 >= '' @ glib_min_ver"
definition pkg_required_packages :: string where
  "pkg_required_packages = ''cdk-pixbuf-2.0 >= '' @ cdk_pixbuf_min_ver"

lemmas ctkpc_constants =
  atk_min_ver_def cdk_pixbuf_min_ver_def cdk_win32_sys_libs_def cairo_libs_def
  glib_min_ver_def gio_package_def pkg_required_packages_def

text \<open>Lines 37 to 45: the backends and the extra library of the Broadway backend.\<close>

definition cdk_backend_settings :: "cdk_args \<Rightarrow> string \<times> string" where
  "cdk_backend_settings args =
     (if broadway args = Some 1 then (''win32'' @ '' broadway'', '' -lzlib1'')
      else (''win32'', ''''))"

text \<open>Lines 47 to 48.\<close>

definition pkg_replace_items :: "cdk_args \<Rightarrow> (string, string) pydict" where
  "pkg_replace_items args =
     dict_lit [(''@CTK_API_VERSION@'', ''3.0''),
               (''@GDK_BACKENDS@'', fst (cdk_backend_settings args))]"

text \<open>Lines 52 to 58.\<close>

definition cdk_pc_items :: "cdk_args \<Rightarrow> (string, string) pydict" where
  "cdk_pc_items args =
     dict_lit [(''@GDK_PACKAGES@'',
                gio_package @ '' '' @ ''pangowin32 pangocairo'' @ '' '' @ pkg_required_packages),
               (''@GDK_PRIVATE_PACKAGES@'', gio_package),
               (''@GDK_EXTRA_LIBS@'', cairo_libs @ cdk_win32_sys_libs @ snd (cdk_backend_settings args)),
               (''@GDK_EXTRA_CFLAGS@'', ''''),
               (''cdk-3'', ''cdk-3.0'')]"

text \<open>Lines 60 to 69; the display names \<open>@CTK_EXTRA_CFLAGS@\<close> twice.\<close>

definition ctk_pc_items :: "string \<Rightarrow> (string, string) pydict" where
  "ctk_pc_items h =
     dict_lit [(''@host@'', h),
               (''@CTK_BINARY_VERSION@'', ''3.0.0''),
               (''@CTK_PACKAGES@'',
                ''atk >= '' @ atk_min_ver @ '' '' @ pkg_required_packages @ '' '' @ gio_package),
               (''@CTK_PRIVATE_PACKAGES@'', ''atk''),
               (''@CTK_EXTRA_CFLAGS@'', ''''),
               (''@CTK_EXTRA_LIBS@'', ''''),
               (''@CTK_EXTRA_CFLAGS@'', ''''),
               (''ctk-3'', ''ctk-3.0'')]"

text \<open>Line 71.\<close>

definition gail_pc_items :: "(string, string) pydict" where
  "gail_pc_items = dict_lit [(''gailutil-3'', ''gailutil-3.0'')]"

text \<open>Lines 73 to 76: the merges, in the source's order.\<close>

definition ctkpc_replace_items ::
  "pc_base \<Rightarrow> cdk_args \<Rightarrow> string \<Rightarrow>
   (string, string) pydict \<times> (string, string) pydict \<times> (string, string) pydict" where
  "ctkpc_replace_items base args h =
     (let pkg = dict_update (pkg_replace_items args) (base_replace_items base);
          cdk = dict_update (cdk_pc_items args) pkg;
          ctk = dict_update (ctk_pc_items h) pkg;
          gail = dict_update gail_pc_items (base_replace_items base)
      in (cdk, ctk, gail))"

text \<open>
  Lines 17 to 91: \<open>main\<close>. The parser (line 26) makes \<open>--host\<close> required, so
  \<open>cdk_args.host\<close> is a string whenever \<open>main\<close> gets past line 41. Were it
  \<open>None\<close>, the display of line 60 would hold \<open>None\<close> as the value of
  \<open>@host@\<close>: \<open>cdk-3.0.pc\<close> (whose mapping does not involve the host) is written,
  and rendering \<open>ctk+-3.0.pc\<close> reads its template and then fails on the non-string
  value with \<open>TypeError\<close> (the renderer substitutes strings only, spec 4.1).
\<close>

definition ctkpc_main :: "pc_base \<Rightarrow> cdk_args \<Rightarrow> ('a fs_scheme, unit) pyexec" where
  "ctkpc_main base args =
     (case host args of
        None \<Rightarrow>
          seqE (replace_multi (pc_top_srcdir base @ ''/cdk-3.0.pc.in'')
                  (pc_srcdir base @ ''/cdk-3.0.pc'') (fst (ctkpc_replace_items base args [])))
            (bindE (read_file (pc_top_srcdir base @ ''/ctk+-3.0.pc.in'')) (\<lambda>_.
               raise (TypeError ''@host@'')))
      | Some h \<Rightarrow>
          (case ctkpc_replace_items base args h of (cdk, ctk, gail) \<Rightarrow>
             seqE (replace_multi (pc_top_srcdir base @ ''/cdk-3.0.pc.in'')
                     (pc_srcdir base @ ''/cdk-3.0.pc'') cdk)
               (seqE (replace_multi (pc_top_srcdir base @ ''/ctk+-3.0.pc.in'')
                        (pc_srcdir base @ ''/ctk+-3.0.pc'') ctk)
                  (replace_multi (pc_top_srcdir base @ ''/gail-3.0.pc.in'')
                     (pc_srcdir base @ ''/gail-3.0.pc'') gail))))"

section \<open>Paths and the file system\<close>

lemma append_last_neq:
  "xs \<noteq> [] \<Longrightarrow> ys \<noteq> [] \<Longrightarrow> last xs \<noteq> last ys \<Longrightarrow> a @ xs \<noteq> b @ ys"
  by (metis last_appendR)

lemma pc_paths_distinct:
  "a @ ''/cdk-3.0.pc'' \<noteq> b @ ''/ctk+-3.0.pc.in''"
  "a @ ''/cdk-3.0.pc'' \<noteq> b @ ''/gail-3.0.pc.in''"
  "a @ ''/ctk+-3.0.pc'' \<noteq> b @ ''/gail-3.0.pc.in''"
  by (rule append_last_neq; simp)+

section \<open>The mappings\<close>

lemma ctkpc_items_inv:
  "dict_inv (pkg_replace_items args)" "dict_inv (cdk_pc_items args)" "dict_inv (ctk_pc_items h)"
  "dict_inv gail_pc_items"
  by (simp_all add: pkg_replace_items_def cdk_pc_items_def ctk_pc_items_def gail_pc_items_def
      dict_inv_dict_lit)

lemma ctkpc_main_apply:
  "host args = Some h \<Longrightarrow> ctkpc_replace_items base args h = (cdk, ctk, gail) \<Longrightarrow>
   ctkpc_main base args =
     seqE (replace_multi (pc_top_srcdir base @ ''/cdk-3.0.pc.in'') (pc_srcdir base @ ''/cdk-3.0.pc'') cdk)
       (seqE (replace_multi (pc_top_srcdir base @ ''/ctk+-3.0.pc.in'') (pc_srcdir base @ ''/ctk+-3.0.pc'') ctk)
          (replace_multi (pc_top_srcdir base @ ''/gail-3.0.pc.in'') (pc_srcdir base @ ''/gail-3.0.pc'') gail))"
  by (simp add: ctkpc_main_def)

lemmas pc_paths_neq = pc_paths_distinct pc_paths_distinct [THEN not_sym]

lemma ctkpc_merged_inv:
  assumes "dict_inv (base_replace_items base)" and "ctkpc_replace_items base args h = (cdk, ctk, gail)"
  shows "dict_inv cdk" "dict_inv ctk" "dict_inv gail"
  using assms ctkpc_items_inv
  by (auto simp: ctkpc_replace_items_def Let_def intro: dict_inv_dict_update)

lemma ctkpc_merged_keys:
  assumes "ctkpc_replace_items base args h = (cdk, ctk, gail)"
  shows "set cdk \<subseteq> set (cdk_pc_items args) \<union> set (pkg_replace_items args) \<union> set (base_replace_items base)"
    "set ctk \<subseteq> set (ctk_pc_items h) \<union> set (pkg_replace_items args) \<union> set (base_replace_items base)"
    "set gail \<subseteq> set gail_pc_items \<union> set (base_replace_items base)"
proof -
  note sub = set_dict_update_sub [THEN subsetD]
  from assms show "set cdk \<subseteq> set (cdk_pc_items args) \<union> set (pkg_replace_items args) \<union>
      set (base_replace_items base)"
    by (auto simp: ctkpc_replace_items_def Let_def dest!: sub)
  from assms show "set ctk \<subseteq> set (ctk_pc_items h) \<union> set (pkg_replace_items args) \<union>
      set (base_replace_items base)"
    by (auto simp: ctkpc_replace_items_def Let_def dest!: sub)
  from assms show "set gail \<subseteq> set gail_pc_items \<union> set (base_replace_items base)"
    by (auto simp: ctkpc_replace_items_def Let_def dest!: sub)
qed

section \<open>Properties of the generator\<close>

text \<open>
  C1. With \<open>--host\<close> given, the three templates present and the three outputs
  writable, \<open>main\<close> succeeds and writes exactly \<open>cdk-3.0.pc\<close>, \<open>ctk+-3.0.pc\<close> and
  \<open>gail-3.0.pc\<close> under \<open>srcdir\<close>, each its template rendered with its merged
  mapping; no template is an earlier output, so each is read as it was.
\<close>

theorem ctkpc_main_writes:
  assumes "host args = Some h" and "ctkpc_replace_items base args h = (cdk, ctk, gail)"
    and "files s (pc_top_srcdir base @ ''/cdk-3.0.pc.in'') = Some t1"
    and "files s (pc_top_srcdir base @ ''/ctk+-3.0.pc.in'') = Some t2"
    and "files s (pc_top_srcdir base @ ''/gail-3.0.pc.in'') = Some t3"
    and "can_write s (pc_srcdir base @ ''/cdk-3.0.pc'')"
    and "can_write s (pc_srcdir base @ ''/ctk+-3.0.pc'')"
    and "can_write s (pc_srcdir base @ ''/gail-3.0.pc'')"
  shows "ctkpc_main base args s =
    (Inr (), s\<lparr>files := (files s)(pc_srcdir base @ ''/cdk-3.0.pc'' \<mapsto> subst cdk t1,
                                    pc_srcdir base @ ''/ctk+-3.0.pc'' \<mapsto> subst ctk t2,
                                    pc_srcdir base @ ''/gail-3.0.pc'' \<mapsto> subst gail t3)\<rparr>)"
  using assms by (simp add: ctkpc_main_apply replace_multi_apply pc_paths_neq)

text \<open>
  C2. If the second template \<open>ctk+-3.0.pc.in\<close> is missing, \<open>main\<close> raises
  \<open>NotFound\<close> for it after writing \<open>cdk-3.0.pc\<close>, and \<open>gail-3.0.pc\<close> is not
  written: the spec's batch example (section 8), a failure aborts the rest and keeps
  the outputs already written.
\<close>

theorem ctkpc_main_second_template_missing:
  assumes "host args = Some h" and "ctkpc_replace_items base args h = (cdk, ctk, gail)"
    and "files s (pc_top_srcdir base @ ''/cdk-3.0.pc.in'') = Some t1"
    and "can_write s (pc_srcdir base @ ''/cdk-3.0.pc'')"
    and "files s (pc_top_srcdir base @ ''/ctk+-3.0.pc.in'') = None"
  shows "ctkpc_main base args s =
    (Inl (NotFound (pc_top_srcdir base @ ''/ctk+-3.0.pc.in'')),
     s\<lparr>files := (files s)(pc_srcdir base @ ''/cdk-3.0.pc'' \<mapsto> subst cdk t1)\<rparr>)"
  using assms by (simp add: ctkpc_main_apply replace_multi_apply pc_paths_neq)

text \<open>
  C3. The merged mappings refine HOL maps as the spec's merge rule says: in
  \<open>cdk_pc_replace_items\<close> and \<open>ctk_pc_replace_items\<close> a base item overrides a
  \<open>pkg_replace_items\<close> item, which overrides the file's own item; in
  \<open>gail_pc_replace_items\<close> the base items override the file's own.
\<close>

theorem ctkpc_merge_precedence:
  assumes "dict_inv (base_replace_items base)"
    and "ctkpc_replace_items base args h = (cdk, ctk, gail)"
  shows "map_of cdk = map_of (cdk_pc_items args) ++ map_of (pkg_replace_items args)
                        ++ map_of (base_replace_items base) \<and>
         map_of ctk = map_of (ctk_pc_items h) ++ map_of (pkg_replace_items args)
                        ++ map_of (base_replace_items base) \<and>
         map_of gail = map_of gail_pc_items ++ map_of (base_replace_items base)"
proof -
  let ?pkg = "dict_update (pkg_replace_items args) (base_replace_items base)"
  have pkg_inv: "dict_inv ?pkg" using ctkpc_items_inv by (simp add: dict_inv_dict_update)
  have pkg: "map_of ?pkg = map_of (pkg_replace_items args) ++ map_of (base_replace_items base)"
    using assms(1) by (simp add: map_of_dict_update map_of_rev_distinct dict_inv_def)
  have "map_of (dict_update d ?pkg) = map_of d ++ map_of (pkg_replace_items args)
          ++ map_of (base_replace_items base)" for d :: "(string, string) pydict"
    using pkg_inv pkg by (simp add: map_of_dict_update map_of_rev_distinct dict_inv_def map_add_assoc)
  moreover have "map_of (dict_update gail_pc_items (base_replace_items base)) =
      map_of gail_pc_items ++ map_of (base_replace_items base)"
    using assms(1) by (simp add: map_of_dict_update map_of_rev_distinct dict_inv_def)
  ultimately show ?thesis using assms(2) by (auto simp: ctkpc_replace_items_def Let_def)
qed

text \<open>
  C4. The Broadway switch (lines 42 to 45): only \<open>--broadway\<close>, whose value is the
  constant 1, adds the backend \<open>broadway\<close> to \<open>@GDK_BACKENDS@\<close> and the library
  \<open>-lzlib1\<close> to \<open>@GDK_EXTRA_LIBS@\<close>.
\<close>

theorem gdk_backends_broadway:
  "map_of (pkg_replace_items args) ''@GDK_BACKENDS@'' =
     Some (if broadway args = Some 1 then ''win32 broadway'' else ''win32'') \<and>
   map_of (cdk_pc_items args) ''@GDK_EXTRA_LIBS@'' =
     Some (''-lcairo-gobject -lcairo -lgdi32 -limm32 -lshell32 -lole32 -lwinmm -ldwmapi'' @
           (if broadway args = Some 1 then '' -lzlib1'' else ''''))"
  by (simp add: pkg_replace_items_def cdk_pc_items_def cdk_backend_settings_def dict_lit_def
      ctkpc_constants)

lemma ctkpc_keys_shape:
  "\<forall>(k, v) \<in> set (cdk_pc_items args). is_token k \<or> k = ''cdk-3''"
  "\<forall>(k, v) \<in> set (ctk_pc_items h). is_token k \<or> k = ''ctk-3''"
  "\<forall>(k, v) \<in> set gail_pc_items. is_token k \<or> k = ''gailutil-3''"
  "\<forall>(k, v) \<in> set (pkg_replace_items args). is_token k"
  by (auto simp: cdk_pc_items_def ctk_pc_items_def gail_pc_items_def pkg_replace_items_def
      dict_lit_def is_token_def)

lemma ctkpc_merged_shape:
  assumes "\<forall>(k, v) \<in> set (base_replace_items base). is_token k"
    and "ctkpc_replace_items base args h = (cdk, ctk, gail)"
  shows "\<forall>(k, v) \<in> set cdk. is_token k \<or> k = ''cdk-3''"
    "\<forall>(k, v) \<in> set ctk. is_token k \<or> k = ''ctk-3''"
    "\<forall>(k, v) \<in> set gail. is_token k \<or> k = ''gailutil-3''"
  using ctkpc_merged_keys [OF assms(2)] ctkpc_keys_shape assms(1) by blast+

text \<open>
  Where no key is a token, only the bare library name can match: the first key of the
  mapping that is that name decides.
\<close>

lemma find_key_word:
  assumes "\<forall>(k, v) \<in> set m. is_token k \<or> k = w" and "c \<noteq> CHR ''@''"
  shows "find_key m (c # s) =
    (if w \<noteq> [] \<and> starts_with w (c # s) then map_option (Pair w) (map_of m w) else None)"
  using assms(1)
proof (induction m)
  case (Cons kv m)
  obtain k v where kv: "kv = (k, v)" by fastforce
  have "\<not> (is_token k \<and> k \<noteq> [] \<and> starts_with k (c # s))"
    using assms(2) by (auto simp: is_token_def dest: starts_with_hd)
  with Cons kv show ?case by (auto simp: find_key_Cons)
qed simp

lemma ctkpc_lib_values:
  assumes "\<forall>(k, v) \<in> set (base_replace_items base). is_token k"
    and "ctkpc_replace_items base args h = (cdk, ctk, gail)"
  shows "map_of cdk ''cdk-3'' = Some ''cdk-3.0''" "map_of ctk ''ctk-3'' = Some ''ctk-3.0''"
    "map_of gail ''gailutil-3'' = Some ''gailutil-3.0''"
proof -
  have notk: "\<not> is_token (c # w)" if "c \<noteq> CHR ''@''" for c w
    using that by (simp add: is_token_def)
  have base: "map_of (rev (base_replace_items base)) (c # w) = None" if "c \<noteq> CHR ''@''" for c w
  proof -
    have "c # w \<notin> fst ` set (base_replace_items base)"
      using assms(1) notk [OF that, of w] by fastforce
    then show ?thesis by (simp add: map_of_eq_None_iff)
  qed
  have pkg: "map_of (rev (dict_update (pkg_replace_items args) (base_replace_items base))) (c # w) = None"
    if "c \<noteq> CHR ''@''" for c w
  proof -
    have "c # w \<notin> fst ` set (dict_update (pkg_replace_items args) (base_replace_items base))"
      using assms(1) notk [OF that, of w] ctkpc_keys_shape(4) [of args]
        set_dict_update_sub [of "pkg_replace_items args" "base_replace_items base"]
      by fastforce
    then show ?thesis by (simp add: map_of_eq_None_iff)
  qed
  from assms(2) show "map_of cdk ''cdk-3'' = Some ''cdk-3.0''" "map_of ctk ''ctk-3'' = Some ''ctk-3.0''"
    "map_of gail ''gailutil-3'' = Some ''gailutil-3.0''"
    by (auto simp: ctkpc_replace_items_def Let_def map_of_dict_update map_add_def pkg base
        cdk_pc_items_def ctk_pc_items_def gail_pc_items_def dict_lit_def)
qed

lemma ctkpc_prefix_free:
  assumes tk: "\<forall>(k, v) \<in> set (base_replace_items base). is_token k"
    and inv: "dict_inv (base_replace_items base)"
    and items: "ctkpc_replace_items base args h = (cdk, ctk, gail)"
  shows "prefix_free cdk" "prefix_free ctk" "prefix_free gail"
proof -
  note shape = ctkpc_merged_shape [OF tk items]
  note invs = ctkpc_merged_inv [OF inv items]
  note shape(1)
  moreover have "''cdk-3'' \<noteq> []" "CHR ''@'' \<notin> set ''cdk-3''" by simp_all
  moreover from invs(1) have "distinct (map fst cdk)" by (simp add: dict_inv_def)
  ultimately show "prefix_free cdk" by (blast intro: prefix_free_tokens_and_word)
  note shape(2)
  moreover have "''ctk-3'' \<noteq> []" "CHR ''@'' \<notin> set ''ctk-3''" by simp_all
  moreover from invs(2) have "distinct (map fst ctk)" by (simp add: dict_inv_def)
  ultimately show "prefix_free ctk" by (blast intro: prefix_free_tokens_and_word)
  note shape(3)
  moreover have "''gailutil-3'' \<noteq> []" "CHR ''@'' \<notin> set ''gailutil-3''" by simp_all
  moreover from invs(3) have "distinct (map fst gail)" by (simp add: dict_inv_def)
  ultimately show "prefix_free gail" by (blast intro: prefix_free_tokens_and_word)
qed

text \<open>
  C5. Every key the generator uses is a \<open>@NAME@\<close> token except the one bare library
  name of each file (\<open>cdk-3\<close>, \<open>ctk-3\<close>, \<open>gailutil-3\<close>); with base items that are
  tokens, no key of a merged mapping is a prefix of another, so the rendered files do
  not depend on the order of the dict: the order-independence the spec requires.
\<close>

theorem ctkpc_render_order_free:
  assumes "\<forall>(k, v) \<in> set (base_replace_items base). is_token k"
    and "dict_inv (base_replace_items base)"
    and "ctkpc_replace_items base args h = (cdk, ctk, gail)"
  shows "(\<forall>m'. set m' = set cdk \<longrightarrow> subst m' t = subst cdk t) \<and>
         (\<forall>m'. set m' = set ctk \<longrightarrow> subst m' t = subst ctk t) \<and>
         (\<forall>m'. set m' = set gail \<longrightarrow> subst m' t = subst gail t)"
proof -
  note pf = ctkpc_prefix_free [OF assms]
  show ?thesis
    using subst_order_independent [OF pf(1)] subst_order_independent [OF pf(2)]
      subst_order_independent [OF pf(3)]
    by blast
qed

text \<open>
  C28. Rendering with the generator's mappings is not idempotent, because the bare key
  \<open>cdk-3\<close> (and \<open>ctk-3\<close>, \<open>gailutil-3\<close>) occurs in its own value: the
  library flag \<open>-lcdk-3\<close> of the template becomes \<open>-lcdk-3.0\<close>, and rendering
  that output again gives \<open>-lcdk-3.0.0\<close>. So a template that already spells the MSVC
  name, or a generated file fed back, is corrupted, whatever the base items (tokens).
\<close>

theorem ctkpc_rerender_not_idempotent:
  assumes "\<forall>(k, v) \<in> set (base_replace_items base). is_token k"
    and "ctkpc_replace_items base args h = (cdk, ctk, gail)"
  shows "subst cdk ''-lcdk-3'' = ''-lcdk-3.0'' \<and> subst cdk ''-lcdk-3.0'' = ''-lcdk-3.0.0'' \<and>
    subst ctk ''-lctk-3'' = ''-lctk-3.0'' \<and> subst ctk ''-lctk-3.0'' = ''-lctk-3.0.0'' \<and>
    subst gail ''-lgailutil-3'' = ''-lgailutil-3.0'' \<and>
    subst gail ''-lgailutil-3.0'' = ''-lgailutil-3.0.0''"
proof -
  note shape = ctkpc_merged_shape [OF assms] and vals = ctkpc_lib_values [OF assms]
  note fk = find_key_word [OF shape(1)] find_key_word [OF shape(2)] find_key_word [OF shape(3)]
  show ?thesis by (simp add: fk vals)
qed

section \<open>The mappings of an example run\<close>

text \<open>
  The three merged mappings for base items \<open>{'@VERSION@': '3.24.1'}\<close>, no
  \<open>--broadway\<close> and host \<open>x64\<close>, in the dict's order.
\<close>

lemma ctkpc_replace_items_example:
  "ctkpc_replace_items
     \<lparr>base_replace_items = [(''@VERSION@'', ''3.24.1'')], pc_top_srcdir = ''C:/ctk'',
      pc_srcdir = ''C:/ctk/win32''\<rparr>
     \<lparr>broadway = None, host = Some ''x64''\<rparr> ''x64'' =
    ([(''@GDK_PACKAGES@'', ''gio-2.0 >= 2.45.8 pangowin32 pangocairo cdk-pixbuf-2.0 >= 2.30.0''),
      (''@GDK_PRIVATE_PACKAGES@'', ''gio-2.0 >= 2.45.8''),
      (''@GDK_EXTRA_LIBS@'', ''-lcairo-gobject -lcairo -lgdi32 -limm32 -lshell32 -lole32 -lwinmm -ldwmapi''),
      (''@GDK_EXTRA_CFLAGS@'', ''''), (''cdk-3'', ''cdk-3.0''), (''@CTK_API_VERSION@'', ''3.0''),
      (''@GDK_BACKENDS@'', ''win32''), (''@VERSION@'', ''3.24.1'')],
     [(''@host@'', ''x64''), (''@CTK_BINARY_VERSION@'', ''3.0.0''),
      (''@CTK_PACKAGES@'', ''atk >= 2.15.1 cdk-pixbuf-2.0 >= 2.30.0 gio-2.0 >= 2.45.8''),
      (''@CTK_PRIVATE_PACKAGES@'', ''atk''), (''@CTK_EXTRA_CFLAGS@'', ''''), (''@CTK_EXTRA_LIBS@'', ''''),
      (''ctk-3'', ''ctk-3.0''), (''@CTK_API_VERSION@'', ''3.0''), (''@GDK_BACKENDS@'', ''win32''),
      (''@VERSION@'', ''3.24.1'')],
     [(''gailutil-3'', ''gailutil-3.0''), (''@VERSION@'', ''3.24.1'')])"
  by (simp add: ctkpc_replace_items_def pkg_replace_items_def cdk_pc_items_def ctk_pc_items_def
      gail_pc_items_def cdk_backend_settings_def dict_lit_def ctkpc_constants Let_def)

section \<open>Witnesses\<close>

theorem ctkpc_main_writes_witness:
  "ctkpc_main \<lparr>base_replace_items = [(''@VERSION@'', ''3.24.1'')],
               pc_top_srcdir = ''C:/ctk'', pc_srcdir = ''C:/ctk/win32''\<rparr>
     \<lparr>broadway = None, host = Some ''x64''\<rparr>
     \<lparr>files = [''C:/ctk/cdk-3.0.pc.in'' \<mapsto> ''Version: @VERSION@'',
               ''C:/ctk/ctk+-3.0.pc.in'' \<mapsto> ''host=@host@'',
               ''C:/ctk/gail-3.0.pc.in'' \<mapsto> ''Libs: -lgailutil-3''],
      dirs = [''C:/ctk/win32''], readonly = []\<rparr> =
   (Inr (), \<lparr>files = [''C:/ctk/cdk-3.0.pc.in'' \<mapsto> ''Version: @VERSION@'',
               ''C:/ctk/ctk+-3.0.pc.in'' \<mapsto> ''host=@host@'',
               ''C:/ctk/gail-3.0.pc.in'' \<mapsto> ''Libs: -lgailutil-3'',
               ''C:/ctk/win32/cdk-3.0.pc'' \<mapsto> ''Version: 3.24.1'',
               ''C:/ctk/win32/ctk+-3.0.pc'' \<mapsto> ''host=x64'',
               ''C:/ctk/win32/gail-3.0.pc'' \<mapsto> ''Libs: -lgailutil-3.0''],
      dirs = [''C:/ctk/win32''], readonly = []\<rparr>)"
proof -
  let ?b = "\<lparr>base_replace_items = [(''@VERSION@'', ''3.24.1'')],
               pc_top_srcdir = ''C:/ctk'', pc_srcdir = ''C:/ctk/win32''\<rparr>"
  let ?a = "\<lparr>broadway = None, host = Some ''x64''\<rparr>"
  let ?s = "\<lparr>files = [''C:/ctk/cdk-3.0.pc.in'' \<mapsto> ''Version: @VERSION@'',
               ''C:/ctk/ctk+-3.0.pc.in'' \<mapsto> ''host=@host@'',
               ''C:/ctk/gail-3.0.pc.in'' \<mapsto> ''Libs: -lgailutil-3''],
      dirs = [''C:/ctk/win32''], readonly = []\<rparr>"
  let ?it = "ctkpc_replace_items ?b ?a ''x64''"
  have h1: "host ?a = Some ''x64''" by simp
  have h2: "ctkpc_replace_items ?b ?a ''x64'' = (fst ?it, fst (snd ?it), snd (snd ?it))" by simp
  have h3: "files ?s (pc_top_srcdir ?b @ ''/cdk-3.0.pc.in'') = Some ''Version: @VERSION@''"
    and h4: "files ?s (pc_top_srcdir ?b @ ''/ctk+-3.0.pc.in'') = Some ''host=@host@''"
    and h5: "files ?s (pc_top_srcdir ?b @ ''/gail-3.0.pc.in'') = Some ''Libs: -lgailutil-3''"
    by simp_all
  have w: "can_write ?s (pc_srcdir ?b @ ''/cdk-3.0.pc'')" "can_write ?s (pc_srcdir ?b @ ''/ctk+-3.0.pc'')"
    "can_write ?s (pc_srcdir ?b @ ''/gail-3.0.pc'')"
    by (simp_all add: can_write_def dir_exists_def path_dirname_def)
  show ?thesis
    using ctkpc_main_writes [OF h1 h2 h3 h4 h5 w]
    by (simp add: ctkpc_replace_items_example find_key_def fun_upd_twist)
qed

theorem ctkpc_main_second_template_missing_witness:
  "ctkpc_main \<lparr>base_replace_items = [(''@VERSION@'', ''3.24.1'')],
               pc_top_srcdir = ''C:/ctk'', pc_srcdir = ''C:/ctk/win32''\<rparr>
     \<lparr>broadway = None, host = Some ''x64''\<rparr>
     \<lparr>files = [''C:/ctk/cdk-3.0.pc.in'' \<mapsto> ''Version: @VERSION@'',
               ''C:/ctk/gail-3.0.pc.in'' \<mapsto> ''Libs: -lgailutil-3''],
      dirs = [''C:/ctk/win32''], readonly = []\<rparr> =
   (Inl (NotFound ''C:/ctk/ctk+-3.0.pc.in''),
    \<lparr>files = [''C:/ctk/cdk-3.0.pc.in'' \<mapsto> ''Version: @VERSION@'',
               ''C:/ctk/gail-3.0.pc.in'' \<mapsto> ''Libs: -lgailutil-3'',
               ''C:/ctk/win32/cdk-3.0.pc'' \<mapsto> ''Version: 3.24.1''],
      dirs = [''C:/ctk/win32''], readonly = []\<rparr>)"
proof -
  let ?b = "\<lparr>base_replace_items = [(''@VERSION@'', ''3.24.1'')],
               pc_top_srcdir = ''C:/ctk'', pc_srcdir = ''C:/ctk/win32''\<rparr>"
  let ?a = "\<lparr>broadway = None, host = Some ''x64''\<rparr>"
  let ?s = "\<lparr>files = [''C:/ctk/cdk-3.0.pc.in'' \<mapsto> ''Version: @VERSION@'',
               ''C:/ctk/gail-3.0.pc.in'' \<mapsto> ''Libs: -lgailutil-3''],
      dirs = [''C:/ctk/win32''], readonly = []\<rparr>"
  let ?it = "ctkpc_replace_items ?b ?a ''x64''"
  have h1: "host ?a = Some ''x64''" by simp
  have h2: "ctkpc_replace_items ?b ?a ''x64'' = (fst ?it, fst (snd ?it), snd (snd ?it))" by simp
  have h3: "files ?s (pc_top_srcdir ?b @ ''/cdk-3.0.pc.in'') = Some ''Version: @VERSION@''" by simp
  have w: "can_write ?s (pc_srcdir ?b @ ''/cdk-3.0.pc'')"
    by (simp add: can_write_def dir_exists_def path_dirname_def)
  have h4: "files ?s (pc_top_srcdir ?b @ ''/ctk+-3.0.pc.in'') = None" by simp
  show ?thesis
    using ctkpc_main_second_template_missing [OF h1 h2 h3 w h4]
    by (simp add: ctkpc_replace_items_example find_key_def)
qed

theorem ctkpc_merge_precedence_witness:
  "map_of (fst (ctkpc_replace_items
     \<lparr>base_replace_items = [(''@VERSION@'', ''3.24.1''), (''@GDK_BACKENDS@'', ''win32 broadway'')],
      pc_top_srcdir = ''C:/ctk'', pc_srcdir = ''C:/ctk/win32''\<rparr>
     \<lparr>broadway = None, host = Some ''x64''\<rparr> ''x64'')) ''@GDK_BACKENDS@'' = Some ''win32 broadway''"
proof -
  let ?b = "\<lparr>base_replace_items = [(''@VERSION@'', ''3.24.1''), (''@GDK_BACKENDS@'', ''win32 broadway'')],
      pc_top_srcdir = ''C:/ctk'', pc_srcdir = ''C:/ctk/win32''\<rparr>"
  let ?a = "\<lparr>broadway = None, host = Some ''x64''\<rparr>"
  let ?it = "ctkpc_replace_items ?b ?a ''x64''"
  have h1: "dict_inv (base_replace_items ?b)" by (simp add: dict_inv_def)
  have h2: "ctkpc_replace_items ?b ?a ''x64'' = (fst ?it, fst (snd ?it), snd (snd ?it))" by simp
  from ctkpc_merge_precedence [OF h1 h2] show ?thesis by (simp add: map_add_def)
qed

theorem ctkpc_render_order_free_witness:
  "subst (rev (fst (ctkpc_replace_items
       \<lparr>base_replace_items = [(''@VERSION@'', ''3.24.1'')], pc_top_srcdir = ''C:/ctk'',
        pc_srcdir = ''C:/ctk/win32''\<rparr> \<lparr>broadway = None, host = Some ''x64''\<rparr> ''x64'')))
     ''-lcdk-3 @VERSION@'' = ''-lcdk-3.0 3.24.1''"
proof -
  let ?b = "\<lparr>base_replace_items = [(''@VERSION@'', ''3.24.1'')], pc_top_srcdir = ''C:/ctk'',
        pc_srcdir = ''C:/ctk/win32''\<rparr>"
  let ?a = "\<lparr>broadway = None, host = Some ''x64''\<rparr>"
  let ?it = "ctkpc_replace_items ?b ?a ''x64''"
  have h1: "\<forall>(k, v) \<in> set (base_replace_items ?b). is_token k" by (simp add: is_token_def)
  have h2: "dict_inv (base_replace_items ?b)" by (simp add: dict_inv_def)
  have h3: "ctkpc_replace_items ?b ?a ''x64'' = (fst ?it, fst (snd ?it), snd (snd ?it))" by simp
  from ctkpc_render_order_free [OF h1 h2 h3, of "''-lcdk-3 @VERSION@''"]
  have "\<forall>m'. set m' = set (fst ?it) \<longrightarrow>
          subst m' ''-lcdk-3 @VERSION@'' = subst (fst ?it) ''-lcdk-3 @VERSION@''"
    by (rule conjunct1)
  then have "subst (rev (fst ?it)) ''-lcdk-3 @VERSION@'' = subst (fst ?it) ''-lcdk-3 @VERSION@''"
    by (metis set_rev)
  then show ?thesis by (simp add: ctkpc_replace_items_example find_key_def)
qed

theorem ctkpc_rerender_not_idempotent_witness:
  "subst (fst (ctkpc_replace_items
       \<lparr>base_replace_items = [(''@VERSION@'', ''3.24.1'')], pc_top_srcdir = ''C:/ctk'',
        pc_srcdir = ''C:/ctk/win32''\<rparr> \<lparr>broadway = None, host = Some ''x64''\<rparr> ''x64''))
     (subst (fst (ctkpc_replace_items
       \<lparr>base_replace_items = [(''@VERSION@'', ''3.24.1'')], pc_top_srcdir = ''C:/ctk'',
        pc_srcdir = ''C:/ctk/win32''\<rparr> \<lparr>broadway = None, host = Some ''x64''\<rparr> ''x64''))
      ''-lcdk-3'') = ''-lcdk-3.0.0''"
proof -
  let ?b = "\<lparr>base_replace_items = [(''@VERSION@'', ''3.24.1'')], pc_top_srcdir = ''C:/ctk'',
        pc_srcdir = ''C:/ctk/win32''\<rparr>"
  let ?a = "\<lparr>broadway = None, host = Some ''x64''\<rparr>"
  let ?it = "ctkpc_replace_items ?b ?a ''x64''"
  have h1: "\<forall>(k, v) \<in> set (base_replace_items ?b). is_token k" by (simp add: is_token_def)
  have h2: "ctkpc_replace_items ?b ?a ''x64'' = (fst ?it, fst (snd ?it), snd (snd ?it))" by simp
  from ctkpc_rerender_not_idempotent [OF h1 h2] show ?thesis by simp
qed

end
