(* ===== verification/Argparse.thy ===== *)
theory Argparse
  imports PyDict
begin

text \<open>
  The part of Python's \<open>argparse\<close> (CPython 3.11) that the generators use:
  \<open>ArgumentParser()\<close> with its automatic \<open>-h\<close>/\<open>--help\<close>, long options added by
  \<open>add_argument\<close> with the actions \<open>store\<close> and \<open>store_const\<close> and the flag
  \<open>required\<close>, and \<open>parse_args()\<close> on \<open>sys.argv[1:]\<close>. \<open>argparse\<close> is a library
  the scripts call, so it is modelled from its documented behaviour and its source, in
  the same two phases:
  \<^item> \<open>classify_arg\<close> (\<open>_parse_optional\<close>, \<open>_get_option_tuples\<close>): every argument
    is classified up front as a positional, \<open>--\<close>, an option (found exactly, as
    \<open>--opt=value\<close>, or as the unique option starting with the given prefix), or an
    unknown option; an ambiguous prefix is an error at once;
  \<^item> \<open>consume\<close> (\<open>consume_optional\<close>, \<open>take_action\<close>): from left to right, an
    option takes its value from \<open>=value\<close> or from the next argument (which must
    not look like an option; a \<open>--\<close> just before or after it is dropped),
    \<open>store\<close> and \<open>store_const\<close> write the namespace (the later value wins),
    \<open>-h\<close> shows the help and ends the parse, everything else is collected as an
    unrecognized argument;
  \<^item> \<open>parse_args\<close> then reports missing required options, then unrecognized
    arguments. Every error is \<open>parser.error\<close>, i.e. \<open>SystemExit(2)\<close>, here
    \<open>UsageError\<close> with argparse's message.
  The namespace holds the options given; an absent attribute is the default \<open>None\<close>.
\<close>

datatype opt_action = Store | StoreConst int | HelpAction

record opt_spec =
  opt_strings :: "string list"
  opt_dest :: string
  opt_act :: opt_action
  opt_required :: bool

datatype arg_value = VStr string | VInt int

type_synonym namespace = "(string, arg_value) pydict"

datatype arg_class = APos string | ADashDash | AOpt opt_spec string "string option" | AUnknown string

datatype parse_outcome = Parsed namespace | HelpShown

text \<open>\<open>add_argument('--name', ...)\<close>: the destination is the name without its dashes,
  inner dashes turned into underscores.\<close>

definition long_opt :: "string \<Rightarrow> opt_action \<Rightarrow> bool \<Rightarrow> opt_spec" where
  "long_opt s act req =
     \<lparr>opt_strings = [s], opt_dest = map (\<lambda>c. if c = CHR ''-'' then CHR ''_'' else c) (drop 2 s),
      opt_act = act, opt_required = req\<rparr>"

text \<open>The action \<open>ArgumentParser.__init__\<close> adds first (\<open>add_help=True\<close>).\<close>

definition help_spec :: opt_spec where
  "help_spec = \<lparr>opt_strings = [''-h'', ''--help''], opt_dest = ''help'', opt_act = HelpAction,
     opt_required = False\<rparr>"

definition option_string_actions :: "opt_spec list \<Rightarrow> (string \<times> opt_spec) list" where
  "option_string_actions acts = concat (map (\<lambda>a. map (\<lambda>ostr. (ostr, a)) (opt_strings a)) acts)"

fun str_join :: "string \<Rightarrow> string list \<Rightarrow> string" where
  "str_join sep [] = []"
| "str_join sep [p] = p"
| "str_join sep (p # ps) = p @ sep @ str_join sep ps"

definition action_name :: "opt_spec \<Rightarrow> string" where
  "action_name a = str_join ''/'' (opt_strings a)"

definition split_eq :: "string \<Rightarrow> (string \<times> string) option" where
  "split_eq s =
     (if CHR ''='' \<in> set s
      then Some (takeWhile (\<lambda>c. c \<noteq> CHR ''='') s, tl (dropWhile (\<lambda>c. c \<noteq> CHR ''='') s))
      else None)"

definition is_digit :: "char \<Rightarrow> bool" where
  "is_digit c \<longleftrightarrow> c \<in> set ''0123456789''"

text \<open>\<open>_negative_number_matcher\<close>: \<open>^-\d+$|^-\d*\.\d+$\<close>.\<close>

definition negative_number :: "string \<Rightarrow> bool" where
  "negative_number s \<longleftrightarrow>
     (case s of
        c # r \<Rightarrow> c = CHR ''-'' \<and>
          ((r \<noteq> [] \<and> list_all is_digit r) \<or>
           (let b = dropWhile is_digit r in b \<noteq> [] \<and> hd b = CHR ''.'' \<and> tl b \<noteq> [] \<and>
              list_all is_digit (tl b)))
      | [] \<Rightarrow> False)"

text \<open>\<open>_get_option_tuples\<close>: the options an abbreviated argument may stand for.\<close>

definition option_tuples ::
  "(string \<times> opt_spec) list \<Rightarrow> string \<Rightarrow> (opt_spec \<times> string \<times> string option) list" where
  "option_tuples A s =
     (if 2 \<le> length s \<and> s ! 0 = CHR ''-'' \<and> s ! 1 = CHR ''-'' then
        (let (pre, ex) = (case split_eq s of Some (p, e) \<Rightarrow> (p, Some e) | None \<Rightarrow> (s, None))
         in map (\<lambda>(ostr, a). (a, ostr, ex)) (filter (\<lambda>(ostr, a). starts_with pre ostr) A))
      else if 2 \<le> length s \<and> s ! 0 = CHR ''-'' then
        map (\<lambda>(ostr, a). (a, ostr, if ostr = take 2 s then Some (drop 2 s) else None))
          (filter (\<lambda>(ostr, a). ostr = take 2 s \<or> starts_with s ostr) A)
      else [])"

text \<open>\<open>_parse_optional\<close>: the class of one argument.\<close>

definition classify_arg :: "(string \<times> opt_spec) list \<Rightarrow> string \<Rightarrow> py_error + arg_class" where
  "classify_arg A s =
     (if s = [] \<or> hd s \<noteq> CHR ''-'' then Inr (APos s)
      else case map_of A s of Some a \<Rightarrow> Inr (AOpt a s None) | None \<Rightarrow>
      if length s = 1 then Inr (APos s)
      else case (case split_eq s of
                   Some (ostr, e) \<Rightarrow> map_option (\<lambda>a. AOpt a ostr (Some e)) (map_of A ostr)
                 | None \<Rightarrow> None) of
        Some c \<Rightarrow> Inr c
      | None \<Rightarrow>
          (let ts = option_tuples A s in
           if 1 < length ts
           then Inl (UsageError (''ambiguous option: '' @ s @ '' could match '' @
                                 str_join '', '' (map (\<lambda>(a, ostr, e). ostr) ts)))
           else if length ts = 1 then Inr (case hd ts of (a, ostr, e) \<Rightarrow> AOpt a ostr e)
           else if negative_number s then Inr (APos s)
           else if CHR '' '' \<in> set s then Inr (APos s)
           else Inr (AUnknown s)))"

text \<open>The loop of \<open>_parse_known_args\<close> that builds the pattern: everything after
  \<open>--\<close> is positional.\<close>

fun classify_args :: "(string \<times> opt_spec) list \<Rightarrow> string list \<Rightarrow> py_error + arg_class list" where
  "classify_args A [] = Inr []"
| "classify_args A (s # ss) =
     (if s = ''--'' then Inr (ADashDash # map APos ss)
      else case classify_arg A s of
        Inl e \<Rightarrow> Inl e
      | Inr c \<Rightarrow> (case classify_args A ss of Inl e \<Rightarrow> Inl e | Inr cs \<Rightarrow> Inr (c # cs)))"

definition takes_no_value :: "opt_spec \<Rightarrow> bool" where
  "takes_no_value a \<longleftrightarrow> opt_act a \<noteq> Store"

definition err_ignored :: "opt_spec \<Rightarrow> string \<Rightarrow> py_error" where
  "err_ignored a x = UsageError (''argument '' @ action_name a @ '': ignored explicit argument '' @
                                 CHR 0x27 # x @ [CHR 0x27])"

definition err_expected :: "opt_spec \<Rightarrow> py_error" where
  "err_expected a = UsageError (''argument '' @ action_name a @ '': expected one argument'')"

text \<open>
  \<open>consume_optional\<close>: the actions to take for one option and how many of the
  following arguments they use. A single-dash flag with characters attached
  (\<open>-hh\<close>) is read as several flags; an option that takes a value and has none
  attached matches \<open>-*A-*\<close> on the following arguments.
\<close>

function opt_loop ::
  "(string \<times> opt_spec) list \<Rightarrow> opt_spec \<Rightarrow> string \<Rightarrow> string option \<Rightarrow> arg_class list \<Rightarrow>
   py_error + ((opt_spec \<times> string list) list \<times> nat)" where
  "opt_loop A a ostr (Some x) rest =
     (if takes_no_value a \<and> 1 < length ostr \<and> ostr ! 1 \<noteq> CHR ''-'' \<and> x \<noteq> []
      then (case map_of A [CHR ''-'', hd x] of
              None \<Rightarrow> Inl (err_ignored a x)
            | Some a' \<Rightarrow>
                (case opt_loop A a' [CHR ''-'', hd x] (if tl x = [] then None else Some (tl x)) rest of
                   Inl e \<Rightarrow> Inl e
                 | Inr (ts, k) \<Rightarrow> Inr ((a, []) # ts, k)))
      else if takes_no_value a then Inl (err_ignored a x)
      else Inr ([(a, [x])], 0))"
| "opt_loop A a ostr None rest =
     (if takes_no_value a then Inr ([(a, [])], 0)
      else case rest of
        ADashDash # APos v # r \<Rightarrow> Inr ([(a, [v])], 2)
      | APos v # ADashDash # r \<Rightarrow> Inr ([(a, [v])], 2)
      | APos v # r \<Rightarrow> Inr ([(a, [v])], 1)
      | _ \<Rightarrow> Inl (err_expected a))"
  by pat_completeness auto
termination
  by (relation "measure (\<lambda>(A, a, ostr, x, rest). case x of None \<Rightarrow> 0 | Some s \<Rightarrow> length s)") auto

text \<open>\<open>take_action\<close> for each action in order; \<open>None\<close> when the help action runs
  (\<open>print_help(); exit()\<close>).\<close>

fun run_actions ::
  "(opt_spec \<times> string list) list \<Rightarrow> namespace \<Rightarrow> opt_spec list \<Rightarrow> (namespace \<times> opt_spec list) option" where
  "run_actions [] ns seen = Some (ns, seen)"
| "run_actions ((a, vs) # ts) ns seen =
     (case opt_act a of
        HelpAction \<Rightarrow> None
      | Store \<Rightarrow> run_actions ts (dict_set ns (opt_dest a) (VStr (hd vs))) (a # seen)
      | StoreConst c \<Rightarrow> run_actions ts (dict_set ns (opt_dest a) (VInt c)) (a # seen))"

function consume ::
  "(string \<times> opt_spec) list \<Rightarrow> arg_class list \<Rightarrow> namespace \<Rightarrow> opt_spec list \<Rightarrow> string list \<Rightarrow>
   py_error + (namespace \<times> opt_spec list \<times> string list) option" where
  "consume A [] ns seen extras = Inr (Some (ns, seen, extras))"
| "consume A (APos s # r) ns seen extras = consume A r ns seen (extras @ [s])"
| "consume A (ADashDash # r) ns seen extras = consume A r ns seen (extras @ [''--''])"
| "consume A (AUnknown s # r) ns seen extras = consume A r ns seen (extras @ [s])"
| "consume A (AOpt a ostr x # r) ns seen extras =
     (case opt_loop A a ostr x r of
        Inl e \<Rightarrow> Inl e
      | Inr (ts, k) \<Rightarrow>
          (case run_actions ts ns seen of
             None \<Rightarrow> Inr None
           | Some (ns', seen') \<Rightarrow> consume A (drop k r) ns' seen' extras))"
  by pat_completeness auto
termination
  by (relation "measure (\<lambda>(A, cs, ns, seen, extras). length cs)") auto

text \<open>\<open>parse_args(args)\<close>: the parse, then the check of required options
  (\<open>_parse_known_args\<close>), then that of unrecognized arguments (\<open>parse_args\<close>).\<close>

definition parse_args :: "opt_spec list \<Rightarrow> string list \<Rightarrow> py_error + parse_outcome" where
  "parse_args opts args =
     (let acts = help_spec # opts; A = option_string_actions acts in
      case classify_args A args of
        Inl e \<Rightarrow> Inl e
      | Inr cs \<Rightarrow>
          (case consume A cs [] [] [] of
             Inl e \<Rightarrow> Inl e
           | Inr None \<Rightarrow> Inr HelpShown
           | Inr (Some (ns, seen, extras)) \<Rightarrow>
               (let missing = filter (\<lambda>a. opt_required a \<and> a \<notin> set seen) acts in
                if missing \<noteq> []
                then Inl (UsageError (''the following arguments are required: '' @
                                      str_join '', '' (map action_name missing)))
                else if extras \<noteq> []
                then Inl (UsageError (''unrecognized arguments: '' @ str_join '' '' extras))
                else Inr (Parsed ns))))"

text \<open>\<open>getattr(args, dest)\<close> for a string and for an integer attribute.\<close>

definition ns_str :: "namespace \<Rightarrow> string \<Rightarrow> string option" where
  "ns_str ns d = (case map_of ns d of Some (VStr v) \<Rightarrow> Some v | _ \<Rightarrow> None)"

definition ns_int :: "namespace \<Rightarrow> string \<Rightarrow> int option" where
  "ns_int ns d = (case map_of ns d of Some (VInt v) \<Rightarrow> Some v | _ \<Rightarrow> None)"

section \<open>The namespace a parse produces\<close>

text \<open>A value fits its action: \<open>store\<close> stores a string, \<open>store_const\<close> its constant.\<close>

definition value_fits :: "opt_spec \<Rightarrow> arg_value \<Rightarrow> bool" where
  "value_fits a v =
     (case (opt_act a, v) of (Store, VStr s) \<Rightarrow> True | (StoreConst c, VInt i) \<Rightarrow> i = c | _ \<Rightarrow> False)"

definition ns_ok :: "opt_spec list \<Rightarrow> namespace \<Rightarrow> bool" where
  "ns_ok acts ns \<longleftrightarrow> dict_inv ns \<and> (\<forall>(d, v) \<in> set ns. \<exists>a \<in> set acts. opt_dest a = d \<and> value_fits a v)"

fun class_ok :: "opt_spec list \<Rightarrow> arg_class \<Rightarrow> bool" where
  "class_ok acts (AOpt a ostr x) \<longleftrightarrow> a \<in> set acts"
| "class_ok acts c \<longleftrightarrow> True"

definition st_ok :: "opt_spec list \<Rightarrow> namespace \<Rightarrow> opt_spec list \<Rightarrow> bool" where
  "st_ok acts ns seen \<longleftrightarrow> ns_ok acts ns \<and> (\<forall>a \<in> set seen. opt_dest a \<in> fst ` set ns)"

lemma option_string_actions_in: "(ostr, a) \<in> set (option_string_actions acts) \<Longrightarrow> a \<in> set acts"
  by (auto simp: option_string_actions_def)

lemma map_of_option_string_actions:
  "map_of (option_string_actions acts) ostr = Some a \<Longrightarrow> a \<in> set acts"
  by (auto dest: map_of_SomeD option_string_actions_in)

lemma option_tuples_in:
  "(a, ostr, e) \<in> set (option_tuples (option_string_actions acts) s) \<Longrightarrow> a \<in> set acts"
  unfolding option_tuples_def
  by (auto dest: option_string_actions_in split: prod.splits option.splits if_splits)

lemma classify_arg_ok:
  assumes "classify_arg (option_string_actions acts) s = Inr c"
  shows "class_ok acts c"
proof -
  let ?ts = "option_tuples (option_string_actions acts) s"
  have hd: "length ?ts = 1 \<Longrightarrow> hd ?ts \<in> set ?ts" by (cases ?ts) auto
  show ?thesis
  proof (cases "map_of (option_string_actions acts) s")
    case (Some a)
    with assms show ?thesis by (auto simp: classify_arg_def split: if_splits dest: map_of_option_string_actions)
  next
    case None
    show ?thesis
    proof (cases "\<exists>ostr e a. split_eq s = Some (ostr, e) \<and> map_of (option_string_actions acts) ostr = Some a")
      case True
      then obtain ostr e a where "split_eq s = Some (ostr, e)" "map_of (option_string_actions acts) ostr = Some a"
        by blast
      with assms None show ?thesis
        by (auto simp: classify_arg_def split: if_splits dest: map_of_option_string_actions)
    next
      case False
      then have "(case split_eq s of Some (ostr, e) \<Rightarrow> map_option (\<lambda>a. AOpt a ostr (Some e))
                   (map_of (option_string_actions acts) ostr) | None \<Rightarrow> None) = None"
        by (auto split: option.splits)
      with assms None hd show ?thesis
        by (auto simp: classify_arg_def Let_def split: if_splits prod.splits intro: option_tuples_in)
    qed
  qed
qed

lemma classify_args_ok:
  "classify_args (option_string_actions acts) args = Inr cs \<Longrightarrow> \<forall>c \<in> set cs. class_ok acts c"
proof (induction "option_string_actions acts" args arbitrary: cs rule: classify_args.induct)
  case (2 s ss)
  then show ?case by (auto dest: classify_arg_ok split: if_splits sum.splits)
qed simp

lemma opt_loop_None_actions:
  "opt_loop A a ostr None rest = Inr (ts, k) \<Longrightarrow> \<exists>vs. ts = [(a, vs)]"
  by (cases rest rule: remdups_adj.cases) (auto split: if_splits arg_class.splits list.splits)
lemma opt_loop_actions:
  "opt_loop A a ostr x rest = Inr (ts, k) \<Longrightarrow> \<forall>(b, vs) \<in> set ts. b = a \<or> b \<in> snd ` set A"
proof (induction A a ostr x rest arbitrary: ts k rule: opt_loop.induct)
  case (1 A a ostr x rest)
  show ?case
  proof (cases "takes_no_value a \<and> 1 < length ostr \<and> ostr ! 1 \<noteq> CHR ''-'' \<and> x \<noteq> []")
    case True
    show ?thesis
    proof (cases "map_of A [CHR ''-'', hd x]")
      case None
      with True "1.prems" show ?thesis by simp
    next
      case (Some a')
      let ?r = "opt_loop A a' [CHR ''-'', hd x] (if tl x = [] then None else Some (tl x)) rest"
      obtain ts' where r: "?r = Inr (ts', k)" and ts: "ts = (a, []) # ts'"
        using True Some "1.prems" by (cases ?r) auto
      have "a' \<in> snd ` set A" using map_of_SomeD [OF Some] by force
      with "1.IH" [OF True Some r] ts show ?thesis by auto
    qed
  next
    case False
    with "1.prems" show ?thesis by (auto split: if_splits)
  qed
next
  case (2 A a ostr rest)
  from opt_loop_None_actions [OF "2.prems"] show ?case by auto
qed
lemma ns_ok_dict_set:
  "ns_ok acts ns \<Longrightarrow> a \<in> set acts \<Longrightarrow> value_fits a v \<Longrightarrow> ns_ok acts (dict_set ns (opt_dest a) v)"
  unfolding ns_ok_def using set_dict_set_sub [of ns "opt_dest a" v]
  by (auto simp: dict_inv_dict_set)

lemma run_actions_ok:
  "run_actions ts ns seen = Some (ns', seen') \<Longrightarrow> \<forall>(b, vs) \<in> set ts. b \<in> set acts \<Longrightarrow>
   st_ok acts ns seen \<Longrightarrow> st_ok acts ns' seen'"
proof (induction ts ns seen rule: run_actions.induct)
  case (2 a vs ts ns seen)
  show ?case
  proof (cases "opt_act a")
    case Store
    have "st_ok acts (dict_set ns (opt_dest a) (VStr (hd vs))) (a # seen)"
      using "2.prems"(2,3) Store
      by (auto simp: st_ok_def ns_ok_dict_set value_fits_def set_keys_dict_set)
    with "2.IH"(1) [OF Store] "2.prems" Store show ?thesis by simp
  next
    case (StoreConst c)
    have "st_ok acts (dict_set ns (opt_dest a) (VInt c)) (a # seen)"
      using "2.prems"(2,3) StoreConst
      by (auto simp: st_ok_def ns_ok_dict_set value_fits_def set_keys_dict_set)
    with "2.IH"(2) [OF StoreConst] "2.prems" StoreConst show ?thesis by simp
  next
    case HelpAction
    with "2.prems"(1) show ?thesis by simp
  qed
qed simp

lemma consume_ok:
  "consume A cs ns seen ex = Inr (Some (ns', seen', ex')) \<Longrightarrow> \<forall>c \<in> set cs. class_ok acts c \<Longrightarrow>
   snd ` set A \<subseteq> set acts \<Longrightarrow> st_ok acts ns seen \<Longrightarrow> st_ok acts ns' seen'"
proof (induction A cs ns seen ex rule: consume.induct)
  case (5 A a ostr x r ns seen extras)
  obtain ts k where ol: "opt_loop A a ostr x r = Inr (ts, k)"
    using "5.prems"(1) by (auto split: sum.splits)
  obtain ns1 seen1 where ra: "run_actions ts ns seen = Some (ns1, seen1)"
    using "5.prems"(1) ol by (auto split: option.splits)
  have acts: "\<forall>(b, vs) \<in> set ts. b \<in> set acts"
    using opt_loop_actions [OF ol] "5.prems"(2,3) by fastforce
  have "st_ok acts ns1 seen1" by (rule run_actions_ok [OF ra acts "5.prems"(4)])
  moreover have "\<forall>c \<in> set (drop k r). class_ok acts c"
    using "5.prems"(2) by (auto dest: in_set_dropD)
  moreover have "consume A (drop k r) ns1 seen1 extras = Inr (Some (ns', seen', ex'))"
    using "5.prems"(1) ol ra by simp
  ultimately show ?case using "5.IH" [OF ol refl ra refl] "5.prems"(3) by blast
qed auto

lemma snd_option_string_actions: "snd ` set (option_string_actions acts) \<subseteq> set acts"
  by (auto simp: option_string_actions_def)

lemma parse_args_namespace:
  assumes "parse_args opts args = Inr (Parsed ns)"
  shows "ns_ok (help_spec # opts) ns" and "\<forall>a \<in> set opts. opt_required a \<longrightarrow> opt_dest a \<in> fst ` set ns"
proof -
  let ?acts = "help_spec # opts"
  let ?A = "option_string_actions ?acts"
  obtain cs where cs: "classify_args ?A args = Inr cs"
    using assms by (auto simp: parse_args_def Let_def split: sum.splits)
  obtain seen ex where c: "consume ?A cs [] [] [] = Inr (Some (ns, seen, ex))"
    and req: "\<forall>a \<in> set ?acts. opt_required a \<longrightarrow> a \<in> set seen"
    using assms cs by (auto simp: parse_args_def Let_def filter_empty_conv
      split: sum.splits option.splits prod.splits if_splits)
  have "st_ok ?acts [] []" by (simp add: st_ok_def ns_ok_def dict_inv_def)
  with consume_ok [OF c classify_args_ok [OF cs] snd_option_string_actions]
  have "st_ok ?acts ns seen" .
  with req show "ns_ok ?acts ns" "\<forall>a \<in> set opts. opt_required a \<longrightarrow> opt_dest a \<in> fst ` set ns"
    by (auto simp: st_ok_def)
qed
lemma fst_option_string_actions:
  "fst ` set (option_string_actions acts) = set (concat (map opt_strings acts))"
  by (force simp: option_string_actions_def)

lemma classify_arg_ambiguous:
  "1 < length s \<Longrightarrow> hd s = CHR ''-'' \<Longrightarrow> map_of A s = None \<Longrightarrow> split_eq s = None \<Longrightarrow>
   1 < length (option_tuples A s) \<Longrightarrow> \<exists>msg. classify_arg A s = Inl (UsageError msg)"
  by (auto simp: classify_arg_def Let_def)

lemma namespace_single:
  assumes "dict_inv ns" "\<forall>(d, v) \<in> set ns. d = k" "k \<in> fst ` set ns"
  shows "\<exists>x. ns = [(k, x)]"
proof (cases ns)
  case Nil
  with assms(3) show ?thesis by simp
next
  case (Cons p r)
  with assms show ?thesis by (cases r) (auto simp: dict_inv_def)
qed

section \<open>Arguments that are all positional\<close>

text \<open>
  Arguments that do not start with \<open>-\<close> are positional for every parser, and the
  consume phase leaves them all as extras with the namespace and the options seen as
  they were.
\<close>

lemma classify_args_positional:
  "\<forall>x \<in> set xs. x = [] \<or> hd x \<noteq> CHR ''-'' \<Longrightarrow> classify_args A xs = Inr (map APos xs)"
  by (induction xs) (auto simp: classify_arg_def)

lemma consume_positional: "consume A (map APos xs) ns seen ex = Inr (Some (ns, seen, ex @ xs))"
  by (induction xs arbitrary: ex) simp_all

end
