(* ===== verification/Cli.thy ===== *)
theory Cli
  imports VersionMacros CtkPc Argparse
begin

text \<open>
  The command lines of the two generators and their entry points. Each script builds
  an \<open>ArgumentParser\<close> (\<open>gen-cdkversionmacros-h.py\<close> lines 17 to 20, \<open>ctkpc.py\<close>
  lines 20 to 27 and 41), parses \<open>sys.argv[1:]\<close> with the model of \<open>Argparse\<close>,
  runs \<open>main\<close> as modelled in \<open>VersionMacros\<close> and \<open>CtkPc\<close>, and ends with
  \<open>sys.exit(main(sys.argv))\<close> (lines 32 to 33 and 93 to 94): status 0 when
  \<open>main\<close> returns \<open>None\<close> or the help is shown, 2 for a usage error
  (\<open>parser.error\<close>), 1 for any other uncaught exception (the interpreter prints the
  traceback). \<open>ctkpc.py\<close> also hands its parser to \<open>BasePCItems.setup\<close>, which adds
  options of its own; they are the parameter \<open>base_opts\<close>, added after the script's.
\<close>

definition exit_code :: "py_error + unit \<Rightarrow> nat" where
  "exit_code r = (case r of Inr _ \<Rightarrow> 0 | Inl (UsageError msg) \<Rightarrow> 2 | Inl e \<Rightarrow> 1)"

subsection \<open>\<open>gen-cdkversionmacros-h.py\<close>\<close>

definition version_parser :: "opt_spec list" where
  "version_parser = [long_opt ''--version'' Store True]"

definition version_args :: "string list \<Rightarrow> py_error + parse_outcome" where
  "version_args argv = parse_args version_parser (tl argv)"

definition gen_cdkversionmacros_script :: "string \<Rightarrow> string list \<Rightarrow> 'a fs_scheme \<Rightarrow> nat \<times> 'a fs_scheme" where
  "gen_cdkversionmacros_script script argv s =
     (case version_args argv of
        Inl e \<Rightarrow> (exit_code (Inl e), s)
      | Inr HelpShown \<Rightarrow> (0, s)
      | Inr (Parsed ns) \<Rightarrow>
          (case gen_cdkversionmacros_main script (ns_str ns ''version'') s of
             (r, s') \<Rightarrow> (exit_code r, s')))"

subsection \<open>\<open>ctkpc.py\<close>\<close>

definition ctkpc_parser :: "opt_spec list \<Rightarrow> opt_spec list" where
  "ctkpc_parser base_opts =
     [long_opt ''--broadway'' (StoreConst 1) False, long_opt ''--host'' Store True] @ base_opts"

definition ctkpc_args_of :: "namespace \<Rightarrow> cdk_args" where
  "ctkpc_args_of ns = \<lparr>broadway = ns_int ns ''broadway'', host = ns_str ns ''host''\<rparr>"

definition ctkpc_script ::
  "pc_base \<Rightarrow> opt_spec list \<Rightarrow> string list \<Rightarrow> 'a fs_scheme \<Rightarrow> nat \<times> 'a fs_scheme" where
  "ctkpc_script base base_opts argv s =
     (case parse_args (ctkpc_parser base_opts) (tl argv) of
        Inl e \<Rightarrow> (exit_code (Inl e), s)
      | Inr HelpShown \<Rightarrow> (0, s)
      | Inr (Parsed ns) \<Rightarrow>
          (case ctkpc_main base (ctkpc_args_of ns) s of (r, s') \<Rightarrow> (exit_code r, s')))"

section \<open>Properties of the command lines\<close>

lemmas parse_eval = parse_args_def version_parser_def ctkpc_parser_def long_opt_def help_spec_def
  option_string_actions_def classify_arg_def split_eq_def option_tuples_def takes_no_value_def
  Let_def

lemma version_args_value:
  "v = [] \<or> hd v \<noteq> CHR ''-'' \<Longrightarrow>
   version_args [p, ''--version'', v] = Inr (Parsed [(''version'', VStr v)])"
  by (auto simp: version_args_def parse_eval)

lemma gen_cdkversionmacros_script_parsed:
  "version_args argv = Inr (Parsed [(''version'', VStr v)]) \<Longrightarrow>
   gen_cdkversionmacros_script script argv s =
     (case gen_cdkversionmacros_main script (Some v) s of (r, s') \<Rightarrow> (exit_code r, s'))"
  by (simp add: gen_cdkversionmacros_script_def ns_str_def)

text \<open>
  C19. Whatever the command line, a successful parse of \<open>gen-cdkversionmacros-h.py\<close>'s
  arguments yields a namespace with exactly one attribute, \<open>version\<close>, holding a
  string: \<open>args.version.split('.')\<close> (line 22) never meets \<open>None\<close> or another type.
\<close>

theorem version_args_namespace:
  assumes "version_args argv = Inr (Parsed ns)"
  shows "\<exists>v. ns = [(''version'', VStr v)]"
proof -
  have ok: "ns_ok (help_spec # version_parser) ns"
    and req: "''version'' \<in> fst ` set ns"
    using parse_args_namespace [OF assms [unfolded version_args_def]]
    by (simp_all add: version_parser_def long_opt_def)
  have fits: "value_fits a v \<Longrightarrow> a \<in> set (help_spec # version_parser) \<Longrightarrow>
      opt_dest a = ''version'' \<and> (\<exists>x. v = VStr x)" for a v
    by (auto simp: version_parser_def long_opt_def help_spec_def value_fits_def
        split: arg_value.splits)
  have all: "\<forall>(d, v) \<in> set ns. d = ''version'' \<and> (\<exists>x. v = VStr x)"
  proof
    fix dv assume dv: "dv \<in> set ns"
    obtain d v where dv_eq: "dv = (d, v)" by fastforce
    have "\<exists>a \<in> set (help_spec # version_parser). opt_dest a = d \<and> value_fits a v"
      using ok dv unfolding ns_ok_def dv_eq by blast
    with fits show "case dv of (d, v) \<Rightarrow> d = ''version'' \<and> (\<exists>x. v = VStr x)"
      unfolding dv_eq by fastforce
  qed
  have "dict_inv ns" using ok by (simp add: ns_ok_def)
  then obtain x where x: "ns = [(''version'', x)]"
    using namespace_single [of ns "''version''"] all req by fastforce
  with all show ?thesis by auto
qed

theorem version_args_namespace_witness:
  "\<exists>v. [(''version'', VStr ''3.24.1'')] = [(''version'', VStr v)]"
  by (rule version_args_namespace [of "[''gen-cdkversionmacros-h.py'', ''--version'', ''3.24.1'']"])
     (simp add: version_args_def parse_eval)

text \<open>
  C20. \<open>--version=VALUE\<close> hands any value to the script unchanged, including an empty
  one and one that starts with a dash.
\<close>

theorem version_args_roundtrip:
  "version_args [p, ''--version='' @ v] = Inr (Parsed [(''version'', VStr v)])"
  by (simp add: version_args_def parse_eval)

text \<open>
  C21. argparse accepts every unambiguous prefix of \<open>--version\<close>, down to \<open>--v\<close>, and
  when the option is repeated the last value wins.
\<close>

theorem version_args_abbrev_last:
  assumes "a = [] \<or> hd a \<noteq> CHR ''-''" "b = [] \<or> hd b \<noteq> CHR ''-''"
  shows "\<forall>opt \<in> set [''--v'', ''--ve'', ''--ver'', ''--vers'', ''--versi'', ''--versio'', ''--version''].
    version_args [p, opt, a, opt, b] = Inr (Parsed [(''version'', VStr b)])"
  using assms by (auto simp: version_args_def parse_eval)

theorem version_args_abbrev_last_witness:
  "version_args [''gen.py'', ''--ver'', ''1.2.3'', ''--ver'', ''3.24.1''] =
     Inr (Parsed [(''version'', VStr ''3.24.1'')])"
  using version_args_abbrev_last [of "''1.2.3''" "''3.24.1''" "''gen.py''"] by simp

text \<open>
  C22. The script as run by the build, \<open>gen-cdkversionmacros-h.py --version V\<close> with
  a version of at least three parts, its template present and the header writable:
  it exits with status 0 and the header is the template with the three parts
  substituted.
\<close>

theorem gen_cdkversionmacros_script_writes:
  assumes "2 \<le> count_list v CHR ''.''" "hd v \<noteq> CHR ''-''"
    and "files s (version_template script) = Some t"
    and "can_write s (version_header script)"
  shows "gen_cdkversionmacros_script script [p, ''--version'', v] s =
    (0, s\<lparr>files := (files s)(version_header script \<mapsto>
       subst [(''@CTK_MAJOR_VERSION@'', py_split CHR ''.'' v ! 0),
              (''@CTK_MINOR_VERSION@'', py_split CHR ''.'' v ! 1),
              (''@CTK_MICRO_VERSION@'', py_split CHR ''.'' v ! 2)] t)\<rparr>)"
  using assms
  by (simp add: gen_cdkversionmacros_script_parsed version_args_value gen_cdkversionmacros_main_apply
      cdkversionmacro_replace_items_ok replace_multi_apply exit_code_def)

theorem gen_cdkversionmacros_script_writes_witness:
  "gen_cdkversionmacros_script ''/ctk/win32/gen-cdkversionmacros-h.py''
     [''gen-cdkversionmacros-h.py'', ''--version'', ''3.24.1'']
     \<lparr>files = [''/ctk/win32/../cdk/cdkversionmacros.h.in'' \<mapsto> ''#define M @CTK_MAJOR_VERSION@''],
      dirs = [''/ctk/win32/../cdk''], readonly = []\<rparr> =
   (0, \<lparr>files = [''/ctk/win32/../cdk/cdkversionmacros.h.in'' \<mapsto> ''#define M @CTK_MAJOR_VERSION@'',
                 ''/ctk/win32/../cdk/cdkversionmacros.h'' \<mapsto> ''#define M 3''],
        dirs = [''/ctk/win32/../cdk''], readonly = []\<rparr>)"
proof -
  let ?s = "\<lparr>files = [''/ctk/win32/../cdk/cdkversionmacros.h.in'' \<mapsto> ''#define M @CTK_MAJOR_VERSION@''],
      dirs = [''/ctk/win32/../cdk''], readonly = []\<rparr>"
  have sd: "cdk_sourcedir ''/ctk/win32/gen-cdkversionmacros-h.py'' = ''/ctk/win32/../cdk''"
    by (simp add: cdk_sourcedir_def path_dirname_def path_join_def)
  have h3: "files ?s (version_template ''/ctk/win32/gen-cdkversionmacros-h.py'') =
            Some ''#define M @CTK_MAJOR_VERSION@''"
    by (simp add: sd path_join_def)
  have h4: "can_write ?s (version_header ''/ctk/win32/gen-cdkversionmacros-h.py'')"
    by (simp add: sd path_join_def can_write_def dir_exists_def path_dirname_def)
  show ?thesis
    using gen_cdkversionmacros_script_writes [of "''3.24.1''", OF _ _ h3 h4]
    by (simp add: sd path_join_def find_key_def fun_upd_twist)
qed

text \<open>
  C23. The usage errors of \<open>gen-cdkversionmacros-h.py\<close>: without \<open>--version\<close>,
  with \<open>--version\<close> and no value, or with an extra argument the script exits with
  status 2 and writes nothing; \<open>-h\<close> shows the help and exits with status 0. The
  missing \<open>--version\<close> is caught by \<open>required=True\<close> (line 19), not by
  \<open>main\<close>, and the parse starts after \<open>argv[0]\<close>: a program path that looks
  like \<open>--version\<close> is not read as the option.
\<close>

theorem gen_cdkversionmacros_script_usage:
  "gen_cdkversionmacros_script script [p] s = (2, s) \<and>
   gen_cdkversionmacros_script script [p, ''--version''] s = (2, s) \<and>
   gen_cdkversionmacros_script script [p, ''--version'', ''3.24.1'', ''extra''] s = (2, s) \<and>
   gen_cdkversionmacros_script script [p, ''-h'', ''--version''] s = (0, s) \<and>
   gen_cdkversionmacros_script script [''--version'', ''-h''] s = (0, s)"
  by (simp add: gen_cdkversionmacros_script_def version_args_def parse_eval exit_code_def
      err_expected_def)

text \<open>
  C24. A version with fewer than three parts passes argparse but makes \<open>main\<close> raise
  \<open>IndexError\<close> (line 25 or 26): the script ends with a traceback, exit status 1, and
  nothing is written.
\<close>

theorem gen_cdkversionmacros_script_short_version:
  "count_list v CHR ''.'' < 2 \<Longrightarrow> v = [] \<or> hd v \<noteq> CHR ''-'' \<Longrightarrow>
   gen_cdkversionmacros_script script [p, ''--version'', v] s = (1, s)"
  by (simp add: gen_cdkversionmacros_script_parsed version_args_value gen_cdkversionmacros_main_apply
      cdkversionmacro_replace_items_short exit_code_def)

theorem gen_cdkversionmacros_script_short_version_witness:
  "gen_cdkversionmacros_script ''gen.py'' [''gen.py'', ''--version'', ''3.24'']
     \<lparr>files = Map.empty, dirs = [], readonly = []\<rparr> =
   (1, \<lparr>files = Map.empty, dirs = [], readonly = []\<rparr>)"
  by (rule gen_cdkversionmacros_script_short_version) simp_all

text \<open>
  C25. \<open>ctkpc.py --host H --broadway\<close>: with base options that are not required, the
  parse gives \<open>main\<close> the host \<open>H\<close> and \<open>broadway = 1\<close>, so the script runs
  \<open>main\<close> with the Broadway backend and exits with the status of that run.
\<close>

theorem ctkpc_script_host_broadway:
  assumes "\<forall>a \<in> set base_opts. \<not> opt_required a" "h = [] \<or> hd h \<noteq> CHR ''-''"
  shows "ctkpc_script base base_opts [p, ''--host'', h, ''--broadway''] s =
    (case ctkpc_main base \<lparr>broadway = Some 1, host = Some h\<rparr> s of (r, s') \<Rightarrow> (exit_code r, s'))"
proof -
  have "parse_args (ctkpc_parser base_opts) [''--host'', h, ''--broadway''] =
      Inr (Parsed [(''host'', VStr h), (''broadway'', VInt 1)])"
    using assms by (auto simp: parse_eval filter_empty_conv)
  then show ?thesis
    by (simp add: ctkpc_script_def ctkpc_args_of_def ns_str_def ns_int_def)
qed

theorem ctkpc_script_host_broadway_witness:
  "ctkpc_script \<lparr>base_replace_items = [], pc_top_srcdir = ''C:/ctk'', pc_srcdir = ''C:/ctk/win32''\<rparr> []
     [''ctkpc.py'', ''--host'', ''x64'', ''--broadway''] \<lparr>files = Map.empty, dirs = [], readonly = []\<rparr> =
   (case ctkpc_main \<lparr>base_replace_items = [], pc_top_srcdir = ''C:/ctk'', pc_srcdir = ''C:/ctk/win32''\<rparr>
           \<lparr>broadway = Some 1, host = Some ''x64''\<rparr> \<lparr>files = Map.empty, dirs = [], readonly = []\<rparr> of
      (r, s') \<Rightarrow> (exit_code r, s'))"
  by (rule ctkpc_script_host_broadway) simp_all

text \<open>
  C26. \<open>--h\<close> is a prefix of both \<open>--help\<close> and \<open>--host\<close>: unless a base option is
  literally \<open>--h\<close>, argparse rejects it as ambiguous before looking at anything else,
  and the script exits with status 2 without running \<open>main\<close>.
\<close>

theorem ctkpc_script_ambiguous_h:
  assumes "''--h'' \<notin> set (concat (map opt_strings base_opts))"
  shows "ctkpc_script base base_opts (p # ''--h'' # rest) s = (2, s)"
proof -
  let ?A = "option_string_actions (help_spec # ctkpc_parser base_opts)"
  have "map_of ?A ''--h'' = None"
    using assms by (simp add: map_of_eq_None_iff fst_option_string_actions ctkpc_parser_def
        long_opt_def help_spec_def)
  moreover have "1 < length (option_tuples ?A ''--h'')"
    by (simp add: option_tuples_def split_eq_def option_string_actions_def ctkpc_parser_def
        long_opt_def help_spec_def)
  ultimately obtain msg where "classify_arg ?A ''--h'' = Inl (UsageError msg)"
    using classify_arg_ambiguous [of "''--h''" ?A] by (auto simp: split_eq_def)
  then show ?thesis by (simp add: ctkpc_script_def parse_args_def exit_code_def)
qed

theorem ctkpc_script_ambiguous_h_witness:
  "ctkpc_script \<lparr>base_replace_items = [], pc_top_srcdir = ''C:/ctk'', pc_srcdir = ''C:/ctk/win32''\<rparr> []
     [''ctkpc.py'', ''--h'', ''x64''] \<lparr>files = Map.empty, dirs = [], readonly = []\<rparr> =
   (2, \<lparr>files = Map.empty, dirs = [], readonly = []\<rparr>)"
  by (rule ctkpc_script_ambiguous_h) simp

text \<open>
  C31. \<open>--host\<close> is required and can only be given as an option: \<open>ctkpc.py\<close> run
  with no argument, or with positional arguments only (a host triple without
  \<open>--host\<close>), stops with the usage error on the missing \<open>--host\<close>, exit status 2,
  before \<open>main\<close> runs, whatever options \<open>BasePCItems.setup\<close> adds. It is
  \<open>required=True\<close> of line 26 that stops it: without it the parse of an empty
  command line succeeds and \<open>main\<close> writes \<open>cdk-3.0.pc\<close> before failing.
\<close>

theorem ctkpc_script_missing_host:
  assumes "\<forall>x \<in> set rest. x = [] \<or> hd x \<noteq> CHR ''-''"
  shows "ctkpc_script base base_opts (p # rest) s = (2, s)"
proof -
  let ?acts = "help_spec # ctkpc_parser base_opts"
  have "long_opt ''--host'' Store True \<in> set (filter (\<lambda>a. opt_required a \<and> a \<notin> set []) ?acts)"
    by (simp add: ctkpc_parser_def long_opt_def)
  then have "filter (\<lambda>a. opt_required a \<and> a \<notin> set []) ?acts \<noteq> []" by force
  then obtain msg where "parse_args (ctkpc_parser base_opts) rest = Inl (UsageError msg)"
    using assms by (simp add: parse_args_def Let_def classify_args_positional consume_positional)
  then show ?thesis by (simp add: ctkpc_script_def exit_code_def)
qed

theorem ctkpc_script_missing_host_witness:
  "ctkpc_script \<lparr>base_replace_items = [], pc_top_srcdir = ''C:/ctk'', pc_srcdir = ''C:/ctk/win32''\<rparr> []
     [''ctkpc.py'', ''x86_64-w64-mingw32''] \<lparr>files = Map.empty, dirs = [], readonly = []\<rparr> =
   (2, \<lparr>files = Map.empty, dirs = [], readonly = []\<rparr>)"
  by (rule ctkpc_script_missing_host) simp

end
