(* ===== verification/PostInstall.thy ===== *)
theory PostInstall
  imports PyOs
begin

text \<open>
  \<open>src/build-aux/meson/post-install.py\<close>: after installation (unless \<open>DESTDIR\<close>
  marks a staged install) copy the MSVC import libraries on Windows, compile the
  GSettings schemas, refresh the icon cache, regenerate the input-method module cache
  and the print-backend module cache, each by running an external tool. The exit
  status of every tool is ignored (\<open>subprocess.call\<close>); a missing program raises
  and stops the script; \<open>check_output\<close> raises when pkg-config fails.

  The world extends the file system of \<open>PyOs\<close> with what the script reads from its
  environment (\<open>os.environ\<close>, \<open>os.name\<close>, \<open>sys.argv\<close>, the programs that can be
  started, pkg-config's answers for \<open>gio-2.0\<close>, the output a tool writes to its
  standard output) and what it does to it (the lines printed, the command lines of the
  processes started, in order).
\<close>

record world = fs +
  environ_destdir :: bool
  os_nt :: bool
  sys_argv :: "string list"
  programs :: "string list"
  gio_pc_found :: bool
  gio_pc_vars :: "(string \<times> string) list"
  tool_stdout :: "string \<Rightarrow> string"
  tool_status :: "string \<Rightarrow> int"
  printed :: "string list"
  procs :: "string list list"

section \<open>Processes\<close>

definition py_print :: "string \<Rightarrow> (world, unit) pyexec" where
  "py_print msg = modify (\<lambda>w. w\<lparr>printed := printed w @ [msg]\<rparr>)"

text \<open>
  \<open>subprocess.call(cmd)\<close>: runs the program and returns its exit status; every caller
  in the script discards it (an expression statement, \<open>expr_stmt\<close>).
\<close>

definition subprocess_call :: "string list \<Rightarrow> (world, int) pyexec" where
  "subprocess_call cmd = (\<lambda>w.
     if hd cmd \<in> set (programs w)
     then (Inr (tool_status w (hd cmd)), w\<lparr>procs := procs w @ [cmd]\<rparr>)
     else (Inl (ExecNotFound (hd cmd)), w))"

text \<open>\<open>subprocess.call(cmd, stdout=f)\<close> with \<open>f\<close> open for writing at path \<open>p\<close>.\<close>

definition subprocess_call_stdout :: "string list \<Rightarrow> string \<Rightarrow> (world, int) pyexec" where
  "subprocess_call_stdout cmd p = (\<lambda>w.
     if hd cmd \<in> set (programs w)
     then (Inr (tool_status w (hd cmd)), w\<lparr>files := (files w)(p \<mapsto> tool_stdout w (hd cmd)), procs := procs w @ [cmd]\<rparr>)
     else (Inl (ExecNotFound (hd cmd)), w))"

definition pc_var :: "world \<Rightarrow> string \<Rightarrow> string" where
  "pc_var w var = (case map_of (gio_pc_vars w) var of Some v \<Rightarrow> v | None \<Rightarrow> [])"

definition pkg_config_cmd :: "string \<Rightarrow> string list" where
  "pkg_config_cmd var = [''pkg-config'', ''--variable='' @ var, ''gio-2.0'']"

text \<open>
  \<open>subprocess.check_output(['pkg-config', '--variable=' + var, 'gio-2.0'])\<close>: the
  value and a newline (an empty line for an unknown variable), or
  \<open>CalledProcessError\<close> when pkg-config does not know \<open>gio-2.0\<close>.
\<close>

definition pkg_config_variable :: "string \<Rightarrow> (world, string) pyexec" where
  "pkg_config_variable var = (\<lambda>w.
     if ''pkg-config'' \<notin> set (programs w) then (Inl (ExecNotFound ''pkg-config''), w)
     else if gio_pc_found w
     then (Inr (pc_var w var @ ''\<newline>''), w\<lparr>procs := procs w @ [pkg_config_cmd var]\<rparr>)
     else (Inl (CalledProcessError ''pkg-config''), w\<lparr>procs := procs w @ [pkg_config_cmd var]\<rparr>))"

section \<open>The script\<close>

text \<open>Lines 9 to 13: the five positional arguments.\<close>

definition read_install_args ::
  "string list \<Rightarrow> py_error + (string \<times> string \<times> string \<times> string \<times> string)" where
  "read_install_args argv =
     (case py_index argv 1 of Inl e \<Rightarrow> Inl e | Inr ctk_api_version \<Rightarrow>
      case py_index argv 2 of Inl e \<Rightarrow> Inl e | Inr ctk_abi_version \<Rightarrow>
      case py_index argv 3 of Inl e \<Rightarrow> Inl e | Inr ctk_bindir \<Rightarrow>
      case py_index argv 4 of Inl e \<Rightarrow> Inl e | Inr ctk_libdir \<Rightarrow>
      case py_index argv 5 of Inl e \<Rightarrow> Inl e | Inr ctk_datadir \<Rightarrow>
        Inr (ctk_api_version, ctk_abi_version, ctk_bindir, ctk_libdir, ctk_datadir))"

text \<open>Lines 14 to 19: the tools and module directories.\<close>

record install_paths =
  ctk_query_immodules :: string
  ctk_update_icon_cache :: string
  ctk_moduledir :: string
  ctk_immodule_dir :: string
  ctk_printmodule_dir :: string

definition install_paths_of :: "string \<Rightarrow> string \<Rightarrow> string \<Rightarrow> string \<Rightarrow> install_paths" where
  "install_paths_of api abi bindir libdir =
     (let moduledir = path_join (path_join libdir (''ctk-'' @ api)) abi in
      \<lparr>ctk_query_immodules = path_join bindir (''ctk-query-immodules-'' @ api),
       ctk_update_icon_cache = path_join bindir ''ctk-update-icon-cache'',
       ctk_moduledir = moduledir,
       ctk_immodule_dir = path_join moduledir ''immodules'',
       ctk_printmodule_dir = path_join moduledir ''printbackends''\<rparr>)"

text \<open>Lines 21 to 27: on Windows, copy \<open>xxx-3.lib\<close> to \<open>xxx-3.0.lib\<close> where it exists.\<close>

definition copy_msvc_libs :: "string \<Rightarrow> string \<Rightarrow> (world, unit) pyexec" where
  "copy_msvc_libs api libdir =
     bindE (gets os_nt) (\<lambda>nt. whenE nt
       (forE [''gdk'', ''ctk'', ''gailutil''] (\<lambda>lib.
          let installed_lib = path_join libdir (lib @ ''-'' @ hd (py_split CHR ''.'' api) @ ''.lib'');
              installed_lib_dst = path_join libdir (lib @ ''-'' @ api @ ''.lib'')
          in bindE (gets (\<lambda>w. isfile w installed_lib)) (\<lambda>b.
               whenE b (copyfile installed_lib installed_lib_dst)))))"

text \<open>
  Lines 30 to 35 and 52 to 57: a tool's path from a pkg-config variable, stripped,
  or the plain program name when that path does not exist.
\<close>

definition resolve_tool :: "string \<Rightarrow> string \<Rightarrow> (world, string) pyexec" where
  "resolve_tool var fallback =
     bindE (pkg_config_variable var) (\<lambda>out.
       let tool = py_strip out in
       gets (\<lambda>w. if path_exists w tool then tool else fallback))"

text \<open>Lines 29 to 37.\<close>

definition compile_schemas :: "string \<Rightarrow> (world, unit) pyexec" where
  "compile_schemas datadir =
     seqE (py_print ''Compiling GSettings schemas...'')
       (bindE (resolve_tool ''glib_compile_schemas'' ''glib-compile-schemas'') (\<lambda>glib_compile_schemas.
          expr_stmt (subprocess_call [glib_compile_schemas,
            path_join (path_join datadir ''glib-2.0'') ''schemas''])))"

text \<open>Lines 39 to 41.\<close>

definition update_icon_cache :: "install_paths \<Rightarrow> string \<Rightarrow> (world, unit) pyexec" where
  "update_icon_cache P datadir =
     seqE (py_print ''Updating icon cache...'')
       (expr_stmt (subprocess_call [ctk_update_icon_cache P, ''-q'', ''-t'', ''-f'',
                         path_join (path_join datadir ''icons'') ''hicolor'']))"

text \<open>Lines 43 to 47: the cache file is opened (truncated) before the tool runs.\<close>

definition immodules_cache :: "install_paths \<Rightarrow> (world, unit) pyexec" where
  "immodules_cache P =
     seqE (py_print ''Updating module cache for input methods...'')
       (seqE (makedirs (ctk_immodule_dir P))
         (let cache = path_join (ctk_moduledir P) ''immodules.cache'' in
          seqE (write_file cache [])
            (expr_stmt (subprocess_call_stdout [ctk_query_immodules P] cache))))"

text \<open>Lines 49 to 58.\<close>

definition printbackends_cache :: "install_paths \<Rightarrow> (world, unit) pyexec" where
  "printbackends_cache P =
     seqE (py_print ''Updating module cache for print backends...'')
       (seqE (makedirs (ctk_printmodule_dir P))
         (bindE (resolve_tool ''gio_querymodules'' ''gio-querymodules'') (\<lambda>gio_querymodules.
            expr_stmt (subprocess_call [gio_querymodules, ctk_printmodule_dir P]))))"

text \<open>Lines 8 to 58: the whole script.\<close>

definition post_install :: "(world, unit) pyexec" where
  "post_install =
     bindE (gets environ_destdir) (\<lambda>destdir.
       if destdir then ret ()
       else bindE (gets sys_argv) (\<lambda>argv.
         case read_install_args argv of
           Inl e \<Rightarrow> raise e
         | Inr (api, abi, bindir, libdir, datadir) \<Rightarrow>
             (let P = install_paths_of api abi bindir libdir in
              seqE (copy_msvc_libs api libdir)
               (seqE (compile_schemas datadir)
                 (seqE (update_icon_cache P datadir)
                   (seqE (immodules_cache P)
                     (printbackends_cache P)))))))"

section \<open>Each step on its own\<close>

definition tool_choice :: "world \<Rightarrow> string \<Rightarrow> string \<Rightarrow> string" where
  "tool_choice w var fallback =
     (let tool = py_strip (pc_var w var @ ''\<newline>'') in
      if path_exists w tool then tool else fallback)"

lemma py_print_apply [simp]: "py_print msg w = (Inr (), w\<lparr>printed := printed w @ [msg]\<rparr>)"
  by (simp add: py_print_def)

lemma subprocess_call_ok:
  "hd cmd \<in> set (programs w) \<Longrightarrow>
   subprocess_call cmd w = (Inr (tool_status w (hd cmd)), w\<lparr>procs := procs w @ [cmd]\<rparr>)"
  by (simp add: subprocess_call_def)

lemma subprocess_call_missing:
  "hd cmd \<notin> set (programs w) \<Longrightarrow> subprocess_call cmd w = (Inl (ExecNotFound (hd cmd)), w)"
  by (simp add: subprocess_call_def)

lemma pc_var_upd [simp]:
  "pc_var (w\<lparr>procs := x\<rparr>) = pc_var w" "pc_var (w\<lparr>printed := y\<rparr>) = pc_var w"
  "pc_var (w\<lparr>dirs := d\<rparr>) = pc_var w" "pc_var (w\<lparr>files := f\<rparr>) = pc_var w"
  by (simp_all add: pc_var_def fun_eq_iff)

lemma tool_choice_upd [simp]:
  "tool_choice (w\<lparr>procs := x\<rparr>) = tool_choice w" "tool_choice (w\<lparr>printed := y\<rparr>) = tool_choice w"
  by (simp_all add: tool_choice_def path_exists_def isfile_def fun_eq_iff)

lemma obs_upd [simp]:
  "isfile (w\<lparr>printed := x\<rparr>) = isfile w" "isfile (w\<lparr>procs := y\<rparr>) = isfile w"
  "can_write (w\<lparr>printed := x\<rparr>) = can_write w" "can_write (w\<lparr>procs := y\<rparr>) = can_write w"
  by (simp_all add: isfile_def can_write_def dir_exists_def fun_eq_iff)

lemma resolve_tool_ok:
  "''pkg-config'' \<in> set (programs w) \<Longrightarrow> gio_pc_found w \<Longrightarrow>
   resolve_tool var fb w =
     (Inr (tool_choice w var fb), w\<lparr>procs := procs w @ [pkg_config_cmd var]\<rparr>)"
  by (simp add: resolve_tool_def pkg_config_variable_def tool_choice_def Let_def
      path_exists_def isfile_def)

lemma resolve_tool_no_gio:
  "''pkg-config'' \<in> set (programs w) \<Longrightarrow> \<not> gio_pc_found w \<Longrightarrow>
   resolve_tool var fb w =
     (Inl (CalledProcessError ''pkg-config''), w\<lparr>procs := procs w @ [pkg_config_cmd var]\<rparr>)"
  by (simp add: resolve_tool_def pkg_config_variable_def)

abbreviation schemas_dir :: "string \<Rightarrow> string" where
  "schemas_dir datadir \<equiv> path_join (path_join datadir ''glib-2.0'') ''schemas''"

abbreviation icon_theme_dir :: "string \<Rightarrow> string" where
  "icon_theme_dir datadir \<equiv> path_join (path_join datadir ''icons'') ''hicolor''"

abbreviation immodules_cache_file :: "install_paths \<Rightarrow> string" where
  "immodules_cache_file P \<equiv> path_join (ctk_moduledir P) ''immodules.cache''"

lemma compile_schemas_ok:
  assumes "''pkg-config'' \<in> set (programs w)" "gio_pc_found w"
    and "tool_choice w ''glib_compile_schemas'' ''glib-compile-schemas'' \<in> set (programs w)"
  shows "compile_schemas datadir w =
    (Inr (), w\<lparr>printed := printed w @ [''Compiling GSettings schemas...''],
               procs := procs w @ [pkg_config_cmd ''glib_compile_schemas'',
                 [tool_choice w ''glib_compile_schemas'' ''glib-compile-schemas'', schemas_dir datadir]]\<rparr>)"
  using assms by (simp add: compile_schemas_def resolve_tool_ok subprocess_call_ok)

lemma update_icon_cache_ok:
  "ctk_update_icon_cache P \<in> set (programs w) \<Longrightarrow>
   update_icon_cache P datadir w =
    (Inr (), w\<lparr>printed := printed w @ [''Updating icon cache...''],
      procs := procs w @ [[ctk_update_icon_cache P, ''-q'', ''-t'', ''-f'', icon_theme_dir datadir]]\<rparr>)"
  by (simp add: update_icon_cache_def subprocess_call_ok)

lemma update_icon_cache_missing:
  "ctk_update_icon_cache P \<notin> set (programs w) \<Longrightarrow>
   update_icon_cache P datadir w =
    (Inl (ExecNotFound (ctk_update_icon_cache P)),
     w\<lparr>printed := printed w @ [''Updating icon cache...'']\<rparr>)"
  by (simp add: update_icon_cache_def subprocess_call_missing)

lemma tool_choice_cases:
  "tool_choice w var fb = py_strip (pc_var w var @ ''\<newline>'') \<or> tool_choice w var fb = fb"
  by (simp add: tool_choice_def Let_def)

lemma immodules_cache_ok:
  assumes "\<forall>d \<in> set (path_prefixes [] (ctk_immodule_dir P)). \<not> isfile w d"
    and "can_write w (immodules_cache_file P)"
    and "immodules_cache_file P \<notin> set (path_prefixes [] (ctk_immodule_dir P))"
    and "ctk_query_immodules P \<in> set (programs w)"
  shows "immodules_cache P w =
    (Inr (), w\<lparr>printed := printed w @ [''Updating module cache for input methods...''],
      dirs := dirs w @ filter (\<lambda>d. d \<notin> set (dirs w)) (path_prefixes [] (ctk_immodule_dir P)),
      files := (files w)(immodules_cache_file P \<mapsto> tool_stdout w (ctk_query_immodules P)),
      procs := procs w @ [[ctk_query_immodules P]]\<rparr>)"
proof -
  let ?ds = "filter (\<lambda>d. d \<notin> set (dirs w)) (path_prefixes [] (ctk_immodule_dir P))"
  have cw: "can_write (w\<lparr>printed := printed w @ [''Updating module cache for input methods...''],
      dirs := dirs w @ ?ds\<rparr>) (immodules_cache_file P)"
    using can_write_more_dirs [OF assms(2), of ?ds] assms(3)
    by (simp add: can_write_def dir_exists_def)
  show ?thesis
    using assms cw
    by (simp add: immodules_cache_def makedirs_ok write_file_def subprocess_call_stdout_def
        isfile_def Let_def)
qed

lemma immodules_cache_missing_tool:
  assumes "\<forall>d \<in> set (path_prefixes [] (ctk_immodule_dir P)). \<not> isfile w d"
    and "can_write w (immodules_cache_file P)"
    and "immodules_cache_file P \<notin> set (path_prefixes [] (ctk_immodule_dir P))"
    and "ctk_query_immodules P \<notin> set (programs w)"
  shows "immodules_cache P w =
    (Inl (ExecNotFound (ctk_query_immodules P)),
     w\<lparr>printed := printed w @ [''Updating module cache for input methods...''],
      dirs := dirs w @ filter (\<lambda>d. d \<notin> set (dirs w)) (path_prefixes [] (ctk_immodule_dir P)),
      files := (files w)(immodules_cache_file P \<mapsto> [])\<rparr>)"
proof -
  let ?ds = "filter (\<lambda>d. d \<notin> set (dirs w)) (path_prefixes [] (ctk_immodule_dir P))"
  have cw: "can_write (w\<lparr>printed := printed w @ [''Updating module cache for input methods...''],
      dirs := dirs w @ ?ds\<rparr>) (immodules_cache_file P)"
    using can_write_more_dirs [OF assms(2), of ?ds] assms(3)
    by (simp add: can_write_def dir_exists_def)
  show ?thesis
    using assms cw
    by (simp add: immodules_cache_def makedirs_ok write_file_def subprocess_call_stdout_def
        isfile_def Let_def)
qed

lemma tool_choice_in:
  "py_strip (pc_var w var @ ''\<newline>'') \<in> A \<Longrightarrow> fb \<in> A \<Longrightarrow> tool_choice w var fb \<in> A"
  using tool_choice_cases [of w var fb] by auto

lemma printbackends_cache_ok:
  assumes "\<forall>d \<in> set (path_prefixes [] (ctk_printmodule_dir P)). \<not> isfile w d"
    and "''pkg-config'' \<in> set (programs w)" "gio_pc_found w"
    and "py_strip (pc_var w ''gio_querymodules'' @ ''\<newline>'') \<in> set (programs w)"
    and "''gio-querymodules'' \<in> set (programs w)"
    and w': "w' = w\<lparr>printed := printed w @ [''Updating module cache for print backends...''],
      dirs := dirs w @ filter (\<lambda>d. d \<notin> set (dirs w)) (path_prefixes [] (ctk_printmodule_dir P))\<rparr>"
  shows "printbackends_cache P w =
    (Inr (), w'\<lparr>procs := procs w @ [pkg_config_cmd ''gio_querymodules'',
      [tool_choice w' ''gio_querymodules'' ''gio-querymodules'', ctk_printmodule_dir P]]\<rparr>)"
proof -
  have "tool_choice w' ''gio_querymodules'' ''gio-querymodules'' \<in> set (programs w)"
    using assms(4,5) by (intro tool_choice_in) (simp_all add: w')
  then show ?thesis
    using assms(1-3)
    by (simp add: printbackends_cache_def makedirs_ok resolve_tool_ok subprocess_call_ok w' isfile_def)
qed

text \<open>The module directories and the cache file of \<open>install_paths_of\<close> (lines 17 to 19, 45).\<close>

lemma install_paths_dirs:
  assumes "P = install_paths_of api abi bindir libdir"
  shows "ctk_immodule_dir P = join_prefix (ctk_moduledir P) @ ''immodules''"
    and "ctk_printmodule_dir P = join_prefix (ctk_moduledir P) @ ''printbackends''"
  by (simp_all add: assms install_paths_of_def Let_def)

lemma cache_not_module_prefix:
  "\<not> starts_with (m @ ''immodules.cache'') (m @ ''immodules'')"
  "\<not> starts_with (m @ ''immodules.cache'') (m @ ''printbackends'')"
  by (simp_all add: starts_with_iff)

lemma cache_not_in_prefixes:
  assumes "P = install_paths_of api abi bindir libdir"
  shows "immodules_cache_file P \<notin> set (path_prefixes [] (ctk_immodule_dir P))"
    and "immodules_cache_file P \<notin> set (path_prefixes [] (ctk_printmodule_dir P))"
  using path_prefixes_prefix [of "immodules_cache_file P" "[]"] cache_not_module_prefix
    install_paths_dirs [OF assms]
  by auto

lemma read_install_args_ok:
  "read_install_args (s0 # api # abi # bindir # libdir # datadir # rest) =
     Inr (api, abi, bindir, libdir, datadir)"
  by (simp add: read_install_args_def py_index_def)

lemma copy_msvc_libs_not_nt: "\<not> os_nt w \<Longrightarrow> copy_msvc_libs api libdir w = (Inr (), w)"
  by (simp add: copy_msvc_libs_def)

section \<open>The script as a whole\<close>

lemma post_install_unfold:
  assumes "\<not> environ_destdir w" "\<not> os_nt w"
    and "sys_argv w = s0 # api # abi # bindir # libdir # datadir # rest"
    and "P = install_paths_of api abi bindir libdir"
  shows "post_install w =
    seqE (compile_schemas datadir)
      (seqE (update_icon_cache P datadir) (seqE (immodules_cache P) (printbackends_cache P))) w"
  using assms by (simp add: post_install_def read_install_args_ok copy_msvc_libs_not_nt Let_def)

abbreviation sample_world :: "string list \<Rightarrow> bool \<Rightarrow> string list \<Rightarrow> world" where
  "sample_world argv found progs \<equiv>
     \<lparr>files = Map.empty, dirs = [''/usr/lib/ctk-3.0/3.0.0''], readonly = [],
      environ_destdir = False, os_nt = False, sys_argv = argv, programs = progs,
      gio_pc_found = found, gio_pc_vars = [(''gio_querymodules'', ''/usr/bin/gio-querymodules'')],
      tool_stdout = (\<lambda>_. ''cache''), tool_status = (\<lambda>_. 0), printed = [], procs = []\<rparr>"

abbreviation sample_argv :: "string list" where
  "sample_argv \<equiv> [''post-install.py'', ''3.0'', ''3.0.0'', ''/usr/bin'', ''/usr/lib'', ''/usr/share'']"

lemmas sample_eval = install_paths_of_def tool_choice_def pc_var_def path_exists_def isfile_def
  dir_exists_def can_write_def path_join_def path_dirname_def py_strip_def py_isspace_def

text \<open>
  C10. Under a staged install (\<open>DESTDIR\<close> set, line 8) the script does nothing: no
  argument is read, nothing is printed, run or written.
\<close>

theorem post_install_destdir_skip:
  "environ_destdir w \<Longrightarrow> post_install w = (Inr (), w)"
  by (simp add: post_install_def)

theorem post_install_destdir_skip_witness:
  "post_install ((sample_world [] True [])\<lparr>environ_destdir := True\<rparr>) =
     (Inr (), (sample_world [] True [])\<lparr>environ_destdir := True\<rparr>)"
  by (rule post_install_destdir_skip) simp

text \<open>
  C11. Outside a staged install, fewer than five arguments make \<open>sys.argv[i]\<close> raise
  \<open>IndexError\<close> (lines 9 to 13) before any effect.
\<close>

theorem post_install_argv_error:
  "\<not> environ_destdir w \<Longrightarrow> length (sys_argv w) < 6 \<Longrightarrow> post_install w = (Inl IndexError, w)"
  by (simp add: post_install_def read_install_args_def py_index_def)

theorem post_install_argv_error_witness:
  "post_install (sample_world (take 5 sample_argv) True []) =
     (Inl IndexError, sample_world (take 5 sample_argv) True [])"
  by (rule post_install_argv_error) simp_all
text \<open>
  C12. When pkg-config does not know \<open>gio-2.0\<close>, \<open>check_output\<close> raises
  \<open>CalledProcessError\<close> at line 30: the run stops after the first message and the one
  pkg-config call, before any tool runs.
\<close>

theorem post_install_no_gio:
  assumes "\<not> environ_destdir w" "\<not> os_nt w"
    and "sys_argv w = s0 # api # abi # bindir # libdir # datadir # rest"
    and "''pkg-config'' \<in> set (programs w)" "\<not> gio_pc_found w"
  shows "post_install w =
    (Inl (CalledProcessError ''pkg-config''),
     w\<lparr>printed := printed w @ [''Compiling GSettings schemas...''],
       procs := procs w @ [pkg_config_cmd ''glib_compile_schemas'']\<rparr>)"
  using assms
  by (simp add: post_install_unfold [OF assms(1-3) refl] compile_schemas_def resolve_tool_no_gio)

theorem post_install_no_gio_witness:
  "post_install (sample_world sample_argv False [''pkg-config'']) =
    (Inl (CalledProcessError ''pkg-config''),
     (sample_world sample_argv False [''pkg-config''])\<lparr>printed := [''Compiling GSettings schemas...''],
       procs := [pkg_config_cmd ''glib_compile_schemas'']\<rparr>)"
  by (rule post_install_no_gio [THEN trans]) simp_all

text \<open>
  C13. A missing icon cache updater (line 40) stops the run with the schemas compiled:
  the module caches are neither emptied nor regenerated and no directory is created.
\<close>

theorem post_install_icon_tool_missing:
  assumes "\<not> environ_destdir w" "\<not> os_nt w"
    and "sys_argv w = s0 # api # abi # bindir # libdir # datadir # rest"
    and P: "P = install_paths_of api abi bindir libdir"
    and "''pkg-config'' \<in> set (programs w)" "gio_pc_found w"
    and "tool_choice w ''glib_compile_schemas'' ''glib-compile-schemas'' \<in> set (programs w)"
    and "ctk_update_icon_cache P \<notin> set (programs w)"
  shows "post_install w =
    (Inl (ExecNotFound (ctk_update_icon_cache P)),
     w\<lparr>printed := printed w @ [''Compiling GSettings schemas...'', ''Updating icon cache...''],
       procs := procs w @ [pkg_config_cmd ''glib_compile_schemas'',
         [tool_choice w ''glib_compile_schemas'' ''glib-compile-schemas'', schemas_dir datadir]]\<rparr>)"
  using assms(4-)
  by (simp add: post_install_unfold [OF assms(1-4)] compile_schemas_ok update_icon_cache_missing)

theorem post_install_icon_tool_missing_witness:
  "post_install (sample_world sample_argv True [''pkg-config'', ''glib-compile-schemas'']) =
    (Inl (ExecNotFound ''/usr/bin/ctk-update-icon-cache''),
     (sample_world sample_argv True [''pkg-config'', ''glib-compile-schemas''])\<lparr>
       printed := [''Compiling GSettings schemas...'', ''Updating icon cache...''],
       procs := [pkg_config_cmd ''glib_compile_schemas'',
         [''glib-compile-schemas'', ''/usr/share/glib-2.0/schemas'']]\<rparr>)"
  by (rule post_install_icon_tool_missing [of _ "''post-install.py''" "''3.0''" "''3.0.0''"
        "''/usr/bin''" "''/usr/lib''" "''/usr/share''" "[]"
        "install_paths_of ''3.0'' ''3.0.0'' ''/usr/bin'' ''/usr/lib''", THEN trans])
     (simp_all add: sample_eval)
lemma first_two_steps:
  assumes "''pkg-config'' \<in> set (programs w)" "gio_pc_found w"
    and "tool_choice w ''glib_compile_schemas'' ''glib-compile-schemas'' \<in> set (programs w)"
    and "ctk_update_icon_cache P \<in> set (programs w)"
  shows "seqE (compile_schemas datadir) (seqE (update_icon_cache P datadir) k) w =
    k (w\<lparr>printed := printed w @ [''Compiling GSettings schemas...'', ''Updating icon cache...''],
         procs := procs w @ [pkg_config_cmd ''glib_compile_schemas'',
           [tool_choice w ''glib_compile_schemas'' ''glib-compile-schemas'', schemas_dir datadir],
           [ctk_update_icon_cache P, ''-q'', ''-t'', ''-f'', icon_theme_dir datadir]]\<rparr>)"
  using assms by (simp add: compile_schemas_ok update_icon_cache_ok)

text \<open>
  C9. A run that is not staged, off Windows, with every program it calls present and
  the module directories free of plain files, makes exactly these changes: it prints the
  four progress messages, creates the missing module directories, writes the output of
  the input-method query tool to \<open>immodules.cache\<close>, and runs six processes in the
  order of the source: pkg-config, the schema compiler on the schema directory, the icon
  cache updater, the input-method query tool, pkg-config again and the print-backend
  query tool on the print-backend directory.
\<close>

theorem post_install_runs_steps_in_order:
  assumes "\<not> environ_destdir w" "\<not> os_nt w"
    and argv: "sys_argv w = s0 # api # abi # bindir # libdir # datadir # rest"
    and P: "P = install_paths_of api abi bindir libdir"
    and pc: "''pkg-config'' \<in> set (programs w)" "gio_pc_found w"
    and tools: "tool_choice w ''glib_compile_schemas'' ''glib-compile-schemas'' \<in> set (programs w)"
      "ctk_update_icon_cache P \<in> set (programs w)" "ctk_query_immodules P \<in> set (programs w)"
      "py_strip (pc_var w ''gio_querymodules'' @ ''\<newline>'') \<in> set (programs w)"
      "''gio-querymodules'' \<in> set (programs w)"
    and nofile: "\<forall>d \<in> set (path_prefixes [] (ctk_immodule_dir P) @ path_prefixes [] (ctk_printmodule_dir P)).
      \<not> isfile w d"
    and cw: "can_write w (immodules_cache_file P)"
  shows "\<exists>gio_querymodules \<in> {py_strip (pc_var w ''gio_querymodules'' @ ''\<newline>''), ''gio-querymodules''}.
    post_install w =
     (Inr (), w\<lparr>printed := printed w @ [''Compiling GSettings schemas...'', ''Updating icon cache...'',
                   ''Updating module cache for input methods...'',
                   ''Updating module cache for print backends...''],
               dirs := dirs w @ filter (\<lambda>d. d \<notin> set (dirs w)) (path_prefixes [] (ctk_immodule_dir P))
                 @ filter (\<lambda>d. d \<notin> set (dirs w @ filter (\<lambda>d. d \<notin> set (dirs w)) (path_prefixes [] (ctk_immodule_dir P))))
                     (path_prefixes [] (ctk_printmodule_dir P)),
               files := (files w)(immodules_cache_file P \<mapsto> tool_stdout w (ctk_query_immodules P)),
               procs := procs w @ [pkg_config_cmd ''glib_compile_schemas'',
                 [tool_choice w ''glib_compile_schemas'' ''glib-compile-schemas'', schemas_dir datadir],
                 [ctk_update_icon_cache P, ''-q'', ''-t'', ''-f'', icon_theme_dir datadir],
                 [ctk_query_immodules P],
                 pkg_config_cmd ''gio_querymodules'', [gio_querymodules, ctk_printmodule_dir P]]\<rparr>)"
proof -
  define w2 where "w2 = w\<lparr>printed := printed w @ [''Compiling GSettings schemas...'', ''Updating icon cache...''],
    procs := procs w @ [pkg_config_cmd ''glib_compile_schemas'',
      [tool_choice w ''glib_compile_schemas'' ''glib-compile-schemas'', schemas_dir datadir],
      [ctk_update_icon_cache P, ''-q'', ''-t'', ''-f'', icon_theme_dir datadir]]\<rparr>"
  define w3 where "w3 = w2\<lparr>printed := printed w2 @ [''Updating module cache for input methods...''],
    dirs := dirs w2 @ filter (\<lambda>d. d \<notin> set (dirs w2)) (path_prefixes [] (ctk_immodule_dir P)),
    files := (files w2)(immodules_cache_file P \<mapsto> tool_stdout w2 (ctk_query_immodules P)),
    procs := procs w2 @ [[ctk_query_immodules P]]\<rparr>"
  define w4 where "w4 = w3\<lparr>printed := printed w3 @ [''Updating module cache for print backends...''],
    dirs := dirs w3 @ filter (\<lambda>d. d \<notin> set (dirs w3)) (path_prefixes [] (ctk_printmodule_dir P))\<rparr>"
  have run: "post_install w = seqE (immodules_cache P) (printbackends_cache P) w2"
    using pc tools(1,2) by (simp only: post_install_unfold [OF assms(1-4)] first_two_steps w2_def)
  have s3: "immodules_cache P w2 = (Inr (), w3)"
    using tools(3) nofile cw cache_not_in_prefixes(1) [OF P]
    by (simp add: immodules_cache_ok w2_def w3_def)
  have s4: "printbackends_cache P w3 = (Inr (), w4\<lparr>procs := procs w3 @ [pkg_config_cmd ''gio_querymodules'',
      [tool_choice w4 ''gio_querymodules'' ''gio-querymodules'', ctk_printmodule_dir P]]\<rparr>)"
    using nofile cache_not_in_prefixes(2) [OF P] pc tools(4,5)
    by (intro printbackends_cache_ok) (auto simp: w2_def w3_def w4_def isfile_def)
  have "tool_choice w4 ''gio_querymodules'' ''gio-querymodules''
      \<in> {py_strip (pc_var w ''gio_querymodules'' @ ''\<newline>''), ''gio-querymodules''}"
    by (intro tool_choice_in) (simp_all add: w2_def w3_def w4_def)
  moreover have "post_install w = (Inr (), w4\<lparr>procs := procs w3 @ [pkg_config_cmd ''gio_querymodules'',
      [tool_choice w4 ''gio_querymodules'' ''gio-querymodules'', ctk_printmodule_dir P]]\<rparr>)"
    by (simp add: run s3 s4)
  ultimately show ?thesis
    by (intro bexI [where x = "tool_choice w4 ''gio_querymodules'' ''gio-querymodules''"])
       (simp_all add: w2_def w3_def w4_def)
qed

theorem post_install_runs_steps_in_order_witness:
  "let w = \<lparr>files = Map.empty, dirs = [''/usr/lib/ctk-3.0/3.0.0''], readonly = [],
        environ_destdir = False, os_nt = False,
        sys_argv = [''post-install.py'', ''3.0'', ''3.0.0'', ''/usr/bin'', ''/usr/lib'', ''/usr/share''],
        programs = [''pkg-config'', ''glib-compile-schemas'', ''/usr/bin/ctk-update-icon-cache'',
                    ''/usr/bin/ctk-query-immodules-3.0'', ''/usr/bin/gio-querymodules'', ''gio-querymodules''],
        gio_pc_found = True,
        gio_pc_vars = [(''gio_querymodules'', ''/usr/bin/gio-querymodules'')],
        tool_stdout = (\<lambda>_. ''cache''), tool_status = (\<lambda>_. 0), printed = [], procs = []\<rparr>;
       P = install_paths_of ''3.0'' ''3.0.0'' ''/usr/bin'' ''/usr/lib''
   in \<exists>g \<in> {py_strip (pc_var w ''gio_querymodules'' @ ''\<newline>''), ''gio-querymodules''}.
    post_install w =
     (Inr (), w\<lparr>printed := printed w @ [''Compiling GSettings schemas...'', ''Updating icon cache...'',
                   ''Updating module cache for input methods...'',
                   ''Updating module cache for print backends...''],
               dirs := dirs w @ filter (\<lambda>d. d \<notin> set (dirs w)) (path_prefixes [] (ctk_immodule_dir P))
                 @ filter (\<lambda>d. d \<notin> set (dirs w @ filter (\<lambda>d. d \<notin> set (dirs w)) (path_prefixes [] (ctk_immodule_dir P))))
                     (path_prefixes [] (ctk_printmodule_dir P)),
               files := (files w)(immodules_cache_file P \<mapsto> tool_stdout w (ctk_query_immodules P)),
               procs := procs w @ [pkg_config_cmd ''glib_compile_schemas'',
                 [tool_choice w ''glib_compile_schemas'' ''glib-compile-schemas'', schemas_dir ''/usr/share''],
                 [ctk_update_icon_cache P, ''-q'', ''-t'', ''-f'', icon_theme_dir ''/usr/share''],
                 [ctk_query_immodules P],
                 pkg_config_cmd ''gio_querymodules'', [g, ctk_printmodule_dir P]]\<rparr>)"
  unfolding Let_def
  by (rule post_install_runs_steps_in_order [of _ "''post-install.py''" "''3.0''" "''3.0.0''" "''/usr/bin''"
        "''/usr/lib''" "''/usr/share''" "[]" "install_paths_of ''3.0'' ''3.0.0'' ''/usr/bin'' ''/usr/lib''"])
     (simp_all add: install_paths_of_def tool_choice_def pc_var_def path_exists_def isfile_def
        dir_exists_def can_write_def path_join_def path_dirname_def py_strip_def py_isspace_def)

text \<open>
  C14. A missing input-method query tool (line 46) stops the run after the cache file
  has been opened for writing (line 45): \<open>immodules.cache\<close> is left empty, whatever it
  held before, and the print-backend step does not run.
\<close>

theorem post_install_query_tool_missing_empties_cache:
  assumes "\<not> environ_destdir w" "\<not> os_nt w"
    and "sys_argv w = s0 # api # abi # bindir # libdir # datadir # rest"
    and P: "P = install_paths_of api abi bindir libdir"
    and "''pkg-config'' \<in> set (programs w)" "gio_pc_found w"
    and "tool_choice w ''glib_compile_schemas'' ''glib-compile-schemas'' \<in> set (programs w)"
    and "ctk_update_icon_cache P \<in> set (programs w)"
    and "ctk_query_immodules P \<notin> set (programs w)"
    and nofile: "\<forall>d \<in> set (path_prefixes [] (ctk_immodule_dir P)). \<not> isfile w d"
    and cw: "can_write w (immodules_cache_file P)"
  shows "\<exists>w'. post_install w = (Inl (ExecNotFound (ctk_query_immodules P)), w') \<and>
    files w' = (files w)(immodules_cache_file P \<mapsto> []) \<and>
    procs w' = procs w @ [pkg_config_cmd ''glib_compile_schemas'',
      [tool_choice w ''glib_compile_schemas'' ''glib-compile-schemas'', schemas_dir datadir],
      [ctk_update_icon_cache P, ''-q'', ''-t'', ''-f'', icon_theme_dir datadir]]"
proof -
  define w2 where "w2 = w\<lparr>printed := printed w @ [''Compiling GSettings schemas...'', ''Updating icon cache...''],
    procs := procs w @ [pkg_config_cmd ''glib_compile_schemas'',
      [tool_choice w ''glib_compile_schemas'' ''glib-compile-schemas'', schemas_dir datadir],
      [ctk_update_icon_cache P, ''-q'', ''-t'', ''-f'', icon_theme_dir datadir]]\<rparr>"
  have run: "post_install w = seqE (immodules_cache P) (printbackends_cache P) w2"
    using assms(5-8)
    by (simp only: post_install_unfold [OF assms(1-4)] first_two_steps w2_def)
  have "can_write w2 (immodules_cache_file P)"
    using cw by (simp add: w2_def can_write_def dir_exists_def)
  moreover have "\<forall>d \<in> set (path_prefixes [] (ctk_immodule_dir P)). \<not> isfile w2 d"
    using nofile by (simp add: w2_def isfile_def)
  ultimately show ?thesis
    using assms(9) cache_not_in_prefixes(1) [OF P]
    by (simp add: run immodules_cache_missing_tool w2_def)
qed

theorem post_install_query_tool_missing_empties_cache_witness:
  "\<exists>w'. post_install ((sample_world sample_argv True
           [''pkg-config'', ''glib-compile-schemas'', ''/usr/bin/ctk-update-icon-cache''])
         \<lparr>files := [''/usr/lib/ctk-3.0/3.0.0/immodules.cache'' \<mapsto> ''old cache'']\<rparr>) =
       (Inl (ExecNotFound ''/usr/bin/ctk-query-immodules-3.0''), w') \<and>
     files w' = [''/usr/lib/ctk-3.0/3.0.0/immodules.cache'' \<mapsto> []] \<and>
     procs w' = [pkg_config_cmd ''glib_compile_schemas'',
       [''glib-compile-schemas'', ''/usr/share/glib-2.0/schemas''],
       [''/usr/bin/ctk-update-icon-cache'', ''-q'', ''-t'', ''-f'', ''/usr/share/icons/hicolor'']]"
  using post_install_query_tool_missing_empties_cache [of "(sample_world sample_argv True
           [''pkg-config'', ''glib-compile-schemas'', ''/usr/bin/ctk-update-icon-cache''])
         \<lparr>files := [''/usr/lib/ctk-3.0/3.0.0/immodules.cache'' \<mapsto> ''old cache'']\<rparr>" "''post-install.py''" "''3.0''" "''3.0.0''"
        "''/usr/bin''" "''/usr/lib''" "''/usr/share''" "[]"
        "install_paths_of ''3.0'' ''3.0.0'' ''/usr/bin'' ''/usr/lib''"]
  by (simp add: sample_eval)

text \<open>
  C15. The tool path read from pkg-config (lines 30 to 35, 52 to 57) is the variable's
  value with the newline stripped when that path exists, and the plain program name
  otherwise, in particular when pkg-config prints an empty line for a variable it does
  not know (GLib before 2.62).
\<close>

theorem resolve_tool_result:
  assumes "''pkg-config'' \<in> set (programs w)" "gio_pc_found w"
    and "pc_var w var = v" "v = [] \<or> \<not> py_isspace (hd v) \<and> \<not> py_isspace (last v)"
  shows "resolve_tool var fb w =
    (Inr (if path_exists w v then v else fb), w\<lparr>procs := procs w @ [pkg_config_cmd var]\<rparr>)"
  using assms by (simp add: resolve_tool_ok tool_choice_def strip_newline)

theorem resolve_tool_result_witness:
  "resolve_tool ''glib_compile_schemas'' ''glib-compile-schemas''
     ((sample_world sample_argv True [''pkg-config''])\<lparr>
        files := [''/usr/bin/glib-compile-schemas'' \<mapsto> []],
        gio_pc_vars := [(''glib_compile_schemas'', ''/usr/bin/glib-compile-schemas'')]\<rparr>) =
   (Inr ''/usr/bin/glib-compile-schemas'',
     (sample_world sample_argv True [''pkg-config''])\<lparr>
        files := [''/usr/bin/glib-compile-schemas'' \<mapsto> []],
        gio_pc_vars := [(''glib_compile_schemas'', ''/usr/bin/glib-compile-schemas'')],
        procs := [pkg_config_cmd ''glib_compile_schemas'']\<rparr>)"
  by (rule resolve_tool_result [where v = "''/usr/bin/glib-compile-schemas''", THEN trans])
     (simp_all add: sample_eval)
abbreviation msvc_lib_src :: "string \<Rightarrow> string \<Rightarrow> string \<Rightarrow> string" where
  "msvc_lib_src libdir api lib \<equiv> path_join libdir (lib @ ''-'' @ hd (py_split CHR ''.'' api) @ ''.lib'')"

abbreviation msvc_lib_dst :: "string \<Rightarrow> string \<Rightarrow> string \<Rightarrow> string" where
  "msvc_lib_dst libdir api lib \<equiv> path_join libdir (lib @ ''-'' @ api @ ''.lib'')"

text \<open>
  C16. On Windows (lines 21 to 27), with the import libraries of a dotted API version
  present and their copies writable, each \<open>xxx-MAJOR.lib\<close> is copied to
  \<open>xxx-API.lib\<close> with its contents, and nothing else changes.
\<close>

theorem copy_msvc_libs_copies:
  assumes "os_nt w" and dot: "api = major @ CHR ''.'' # minor" "CHR ''.'' \<notin> set major"
    and src: "files w (msvc_lib_src libdir api ''gdk'') = Some g"
      "files w (msvc_lib_src libdir api ''ctk'') = Some c"
      "files w (msvc_lib_src libdir api ''gailutil'') = Some u"
    and dst: "can_write w (msvc_lib_dst libdir api ''gdk'')"
      "can_write w (msvc_lib_dst libdir api ''ctk'')"
      "can_write w (msvc_lib_dst libdir api ''gailutil'')"
  shows "copy_msvc_libs api libdir w =
    (Inr (), w\<lparr>files := (files w)(msvc_lib_dst libdir api ''gdk'' \<mapsto> g,
                                 msvc_lib_dst libdir api ''ctk'' \<mapsto> c,
                                 msvc_lib_dst libdir api ''gailutil'' \<mapsto> u)\<rparr>)"
proof -
  have hd: "hd (py_split CHR ''.'' (major @ CHR ''.'' # minor)) = major"
    using dot by (simp add: py_split_append_sep py_split_no_sep)
  show ?thesis
    using assms(1) src dst
    by (simp add: copy_msvc_libs_def hd dot isfile_def copyfile_def read_file_def write_file_def
        Let_def shorter_neq_append)
qed

theorem copy_msvc_libs_copies_witness:
  "copy_msvc_libs ''3.0'' ''C:/ctk/lib''
     ((sample_world sample_argv True [])\<lparr>os_nt := True,
        files := [''C:/ctk/lib/gdk-3.lib'' \<mapsto> ''G'', ''C:/ctk/lib/ctk-3.lib'' \<mapsto> ''C'',
                  ''C:/ctk/lib/gailutil-3.lib'' \<mapsto> ''U''], dirs := [''C:/ctk/lib'']\<rparr>) =
   (Inr (), (sample_world sample_argv True [])\<lparr>os_nt := True,
        files := [''C:/ctk/lib/gdk-3.lib'' \<mapsto> ''G'', ''C:/ctk/lib/ctk-3.lib'' \<mapsto> ''C'',
                  ''C:/ctk/lib/gailutil-3.lib'' \<mapsto> ''U'', ''C:/ctk/lib/gdk-3.0.lib'' \<mapsto> ''G'',
                  ''C:/ctk/lib/ctk-3.0.lib'' \<mapsto> ''C'', ''C:/ctk/lib/gailutil-3.0.lib'' \<mapsto> ''U''],
        dirs := [''C:/ctk/lib'']\<rparr>)"
  by (rule copy_msvc_libs_copies [where major = "''3''" and minor = "''0''", THEN trans])
     (simp_all add: sample_eval)

text \<open>
  C17. With an API version without a dot, \<open>split('.')[0]\<close> is the whole version, so
  source and destination coincide and \<open>shutil.copyfile\<close> raises \<open>SameFileError\<close> on
  the first library present: the script stops on Windows before any cache is refreshed.
\<close>

theorem copy_msvc_libs_same_file:
  "os_nt w \<Longrightarrow> CHR ''.'' \<notin> set api \<Longrightarrow> isfile w (msvc_lib_dst libdir api ''gdk'') \<Longrightarrow>
   copy_msvc_libs api libdir w = (Inl (SameFileError (msvc_lib_dst libdir api ''gdk'')), w)"
  by (simp add: copy_msvc_libs_def py_split_no_sep copyfile_def Let_def)

theorem copy_msvc_libs_same_file_witness:
  "copy_msvc_libs ''3'' ''C:/ctk/lib''
     ((sample_world sample_argv True [])\<lparr>os_nt := True, files := [''C:/ctk/lib/gdk-3.lib'' \<mapsto> ''G'']\<rparr>) =
   (Inl (SameFileError ''C:/ctk/lib/gdk-3.lib''),
     (sample_world sample_argv True [])\<lparr>os_nt := True, files := [''C:/ctk/lib/gdk-3.lib'' \<mapsto> ''G'']\<rparr>)"
  by (rule copy_msvc_libs_same_file [THEN trans]) (simp_all add: sample_eval)

end
