(* ===== verification/PostInstallFrame.thy ===== *)
theory PostInstallFrame
  imports PostInstall
begin

text \<open>
  What any run of \<open>post-install.py\<close> may do, whichever branch it takes: its frame,
  its resource bounds and the exceptions it may raise. \<open>frame W w w'\<close> says that
  \<open>w'\<close> has the environment of \<open>w\<close> (read-only paths, environment variables,
  \<open>os.name\<close>, arguments, programs, pkg-config's answers, tool outputs), extends its
  directories, printed lines and processes, and differs from it in the contents of the
  paths of \<open>W\<close> only; \<open>keeps W f\<close> says that every run of \<open>f\<close> stays in that
  frame. \<open>within n m f\<close> says that every run of \<open>f\<close> starts at most \<open>n\<close> processes
  and prints at most \<open>m\<close> lines; \<open>raises_only P f\<close> that every exception it raises
  satisfies \<open>P\<close>; \<open>commutes u f\<close> that running \<open>f\<close> after changing the world
  by \<open>u\<close> gives the same result and the same world changed by \<open>u\<close>: with \<open>u\<close> setting
  \<open>os.name\<close> or the programs' exit statuses, \<open>f\<close> does not depend on them. Each predicate is kept by the monad's combinators (\<open>bindE\<close>,
  \<open>seqE\<close>, \<open>whenE\<close>, \<open>forE\<close>), so the facts about the script follow from those
  about the library calls it makes, step by step.
\<close>

definition world_env :: "world \<Rightarrow> _" where
  "world_env w = (readonly w, environ_destdir w, os_nt w, sys_argv w, programs w, gio_pc_found w,
     gio_pc_vars w, tool_stdout w)"

definition frame :: "string list \<Rightarrow> world \<Rightarrow> world \<Rightarrow> bool" where
  "frame W w w' \<longleftrightarrow>
     world_env w' = world_env w \<and> (\<forall>p. p \<notin> set W \<longrightarrow> files w' p = files w p) \<and>
     (\<exists>ds. dirs w' = dirs w @ ds) \<and> (\<exists>ms. printed w' = printed w @ ms) \<and>
     (\<exists>ps. procs w' = procs w @ ps)"

definition keeps :: "string list \<Rightarrow> (world, 'a) pyexec \<Rightarrow> bool" where
  "keeps W f \<longleftrightarrow> (\<forall>s r s'. f s = (r, s') \<longrightarrow> frame W s s')"

definition within :: "nat \<Rightarrow> nat \<Rightarrow> (world, 'a) pyexec \<Rightarrow> bool" where
  "within n m f \<longleftrightarrow> (\<forall>s r s'. f s = (r, s') \<longrightarrow>
     length (procs s') \<le> length (procs s) + n \<and> length (printed s') \<le> length (printed s) + m)"

definition raises_only :: "(py_error \<Rightarrow> bool) \<Rightarrow> (world, 'a) pyexec \<Rightarrow> bool" where
  "raises_only P f \<longleftrightarrow> (\<forall>s e s'. f s = (Inl e, s') \<longrightarrow> P e)"

definition commutes :: "(world \<Rightarrow> world) \<Rightarrow> (world, 'a) pyexec \<Rightarrow> bool" where
  "commutes u f \<longleftrightarrow> (\<forall>w. f (u w) = (fst (f w), u (snd (f w))))"

fun post_install_error :: "py_error \<Rightarrow> bool" where
  "post_install_error (UsageError msg) = False"
| "post_install_error e = True"

lemma frame_refl [simp]: "frame W w w"
  by (simp add: frame_def)

lemma frame_trans: "frame W w1 w2 \<Longrightarrow> frame W w2 w3 \<Longrightarrow> frame W w1 w3"
  unfolding frame_def by (metis append.assoc)

lemma keepsI: "(\<And>s r s'. f s = (r, s') \<Longrightarrow> frame W s s') \<Longrightarrow> keeps W f"
  by (simp add: keeps_def)

lemma keepsD: "keeps W f \<Longrightarrow> f s = (r, s') \<Longrightarrow> frame W s s'"
  by (simp add: keeps_def)

lemma keeps_ret [simp]: "keeps W (ret x)"
  and keeps_raise [simp]: "keeps W (raise e)"
  and keeps_gets [simp]: "keeps W (gets g)"
  by (simp_all add: keeps_def)

lemma keeps_bindE: "keeps W f \<Longrightarrow> (\<And>x. keeps W (g x)) \<Longrightarrow> keeps W (bindE f g)"
  unfolding keeps_def bindE_def
  by (auto split: prod.splits sum.splits) (meson frame_trans)

lemma keeps_seqE: "keeps W f \<Longrightarrow> keeps W g \<Longrightarrow> keeps W (seqE f g)"
  unfolding keeps_def seqE_def
  by (auto split: prod.splits sum.splits) (meson frame_trans)

lemma keeps_expr_stmt: "keeps W f \<Longrightarrow> keeps W (expr_stmt f)"
  unfolding expr_stmt_def by (intro keeps_bindE keeps_ret)

lemma keeps_whenE: "keeps W f \<Longrightarrow> keeps W (whenE b f)"
  by (simp add: whenE_def)

lemma keeps_forE: "(\<And>x. x \<in> set xs \<Longrightarrow> keeps W (f x)) \<Longrightarrow> keeps W (forE xs f)"
  by (induction xs) (simp_all add: keeps_seqE)

lemma keeps_py_print [simp]: "keeps W (py_print m)"
  by (rule keepsI) (auto simp: py_print_def frame_def world_env_def)

lemma keeps_subprocess_call [simp]: "keeps W (subprocess_call cmd)"
  by (rule keepsI) (auto simp: subprocess_call_def frame_def world_env_def split: if_splits)

lemma keeps_pkg_config_variable [simp]: "keeps W (pkg_config_variable v)"
  by (rule keepsI) (auto simp: pkg_config_variable_def frame_def world_env_def split: if_splits)

lemma keeps_makedirs [simp]: "keeps W (makedirs p)"
  by (rule keepsI) (auto simp: makedirs_def Let_def frame_def world_env_def split: if_splits)

lemma keeps_write_file: "p \<in> set W \<Longrightarrow> keeps W (write_file p t)"
  by (rule keepsI) (auto simp: write_file_def frame_def world_env_def split: if_splits)

lemma keeps_subprocess_call_stdout: "p \<in> set W \<Longrightarrow> keeps W (subprocess_call_stdout cmd p)"
  by (rule keepsI) (auto simp: subprocess_call_stdout_def frame_def world_env_def split: if_splits)

lemma keeps_copyfile: "dst \<in> set W \<Longrightarrow> keeps W (copyfile src dst)"
  by (rule keepsI) (auto simp: copyfile_def read_file_def write_file_def frame_def world_env_def
      split: if_splits option.splits)

lemma keeps_resolve_tool [simp]: "keeps W (resolve_tool var fb)"
  unfolding resolve_tool_def Let_def by (simp add: keeps_bindE)

lemma keeps_copy_msvc_libs:
  "set (map (msvc_lib_dst libdir api) [''gdk'', ''ctk'', ''gailutil'']) \<subseteq> set W \<Longrightarrow>
   keeps W (copy_msvc_libs api libdir)"
  unfolding copy_msvc_libs_def
  by (intro keeps_bindE keeps_gets keeps_whenE keeps_forE)
     (auto simp: Let_def intro!: keeps_bindE keeps_whenE keeps_copyfile)

lemma keeps_refresh_steps:
  "keeps W (compile_schemas datadir)" "keeps W (update_icon_cache P datadir)"
  "keeps W (printbackends_cache P)"
  "immodules_cache_file P \<in> set W \<Longrightarrow> keeps W (immodules_cache P)"
  unfolding compile_schemas_def update_icon_cache_def printbackends_cache_def immodules_cache_def Let_def
  by (auto intro!: keeps_seqE keeps_bindE keeps_expr_stmt keeps_write_file keeps_subprocess_call_stdout)

lemma read_install_args_Inr:
  "read_install_args argv = Inr (api, abi, bindir, libdir, datadir) \<longleftrightarrow>
   5 < length argv \<and> api = argv ! 1 \<and> abi = argv ! 2 \<and> bindir = argv ! 3 \<and> libdir = argv ! 4 \<and>
   datadir = argv ! 5"
  by (auto simp: read_install_args_def py_index_def split: sum.splits)

lemma withinI:
  "(\<And>s r s'. f s = (r, s') \<Longrightarrow>
     length (procs s') \<le> length (procs s) + n \<and> length (printed s') \<le> length (printed s) + m) \<Longrightarrow>
   within n m f"
  by (simp add: within_def)

lemma within_ret [simp]: "within n m (ret x)"
  and within_raise [simp]: "within n m (raise e)"
  and within_gets [simp]: "within n m (gets g)"
  by (simp_all add: within_def)

lemma within_bindE:
  "within n1 m1 f \<Longrightarrow> (\<And>x. within n2 m2 (g x)) \<Longrightarrow> within (n1 + n2) (m1 + m2) (bindE f g)"
  unfolding within_def bindE_def
  by (auto split: prod.splits sum.splits) (fastforce+)

lemma within_seqE:
  "within n1 m1 f \<Longrightarrow> within n2 m2 g \<Longrightarrow> within (n1 + n2) (m1 + m2) (seqE f g)"
  unfolding within_def seqE_def
  by (auto split: prod.splits sum.splits) (fastforce+)

lemma within_expr_stmt: "within n m f \<Longrightarrow> within n m (expr_stmt f)"
  unfolding within_def by (fastforce split: prod.splits sum.splits)

lemma within_whenE: "within n m f \<Longrightarrow> within n m (whenE b f)"
  by (simp add: whenE_def)

lemma within_forE: "(\<And>x. x \<in> set xs \<Longrightarrow> within 0 0 (f x)) \<Longrightarrow> within 0 0 (forE xs f)"
  by (induction xs) (simp_all, metis add_0 within_seqE)

lemma within_prims:
  "within 0 1 (py_print msg)" "within 1 0 (subprocess_call cmd)"
  "within 1 0 (subprocess_call_stdout cmd p)" "within 1 0 (pkg_config_variable var)"
  "within 0 0 (makedirs d)" "within 0 0 (write_file p t)" "within 0 0 (copyfile a b)"
  by (auto intro!: withinI simp: py_print_def subprocess_call_def subprocess_call_stdout_def
      pkg_config_variable_def makedirs_def write_file_def copyfile_def read_file_def Let_def
      split: if_splits option.splits sum.splits prod.splits)

lemma within_bindE0: "within 0 0 f \<Longrightarrow> (\<And>x. within n m (g x)) \<Longrightarrow> within n m (bindE f g)"
  using within_bindE [of 0 0 f n m g] by simp

lemma within_resolve_tool: "within 1 0 (resolve_tool var fb)"
proof -
  have "within (1 + 0) (0 + 0) (resolve_tool var fb)"
    unfolding resolve_tool_def Let_def by (intro within_bindE within_prims within_gets)
  then show ?thesis by simp
qed

lemma within_steps:
  "within 0 0 (copy_msvc_libs api libdir)" "within 2 1 (compile_schemas datadir)"
  "within 1 1 (update_icon_cache P datadir)" "within 1 1 (immodules_cache P)"
  "within 2 1 (printbackends_cache P)"
proof -
  show "within 0 0 (copy_msvc_libs api libdir)"
    unfolding copy_msvc_libs_def Let_def
    by (intro within_bindE0 within_gets within_whenE within_forE within_prims)
  have "within (0 + (1 + 1)) (1 + (0 + 0)) (compile_schemas datadir)"
    unfolding compile_schemas_def
    by (intro within_seqE within_bindE within_expr_stmt within_prims within_resolve_tool)
  then show "within 2 1 (compile_schemas datadir)" by (simp add: eval_nat_numeral)
  have "within (0 + 1) (1 + 0) (update_icon_cache P datadir)"
    unfolding update_icon_cache_def by (intro within_seqE within_expr_stmt within_prims)
  then show "within 1 1 (update_icon_cache P datadir)" by simp
  have "within (0 + (0 + (0 + 1))) (1 + (0 + (0 + 0))) (immodules_cache P)"
    unfolding immodules_cache_def Let_def by (intro within_seqE within_expr_stmt within_prims)
  then show "within 1 1 (immodules_cache P)" by simp
  have "within (0 + (0 + (1 + 1))) (1 + (0 + (0 + 0))) (printbackends_cache P)"
    unfolding printbackends_cache_def
    by (intro within_seqE within_bindE within_expr_stmt within_prims within_resolve_tool)
  then show "within 2 1 (printbackends_cache P)" by (simp add: eval_nat_numeral)
qed

lemma raises_onlyD: "raises_only P f \<Longrightarrow> f s = (Inl e, s') \<Longrightarrow> P e"
  unfolding raises_only_def by blast

lemma raises_only_ret [simp]: "raises_only P (ret x)"
  and raises_only_gets [simp]: "raises_only P (gets g)"
  by (simp_all add: raises_only_def)

lemma raises_only_bindE: "raises_only P f \<Longrightarrow> (\<And>x. raises_only P (g x)) \<Longrightarrow> raises_only P (bindE f g)"
  unfolding raises_only_def bindE_def by (auto split: prod.splits sum.splits)

lemma raises_only_seqE: "raises_only P f \<Longrightarrow> raises_only P g \<Longrightarrow> raises_only P (seqE f g)"
  unfolding raises_only_def seqE_def by (auto split: prod.splits sum.splits)

lemma raises_only_expr_stmt: "raises_only P f \<Longrightarrow> raises_only P (expr_stmt f)"
  unfolding raises_only_def by (fastforce split: prod.splits sum.splits)

lemma raises_only_whenE: "raises_only P f \<Longrightarrow> raises_only P (whenE b f)"
  by (simp add: whenE_def)

lemma raises_only_forE: "(\<And>x. x \<in> set xs \<Longrightarrow> raises_only P (f x)) \<Longrightarrow> raises_only P (forE xs f)"
  by (induction xs) (simp_all add: raises_only_seqE)

lemma raises_only_prims:
  "raises_only post_install_error (py_print msg)"
  "raises_only post_install_error (subprocess_call cmd)"
  "raises_only post_install_error (subprocess_call_stdout cmd p)"
  "raises_only post_install_error (pkg_config_variable var)"
  "raises_only post_install_error (makedirs d)"
  "raises_only post_install_error (write_file p t)"
  "raises_only post_install_error (copyfile a b)"
  by (auto simp: raises_only_def py_print_def subprocess_call_def subprocess_call_stdout_def
      pkg_config_variable_def makedirs_def write_file_def copyfile_def read_file_def Let_def
      split: if_splits option.splits sum.splits prod.splits)

lemma raises_only_raise: "P e \<Longrightarrow> raises_only P (raise e)"
  by (simp add: raises_only_def)

lemma read_install_args_Inl: "read_install_args argv = Inl e \<Longrightarrow> e = IndexError"
  by (auto simp: read_install_args_def py_index_def split: sum.splits if_splits)

lemma raises_only_resolve_tool: "raises_only post_install_error (resolve_tool var fb)"
  unfolding resolve_tool_def Let_def by (intro raises_only_bindE raises_only_prims raises_only_gets)

lemma raises_only_steps:
  "raises_only post_install_error (copy_msvc_libs api libdir)"
  "raises_only post_install_error (compile_schemas datadir)"
  "raises_only post_install_error (update_icon_cache P datadir)"
  "raises_only post_install_error (immodules_cache P)"
  "raises_only post_install_error (printbackends_cache P)"
  unfolding copy_msvc_libs_def compile_schemas_def update_icon_cache_def immodules_cache_def
    printbackends_cache_def Let_def
  by (intro raises_only_bindE raises_only_seqE raises_only_whenE raises_only_forE raises_only_gets
      raises_only_expr_stmt
      raises_only_prims raises_only_resolve_tool)+

lemma raises_only_post_install: "raises_only post_install_error post_install"
  unfolding post_install_def Let_def
  by (intro raises_only_bindE raises_only_gets)
     (auto intro!: raises_only_bindE raises_only_seqE raises_only_steps raises_only_raise
       split: sum.splits prod.splits, fastforce dest: read_install_args_Inl)

lemma commutesD: "commutes u f \<Longrightarrow> f (u w) = (fst (f w), u (snd (f w)))"
  by (simp add: commutes_def)

lemma commutes_ret [simp]: "commutes u (ret x)"
  and commutes_raise [simp]: "commutes u (raise e)"
  by (simp_all add: commutes_def)

lemma commutes_gets: "(\<And>w. g (u w) = g w) \<Longrightarrow> commutes u (gets g)"
  by (simp add: commutes_def)

lemma commutes_bindE: "commutes u f \<Longrightarrow> (\<And>x. commutes u (g x)) \<Longrightarrow> commutes u (bindE f g)"
  unfolding commutes_def bindE_def by (auto split: prod.splits sum.splits)

lemma commutes_seqE: "commutes u f \<Longrightarrow> commutes u g \<Longrightarrow> commutes u (seqE f g)"
  unfolding seqE_def by (rule commutes_bindE)

lemma commutes_expr_stmt: "commutes u f \<Longrightarrow> commutes u (expr_stmt f)"
  unfolding expr_stmt_def by (intro commutes_bindE commutes_ret)

lemma commutes_whenE: "commutes u f \<Longrightarrow> commutes u (whenE b f)"
  by (simp add: whenE_def)

lemma commutes_forE: "(\<And>x. x \<in> set xs \<Longrightarrow> commutes u (f x)) \<Longrightarrow> commutes u (forE xs f)"
  by (induction xs) (simp_all add: commutes_seqE)

lemma commutes_resolve_tool:
  "commutes u (pkg_config_variable var) \<Longrightarrow> (\<And>w. path_exists (u w) = path_exists w) \<Longrightarrow>
   commutes u (resolve_tool var fb)"
  unfolding resolve_tool_def Let_def by (intro commutes_bindE commutes_gets) simp_all

text \<open>The library calls neither read nor write \<open>os.name\<close>.\<close>

lemma commutes_nt_prims:
  "commutes (\<lambda>w. w\<lparr>os_nt := b\<rparr>) (py_print msg)" "commutes (\<lambda>w. w\<lparr>os_nt := b\<rparr>) (subprocess_call cmd)"
  "commutes (\<lambda>w. w\<lparr>os_nt := b\<rparr>) (subprocess_call_stdout cmd p)"
  "commutes (\<lambda>w. w\<lparr>os_nt := b\<rparr>) (pkg_config_variable var)"
  "commutes (\<lambda>w. w\<lparr>os_nt := b\<rparr>) (makedirs d)" "commutes (\<lambda>w. w\<lparr>os_nt := b\<rparr>) (write_file p t)"
  "path_exists (w\<lparr>os_nt := b\<rparr>) = path_exists w"
  by (auto simp: commutes_def py_print_def subprocess_call_def subprocess_call_stdout_def
      pkg_config_variable_def pc_var_def makedirs_def write_file_def Let_def isfile_def can_write_def
      dir_exists_def path_exists_def fun_eq_iff)

text \<open>
  The library calls do not read the exit status of a program, except the two
  \<open>subprocess.call\<close> forms, which return it; discarded by an expression statement,
  it no longer matters.
\<close>

lemma commutes_status_prims:
  "commutes (\<lambda>w. w\<lparr>tool_status := t\<rparr>) (py_print msg)"
  "commutes (\<lambda>w. w\<lparr>tool_status := t\<rparr>) (expr_stmt (subprocess_call cmd))"
  "commutes (\<lambda>w. w\<lparr>tool_status := t\<rparr>) (expr_stmt (subprocess_call_stdout cmd p))"
  "commutes (\<lambda>w. w\<lparr>tool_status := t\<rparr>) (pkg_config_variable var)"
  "commutes (\<lambda>w. w\<lparr>tool_status := t\<rparr>) (makedirs d)"
  "commutes (\<lambda>w. w\<lparr>tool_status := t\<rparr>) (write_file p c)"
  "commutes (\<lambda>w. w\<lparr>tool_status := t\<rparr>) (copyfile a b)"
  "path_exists (w\<lparr>tool_status := t\<rparr>) = path_exists w"
  by (auto simp: commutes_def py_print_def subprocess_call_def subprocess_call_stdout_def
      pkg_config_variable_def pc_var_def makedirs_def write_file_def copyfile_def read_file_def Let_def
      isfile_def can_write_def dir_exists_def path_exists_def fun_eq_iff
      split: option.splits)

lemma commutes_nt_steps:
  "commutes (\<lambda>w. w\<lparr>os_nt := b\<rparr>) (compile_schemas datadir)"
  "commutes (\<lambda>w. w\<lparr>os_nt := b\<rparr>) (update_icon_cache P datadir)"
  "commutes (\<lambda>w. w\<lparr>os_nt := b\<rparr>) (immodules_cache P)"
  "commutes (\<lambda>w. w\<lparr>os_nt := b\<rparr>) (printbackends_cache P)"
  unfolding compile_schemas_def update_icon_cache_def immodules_cache_def printbackends_cache_def Let_def
  by (intro commutes_seqE commutes_bindE commutes_expr_stmt commutes_nt_prims commutes_resolve_tool)+

lemma commutes_status_steps:
  "commutes (\<lambda>w. w\<lparr>tool_status := t\<rparr>) (copy_msvc_libs api libdir)"
  "commutes (\<lambda>w. w\<lparr>tool_status := t\<rparr>) (compile_schemas datadir)"
  "commutes (\<lambda>w. w\<lparr>tool_status := t\<rparr>) (update_icon_cache P datadir)"
  "commutes (\<lambda>w. w\<lparr>tool_status := t\<rparr>) (immodules_cache P)"
  "commutes (\<lambda>w. w\<lparr>tool_status := t\<rparr>) (printbackends_cache P)"
  unfolding copy_msvc_libs_def compile_schemas_def update_icon_cache_def immodules_cache_def
    printbackends_cache_def Let_def
  by (intro commutes_seqE commutes_bindE commutes_whenE commutes_forE commutes_gets commutes_status_prims
      commutes_resolve_tool; simp add: isfile_def)+

lemma commutes_status_post_install: "commutes (\<lambda>w. w\<lparr>tool_status := t\<rparr>) post_install"
  unfolding post_install_def Let_def
  by (intro commutes_bindE commutes_gets)
     (auto intro!: commutes_bindE commutes_seqE commutes_status_steps commutes_gets split: sum.splits prod.splits)

lemma post_install_run_args:
  assumes "\<not> environ_destdir w"
    and "read_install_args (sys_argv w) = Inr (api, abi, bindir, libdir, datadir)"
  shows "post_install w =
    seqE (copy_msvc_libs api libdir) (seqE (compile_schemas datadir)
      (seqE (update_icon_cache (install_paths_of api abi bindir libdir) datadir)
        (seqE (immodules_cache (install_paths_of api abi bindir libdir))
          (printbackends_cache (install_paths_of api abi bindir libdir))))) w"
  using assms by (simp add: post_install_def Let_def)

text \<open>
  C18. Whatever happens, errors included, the script changes the world only as its
  source allows: the environment, the programs and pkg-config's answers are untouched,
  directories, printed lines and processes are only appended to, and the only files
  whose contents change are the three import-library copies and \<open>immodules.cache\<close>
  named by its arguments.
\<close>

theorem post_install_frame:
  assumes run: "post_install w = (r, w')"
  shows "frame (map (msvc_lib_dst (sys_argv w ! 4) (sys_argv w ! 1)) [''gdk'', ''ctk'', ''gailutil''] @
           [immodules_cache_file (install_paths_of (sys_argv w ! 1) (sys_argv w ! 2) (sys_argv w ! 3)
              (sys_argv w ! 4))]) w w'"
proof (cases "environ_destdir w")
  case True
  with run show ?thesis by (simp add: post_install_def)
next
  case False
  show ?thesis
  proof (cases "read_install_args (sys_argv w)")
    case (Inl e)
    with False run show ?thesis by (simp add: post_install_def)
  next
    case (Inr a)
    then obtain api abi bindir libdir datadir
      where args: "read_install_args (sys_argv w) = Inr (api, abi, bindir, libdir, datadir)"
      by (cases a) auto
    then have idx: "sys_argv w ! 1 = api" "sys_argv w ! 2 = abi" "sys_argv w ! 3 = bindir"
      "sys_argv w ! 4 = libdir"
      by (simp_all add: read_install_args_Inr)
    let ?P = "install_paths_of api abi bindir libdir"
    let ?W = "map (msvc_lib_dst libdir api) [''gdk'', ''ctk'', ''gailutil''] @ [immodules_cache_file ?P]"
    have "keeps ?W (seqE (copy_msvc_libs api libdir) (seqE (compile_schemas datadir)
            (seqE (update_icon_cache ?P datadir) (seqE (immodules_cache ?P) (printbackends_cache ?P)))))"
      by (intro keeps_seqE keeps_copy_msvc_libs keeps_refresh_steps) auto
    moreover have "seqE (copy_msvc_libs api libdir) (seqE (compile_schemas datadir)
            (seqE (update_icon_cache ?P datadir) (seqE (immodules_cache ?P) (printbackends_cache ?P)))) w
          = (r, w')"
      using run False args by (simp add: post_install_def Let_def)
    ultimately show ?thesis unfolding idx by (rule keepsD)
  qed
qed

theorem post_install_frame_witness:
  "frame (map (msvc_lib_dst ''/usr/lib'' ''3.0'') [''gdk'', ''ctk'', ''gailutil''] @
      [immodules_cache_file (install_paths_of ''3.0'' ''3.0.0'' ''/usr/bin'' ''/usr/lib'')])
    (sample_world sample_argv False [''pkg-config''])
    (snd (post_install (sample_world sample_argv False [''pkg-config''])))"
  using post_install_frame [of "sample_world sample_argv False [''pkg-config'']"
      "fst (post_install (sample_world sample_argv False [''pkg-config'']))"
      "snd (post_install (sample_world sample_argv False [''pkg-config'']))"]
  by simp

text \<open>
  C27. Whatever happens, one run of the script starts at most six processes (two
  pkg-config queries and the four tools) and prints at most four lines.
\<close>

theorem post_install_bounds:
  assumes "post_install w = (r, w')"
  shows "length (procs w') \<le> length (procs w) + 6 \<and> length (printed w') \<le> length (printed w) + 4"
proof -
  have "within (0 + (2 + (1 + (1 + 2)))) (0 + (1 + (1 + (1 + 1))))
          (seqE (copy_msvc_libs api libdir) (seqE (compile_schemas datadir)
            (seqE (update_icon_cache P datadir) (seqE (immodules_cache P) (printbackends_cache P)))))"
    for api libdir datadir P
    by (intro within_seqE within_steps)
  then have steps: "within 6 4 (seqE (copy_msvc_libs api libdir) (seqE (compile_schemas datadir)
            (seqE (update_icon_cache P datadir) (seqE (immodules_cache P) (printbackends_cache P)))))"
    for api libdir datadir P
    by (simp add: eval_nat_numeral)
  have "within 6 4 post_install"
    unfolding post_install_def Let_def
    by (intro within_bindE0 within_gets)
       (auto intro!: within_bindE0 simp: steps split: sum.splits prod.splits)
  with assms show ?thesis by (simp add: within_def)
qed
theorem post_install_bounds_witness:
  "length (procs (snd (post_install (sample_world sample_argv False [''pkg-config''])))) \<le> 0 + 6 \<and>
   length (printed (snd (post_install (sample_world sample_argv False [''pkg-config''])))) \<le> 0 + 4"
  using post_install_bounds [of "sample_world sample_argv False [''pkg-config'']"
      "fst (post_install (sample_world sample_argv False [''pkg-config'']))"
      "snd (post_install (sample_world sample_argv False [''pkg-config'']))"]
  by simp

text \<open>
  C29. The script tests \<open>os.name\<close> in one place, the copies of lines 21 to 27, and
  nothing after them depends on it: once the copies succeed, the rest of a run with
  \<open>os.name == 'nt'\<close> is the run of the script with another \<open>os.name\<close> on the world
  they leave, with \<open>os.name\<close> put back. (The path functions are \<open>posixpath\<close>'s on
  every platform in this model; see the header.)
\<close>

theorem post_install_platform_only_copies:
  assumes nd: "\<not> environ_destdir w"
    and args: "read_install_args (sys_argv w) = Inr (api, abi, bindir, libdir, datadir)"
    and copy: "copy_msvc_libs api libdir w = (Inr (), w1)"
  shows "post_install w =
    (fst (post_install (w1\<lparr>os_nt := False\<rparr>)),
     (snd (post_install (w1\<lparr>os_nt := False\<rparr>)))\<lparr>os_nt := os_nt w\<rparr>)"
proof -
  let ?P = "install_paths_of api abi bindir libdir"
  define rest where "rest = seqE (compile_schemas datadir) (seqE (update_icon_cache ?P datadir)
    (seqE (immodules_cache ?P) (printbackends_cache ?P)))"
  have "frame (map (msvc_lib_dst libdir api) [''gdk'', ''ctk'', ''gailutil'']) w w1"
    using copy by (intro keepsD [OF keeps_copy_msvc_libs]) simp_all
  then have env: "environ_destdir w1 = environ_destdir w" "sys_argv w1 = sys_argv w"
    "os_nt w1 = os_nt w"
    by (simp_all add: frame_def world_env_def)
  have "keeps [immodules_cache_file ?P] rest"
    unfolding rest_def by (intro keeps_seqE keeps_refresh_steps) simp
  then have "frame [immodules_cache_file ?P] w1 (snd (rest w1))"
    by (rule keepsD) (rule prod.collapse [symmetric])
  then have keep: "os_nt (snd (rest w1)) = os_nt w"
    using env by (simp add: frame_def world_env_def)
  have blind: "commutes (\<lambda>w. w\<lparr>os_nt := False\<rparr>) rest"
    unfolding rest_def by (intro commutes_seqE commutes_nt_steps)
  have run: "post_install w = rest w1"
    using post_install_run_args [OF nd args] copy by (simp add: rest_def)
  have "read_install_args (sys_argv (w1\<lparr>os_nt := False\<rparr>)) = Inr (api, abi, bindir, libdir, datadir)"
    "\<not> environ_destdir (w1\<lparr>os_nt := False\<rparr>)"
    using nd args env by simp_all
  from post_install_run_args [OF this(2,1)]
  have "post_install (w1\<lparr>os_nt := False\<rparr>) = rest (w1\<lparr>os_nt := False\<rparr>)"
    by (simp add: copy_msvc_libs_not_nt rest_def)
  also have "\<dots> = (fst (rest w1), (snd (rest w1))\<lparr>os_nt := False\<rparr>)"
    using blind by (rule commutesD)
  finally have run0: "post_install (w1\<lparr>os_nt := False\<rparr>) = (fst (rest w1), (snd (rest w1))\<lparr>os_nt := False\<rparr>)" .
  have "(snd (rest w1))\<lparr>os_nt := os_nt w\<rparr> = snd (rest w1)"
    by (simp add: keep [symmetric])
  then show ?thesis
    by (simp add: run run0)
qed

theorem post_install_platform_only_copies_witness:
  "post_install ((sample_world sample_argv False [''pkg-config''])\<lparr>os_nt := True\<rparr>) =
    (fst (post_install (((sample_world sample_argv False [''pkg-config''])\<lparr>os_nt := True\<rparr>)\<lparr>os_nt := False\<rparr>)),
     (snd (post_install (((sample_world sample_argv False [''pkg-config''])\<lparr>os_nt := True\<rparr>)\<lparr>os_nt := False\<rparr>)))
       \<lparr>os_nt := os_nt ((sample_world sample_argv False [''pkg-config''])\<lparr>os_nt := True\<rparr>)\<rparr>)"
proof -
  let ?w = "(sample_world sample_argv False [''pkg-config''])\<lparr>os_nt := True\<rparr>"
  have h1: "\<not> environ_destdir ?w" by simp
  have h2: "read_install_args (sys_argv ?w) = Inr (''3.0'', ''3.0.0'', ''/usr/bin'', ''/usr/lib'', ''/usr/share'')"
    by (simp add: read_install_args_def py_index_def)
  have h3: "copy_msvc_libs ''3.0'' ''/usr/lib'' ?w = (Inr (), ?w)"
    by (simp add: copy_msvc_libs_def isfile_def Let_def)
  show ?thesis by (rule post_install_platform_only_copies [OF h1 h2 h3])
qed

text \<open>
  C30. The script never looks at the exit status of a program it runs: every
  \<open>subprocess.call\<close> is an expression statement whose value is discarded. Whatever
  exit statuses the programs return, the run ends the same way (normally, or with the
  same exception) and has the same effects; in particular a run in which every tool
  fails still exits with status 0 when all of them can be started.
\<close>

theorem post_install_ignores_exit_status:
  "post_install (w\<lparr>tool_status := t\<rparr>) =
     (fst (post_install w), (snd (post_install w))\<lparr>tool_status := t\<rparr>)"
  by (rule commutesD [OF commutes_status_post_install])

end
