(* ===== verification/Spec2Isabelle.thy ===== *)
theory Spec2Isabelle
  imports Cli PostInstallFrame
begin

text \<open>
  \<^bold>\<open>A verification development of the build-time scripts of ctk.\<close>

  \<^bold>\<open>The program.\<close> The repository's sources are three Python scripts:
  \<^item> \<open>src/win32/ctkpc.py\<close> generates the pkg-config files \<open>cdk-3.0.pc\<close>,
    \<open>ctk+-3.0.pc\<close> and \<open>gail-3.0.pc\<close> from their \<open>.pc.in\<close> templates;
  \<^item> \<open>src/win32/gen-cdkversionmacros-h.py\<close> generates \<open>cdk/cdkversionmacros.h\<close>
    from its template and the \<open>--version\<close> argument;
  \<^item> \<open>src/build-aux/meson/post-install.py\<close> refreshes the schema, icon and module
    caches after installation by calling external tools.
  Both generators call \<open>replace_multi\<close> of the helper module \<open>replace\<close>, and
  \<open>ctkpc.py\<close> takes its base substitutions and directories from \<open>BasePCItems\<close> of
  \<open>pc_base\<close>; neither module is among the sources, so both are modelled from the spec
  (sections 3 and 4.1). Every script runs against a file system and may stop with a
  Python exception, keeping the effects made before it.

  \<^bold>\<open>The theories.\<close>
  \<^item> \<open>Prelude\<close>: the exceptions (\<open>py_error\<close>), the exception-state monad
    \<open>('s, 'a) pyexec\<close> (\<open>ret\<close>, \<open>raise\<close>, \<open>bindE\<close>, \<open>seqE\<close>, \<open>forE\<close>), Python
    indexing (\<open>py_index\<close>), \<open>str.startswith\<close>, substring search, \<open>str.split\<close> with
    its round trip against \<open>str.join\<close> (\<open>py_join_split\<close>, \<open>py_split_join\<close>),
    \<open>bytes.strip\<close>, \<open>posixpath.join\<close> and \<open>posixpath.dirname\<close>.
  \<^item> \<open>PyDict\<close>: dicts as association lists in insertion order (\<open>dict_set\<close>,
    \<open>dict_update\<close> for \<open>d.update(e)\<close>, \<open>dict_lit\<close> for a display), the invariant of
    distinct keys, and the refinement of HOL maps (\<open>map_of_dict_update\<close>: a merge is
    \<open>++\<close>, the later dict wins).
  \<^item> \<open>PyOs\<close>: the file system (\<open>record fs\<close>: files, directories, read-only paths)
    and the library calls \<open>read_file\<close>, \<open>write_file\<close>, \<open>copyfile\<close>,
    \<open>makedirs\<close>, \<open>isfile\<close>, \<open>path_exists\<close>, each raising on failure with the state
    unchanged.
  \<^item> \<open>Template\<close>: the renderer. \<open>subst\<close> is the single-pass substitution (at each
    position the first key of the mapping that starts there is replaced and the scan
    resumes after it; otherwise one character is copied); its termination is by the
    measure "length of the rest". \<open>replace_multi\<close> reads, substitutes and writes;
    \<open>replace_batch\<close> is the spec's batch. The lemmas: text without keys is copied
    (\<open>subst_plain_prefix\<close>), a template of text and \<open>@NAME@\<close> placeholders renders
    to its pieces with the mapped placeholders replaced (\<open>subst_render\<close>,
    \<open>subst_render_complete\<close>), the result is independent of the mapping's order when
    no key is a prefix of another (\<open>subst_order_independent\<close>), and the two places
    where the spec's informal promises fail (\<open>full_substitution_gap\<close>,
    \<open>sequential_replace_order_dependent\<close>).
  \<^item> \<open>CtkPc\<close>: \<open>ctkpc.py\<close>, one definition per group of lines: the constants
    (lines 30 to 50), \<open>cdk_backend_settings\<close> (37 to 45), the four displays
    \<open>pkg_replace_items\<close>, \<open>cdk_pc_items\<close>, \<open>ctk_pc_items\<close>, \<open>gail_pc_items\<close>, the
    merges \<open>ctkpc_replace_items\<close> (73 to 76) and \<open>ctkpc_main\<close> (17 to 91). Its
    theorems are claims C1 to C5 and C28; \<open>find_key_word\<close> evaluates the renderer on
    text that no token can match.
  \<^item> \<open>VersionMacros\<close>: \<open>gen-cdkversionmacros-h.py\<close>: \<open>cdk_sourcedir\<close> (lines 15
    to 21), \<open>cdkversionmacro_replace_items\<close> (22 to 26) and
    \<open>gen_cdkversionmacros_main\<close> (14 to 30); claims C6 to C8.
  \<^item> \<open>PostInstall\<close>: \<open>post-install.py\<close> over \<open>record world\<close>, the file system of
    \<open>PyOs\<close> extended with what the script reads (\<open>DESTDIR\<close>, \<open>os.name\<close>,
    \<open>sys.argv\<close>, the programs that can be started, pkg-config's answers for
    \<open>gio-2.0\<close>, a tool's standard output) and what it does (lines printed, command lines
    of the processes started, in order). One definition per step: \<open>read_install_args\<close>
    (lines 9 to 13), \<open>install_paths_of\<close> (14 to 19), \<open>copy_msvc_libs\<close> (21 to 27),
    \<open>resolve_tool\<close> (30 to 35 and 52 to 57), \<open>compile_schemas\<close> (29 to 37),
    \<open>update_icon_cache\<close> (39 to 41), \<open>immodules_cache\<close> (43 to 47),
    \<open>printbackends_cache\<close> (49 to 58), composed by \<open>post_install\<close> (8 to 58).
    \<open>subprocess.call\<close> records its command line and returns the program's exit
    status (\<open>tool_status\<close> of the world), which every call site discards as an
    expression statement (\<open>expr_stmt\<close>), as the script does; a program that cannot
    be started raises. Step lemmas
    (\<open>compile_schemas_ok\<close>, \<open>immodules_cache_ok\<close>, \<open>printbackends_cache_ok\<close>,
    \<open>first_two_steps\<close>, \<open>post_install_unfold\<close>) carry claims C9 to C17.
  \<^item> \<open>PostInstallFrame\<close>: what any run of the script may do. \<open>frame W w w'\<close>
    (environment kept; directories, printed lines and processes only extended; only the
    files of \<open>W\<close> changed) with \<open>keeps W f\<close>, the resource bound \<open>within n m f\<close>
    (at most \<open>n\<close> processes and \<open>m\<close> printed lines) and \<open>raises_only P f\<close> (every
    exception satisfies \<open>P\<close>) and \<open>commutes u f\<close> (running \<open>f\<close> on a world
    changed by \<open>u\<close> gives the same result and the changed outcome: \<open>f\<close> does not
    depend on what \<open>u\<close> changes, \<open>os.name\<close> or the exit statuses), each with one
    lemma per combinator and library call; claims C18, C27, C29 and C30.
  \<^item> \<open>Argparse\<close>: the part of Python's \<open>argparse\<close> the generators use, in its two
    phases: \<open>classify_arg\<close> (\<open>_parse_optional\<close>: exact options, \<open>--opt=value\<close>,
    unique prefixes, ambiguity, negative numbers, \<open>--\<close>) and \<open>consume\<close> with
    \<open>opt_loop\<close> (\<open>consume_optional\<close>, \<open>take_action\<close>), then the checks of
    \<open>parse_args\<close>. \<open>opt_loop\<close> and \<open>consume\<close> are \<^theory_text>\<open>function\<close>s whose
    termination is by a measure (the attached characters, the arguments left). The
    invariant \<open>st_ok\<close> (namespace well typed, every option seen stored) is kept by
    every step, which gives \<open>parse_args_namespace\<close>; arguments that do not start
    with \<open>-\<close> all end as extras (\<open>classify_args_positional\<close>,
    \<open>consume_positional\<close>).
  \<^item> \<open>Cli\<close>: the parsers of the two generators (\<open>version_parser\<close>,
    \<open>ctkpc_parser\<close>), the scripts as run from the command line
    (\<open>gen_cdkversionmacros_script\<close>, \<open>ctkpc_script\<close>: parse, \<open>main\<close>,
    \<open>sys.exit\<close>) and \<open>exit_code\<close>; claims C19 to C26 and C31.

  \<^bold>\<open>What the claims show.\<close> C1: \<open>ctkpc.py\<close> writes exactly its three outputs, each
  its template rendered with its mapping. C2: a missing second template stops it after
  the first output, which stays. C3: the merged mappings are the HOL maps
  \<open>own ++ pkg ++ base\<close> (base items win). C4: \<open>--broadway\<close> adds the Broadway
  backend and \<open>-lzlib1\<close>. C5: the generator's mappings are prefix-free, so its output
  does not depend on the dict's order. C6: the version header is its template with the
  first three parts of the version substituted. C7: a version with fewer than two dots
  raises \<open>IndexError\<close> and writes nothing. C8: for \<open>major.minor.micro\<close> the three
  values are dot-free and join back to the version. C9: a live install off Windows
  with every tool present prints four messages, creates the missing module directories,
  writes the query tool's output to \<open>immodules.cache\<close> and runs six processes in the
  order of the source, and changes nothing else. C10: under \<open>DESTDIR\<close> nothing
  happens. C11: fewer than five arguments raise \<open>IndexError\<close> before any effect.
  C12: pkg-config without \<open>gio-2.0\<close> raises \<open>CalledProcessError\<close> before any tool
  runs. C13: a missing icon cache updater stops the run after the schema step. C14: a
  missing input-method query tool leaves \<open>immodules.cache\<close> empty. C15: the tool
  path is pkg-config's stripped answer when that path exists and the plain name
  otherwise. C16: on Windows each \<open>xxx-MAJOR.lib\<close> is copied to \<open>xxx-API.lib\<close>.
  C17: a dot-free API version makes that copy raise \<open>SameFileError\<close>. C18: on every
  branch, errors included, the script changes only what its source allows: no file other
  than the import-library copies and \<open>immodules.cache\<close>, and its directories, output
  and processes only grow. C19: a successful parse of the version script's command line
  holds exactly a string \<open>version\<close>. C20: \<open>--version=V\<close> passes any \<open>V\<close> unchanged.
  C21: every prefix of \<open>--version\<close> is accepted and the last value wins. C22: the
  version script run as the build runs it exits with 0 and writes the header. C23: its
  usage errors exit with 2 and write nothing, \<open>-h\<close> exits with 0. C24: a short
  version exits with 1 (traceback). C25: \<open>ctkpc.py --host H --broadway\<close> runs
  \<open>main\<close> with the Broadway backend. C26: \<open>--h\<close> is ambiguous for \<open>ctkpc.py\<close>
  (status 2). C27: one run of \<open>post-install.py\<close> starts at most six processes and
  prints at most four lines. C28: rendering with the generator's mappings is
  not idempotent: \<open>-lcdk-3\<close> becomes \<open>-lcdk-3.0\<close>, and that becomes
  \<open>-lcdk-3.0.0\<close> (likewise for \<open>ctk-3\<close> and \<open>gailutil-3\<close>).
  C29: \<open>os.name\<close> matters to the import-library copies only; after them a run
  on Windows is the run off Windows, so C9 to C14 carry over to Windows runs. C30: the
  exit statuses of the programs change neither the outcome nor any effect of a run.
  C31: \<open>ctkpc.py\<close> without \<open>--host\<close>, given no argument or only positional
  ones, exits with status 2 before \<open>main\<close> runs (\<open>required=True\<close> of line 26).

  \<^bold>\<open>Choices of the model.\<close> Strings are \<open>char list\<close>; paths follow \<open>posixpath\<close>
  on every platform, and so does the file system of \<open>PyOs\<close> (its \<open>can_write\<close>
  looks up the parent directory with \<open>posixpath.dirname\<close>). Under a native Windows
  Python \<open>os.path\<close> is \<open>ntpath\<close> (backslash separators, drive letters); a Windows
  run is therefore modelled as if its paths were POSIX paths, which changes their
  spelling and nothing the claims state about them except where a claim computes a
  concrete path. \<open>os_nt\<close> models the script's own test \<open>os.name == 'nt'\<close>
  (line 21), and C29 is about that test. \<open>main\<close> of each
  generator takes the parsed options (a record, or \<open>None\<close> for an option that was
  not given); the parse itself is \<open>Argparse\<close>, composed with \<open>main\<close> in
  \<open>Cli\<close>. \<open>main\<close> does not repeat the parser's \<open>required=True\<close>: on
  \<open>None\<close> it fails as Python would (\<open>AttributeError\<close> on \<open>None.split\<close>,
  \<open>TypeError\<close> on a \<open>None\<close> substitution value), so the usage errors come
  from the parsers alone. No loop needs fuel:
  \<open>subst\<close>, argparse's \<open>opt_loop\<close> and \<open>consume\<close> terminate by measures, the
  other loops are structural.

  \<^bold>\<open>Not modelled.\<close> What the external tools (pkg-config, the schema compiler,
  the icon cache updater, the module query tools) compute: a tool is modelled by whether
  it can be started, pkg-config by whether it knows \<open>gio-2.0\<close> and by its variables,
  and a tool's standard output and exit status by functions of its name
  (\<open>tool_stdout\<close>, \<open>tool_status\<close>); what they compute from the installed files is
  outside the sources. Of \<open>argparse\<close>, only what the generators'
  parsers use (see \<open>Argparse\<close>; CPython 3.11's treatment of \<open>--\<close>); the text of
  the help and the output on standard error are not modelled, usage errors keep the
  fixed part of argparse's message. \<open>BasePCItems\<close> is not among the sources: its
  items, directories and options are parameters. The lines of the sources left out of
  the map are the shebangs, comments and imports. The toolkit itself is not part of the
  sources. The post-install claims assume that the directory of \<open>immodules.cache\<close>
  exists before \<open>makedirs\<close> runs (it holds the installed modules).

  The Windows spelling of paths (\<open>ntpath\<close>: backslashes, drive letters, UNC
  prefixes, case-insensitive names) is not modelled: it needs a second file-system
  model in which \<open>can_write\<close>, \<open>makedirs\<close> and the file table split and compare
  paths the Windows way, and no claim here depends on the spelling.

  \<^bold>\<open>Status.\<close> Every statement of the three scripts is a mapped definition: the
  renderer and the two generators, \<open>post-install.py\<close>,
  the command lines and exit statuses. What remains outside is listed above.
\<close>

end
